theory Spec2Isabelle
  imports Complex_Main
begin

section \<open>Arrays and the numpy operations the model uses\<close>

text \<open>
  The source computes with numpy \<^verbatim>\<open>float64\<close> arrays.  The embedding idealises a float as a
  \<^typ>\<open>real\<close>: rounding, overflow and the values inf and nan are outside the model.  Where
  the source would leave the reals (a division by zero, the square root of a negative
  number), numpy continues with inf or nan and a warning; the embedding stops with the
  outcome \<open>NonFinite\<close> wherever it does not vouch for the real-number reading (a
  denominator that is zero, a square root of a negative number, a power of a base that
  is not positive), so that every result \<open>Inr\<close> of the model is a computation the reals
  idealise.  The other errors are the Python exceptions of the
  source.

  A 3x3 array is a list of three rows, a fourth-order tensor of shape (3,3,3,3) a list
  nested four deep, and a 9x9 operator a list of nine rows; \<open>is_mat33\<close> and
  \<open>is_tensor4\<close> state the shapes.
\<close>

type_synonym vec = "real list"
type_synonym mat = "real list list"
type_synonym tensor4 = "real list list list list"

datatype error =
    LinAlgError | ValueError | TypeError | AttributeError | ZeroDivisionError | NonFinite

definition is_mat33 :: "'a list list \<Rightarrow> bool" where
  "is_mat33 A = (length A = 3 \<and> list_all (\<lambda>r. length r = 3) A)"

definition is_tensor4 :: "tensor4 \<Rightarrow> bool" where
  "is_tensor4 E = (length E = 3 \<and> list_all (\<lambda>Ei. length Ei = 3 \<and> list_all is_mat33 Ei) E)"

definition eye3 :: mat where
  "eye3 = [[1, 0, 0], [0, 1, 0], [0, 0, 1]]"

definition zeros33 :: mat where
  "zeros33 = [[0, 0, 0], [0, 0, 0], [0, 0, 0]]"

definition mat_add :: "mat \<Rightarrow> mat \<Rightarrow> mat" where
  "mat_add A B = map2 (map2 (+)) A B"

definition mat_sub :: "mat \<Rightarrow> mat \<Rightarrow> mat" where
  "mat_sub A B = map2 (map2 (-)) A B"

definition mat_scale :: "real \<Rightarrow> mat \<Rightarrow> mat" where
  "mat_scale s A = map (map (\<lambda>x. s * x)) A"

definition mat_div :: "mat \<Rightarrow> real \<Rightarrow> mat" where
  "mat_div A s = map (map (\<lambda>x. x / s)) A"

definition flatten :: "'a list list \<Rightarrow> 'a list" where
  "flatten A = concat A"

definition reshape33 :: "'a list \<Rightarrow> 'a list list" where
  "reshape33 x = [take 3 x, take 3 (drop 3 x), take 3 (drop 6 x)]"

definition reshape99 :: "tensor4 \<Rightarrow> mat" where
  "reshape99 E = concat (map (map flatten) E)"

definition sum_sq :: "mat \<Rightarrow> real" where
  "sum_sq A = sum_list (map (\<lambda>x. x\<^sup>2) (flatten A))"

definition trace3 :: "mat \<Rightarrow> real" where
  "trace3 A = A ! 0 ! 0 + A ! 1 ! 1 + A ! 2 ! 2"

definition dot :: "vec \<Rightarrow> vec \<Rightarrow> real" where
  "dot u v = sum_list (map2 (*) u v)"

definition ddot :: "mat \<Rightarrow> mat \<Rightarrow> real" where
  "ddot A B = dot (flatten A) (flatten B)"

definition frob_norm :: "mat \<Rightarrow> real" where
  "frob_norm A = sqrt (sum_sq A)"

definition det3 :: "mat \<Rightarrow> real" where
  "det3 A =
       A ! 0 ! 0 * (A ! 1 ! 1 * A ! 2 ! 2 - A ! 1 ! 2 * A ! 2 ! 1)
     - A ! 0 ! 1 * (A ! 1 ! 0 * A ! 2 ! 2 - A ! 1 ! 2 * A ! 2 ! 0)
     + A ! 0 ! 2 * (A ! 1 ! 0 * A ! 2 ! 1 - A ! 1 ! 1 * A ! 2 ! 0)"

definition mat_vec :: "mat \<Rightarrow> vec \<Rightarrow> vec" where
  "mat_vec A x = map (\<lambda>r. dot r x) A"

definition outer4 :: "mat \<Rightarrow> mat \<Rightarrow> tensor4" where
  "outer4 A B = map (map (\<lambda>a. map (map (\<lambda>b. a * b)) B)) A"

definition tensor_of :: "(nat \<Rightarrow> nat \<Rightarrow> nat \<Rightarrow> nat \<Rightarrow> real) \<Rightarrow> tensor4" where
  "tensor_of f =
     map (\<lambda>i. map (\<lambda>j. map (\<lambda>k. map (\<lambda>l. f i j k l) [0, 1, 2]) [0, 1, 2]) [0, 1, 2]) [0, 1, 2]"

definition tensor_add :: "tensor4 \<Rightarrow> tensor4 \<Rightarrow> tensor4" where
  "tensor_add S T = map2 (map2 (map2 (map2 (+)))) S T"

definition tensor_sub :: "tensor4 \<Rightarrow> tensor4 \<Rightarrow> tensor4" where
  "tensor_sub S T = map2 (map2 (map2 (map2 (-)))) S T"

definition tensor_scale :: "real \<Rightarrow> tensor4 \<Rightarrow> tensor4" where
  "tensor_scale s T = map (map (map (map (\<lambda>x. s * x)))) T"

text \<open>\<^verbatim>\<open>np.einsum('ijpq,pqkl->ijkl', E, L)\<close>.\<close>

definition tensor_contract :: "tensor4 \<Rightarrow> tensor4 \<Rightarrow> tensor4" where
  "tensor_contract E L =
     map (map (\<lambda>Eij. map (\<lambda>k. map (\<lambda>l. dot (flatten Eij) (map (\<lambda>Lpq. Lpq ! k ! l) (flatten L)))
                                  [0, 1, 2]) [0, 1, 2])) E"

text \<open>The double contraction \<open>E : s\<close> of a stiffness tensor with a 3x3 array.\<close>

definition tensor_apply :: "tensor4 \<Rightarrow> mat \<Rightarrow> mat" where
  "tensor_apply E s = map (map (\<lambda>Eij. ddot Eij s)) E"

subsection \<open>\<^verbatim>\<open>np.linalg.solve\<close>\<close>

text \<open>
  LAPACK's \<^verbatim>\<open>gesv\<close> eliminates with partial pivoting and reports a singular matrix when
  a pivot is exactly zero, which numpy raises as \<^verbatim>\<open>LinAlgError\<close>.  Over the reals this is
  Gaussian elimination: \<open>pivot_split\<close> takes the row whose leading entry is largest in
  absolute value (the first of them), \<open>eliminate\<close> clears the leading entry of another
  row, and \<open>solve_rows\<close> solves the remaining system and substitutes back.  A row is
  a pair of its coefficients and its right-hand side.
\<close>

fun pivot_split :: "(vec \<times> real) list \<Rightarrow> ((vec \<times> real) \<times> (vec \<times> real) list) option" where
  "pivot_split [] = None"
| "pivot_split (r # rs) =
     (case pivot_split rs of
        None \<Rightarrow> if hd (fst r) = 0 then None else Some (r, rs)
      | Some (p, others) \<Rightarrow>
          if \<bar>hd (fst r)\<bar> < \<bar>hd (fst p)\<bar> then Some (p, r # others) else Some (r, rs))"

definition eliminate :: "vec \<times> real \<Rightarrow> vec \<times> real \<Rightarrow> vec \<times> real" where
  "eliminate p r =
     (let f = hd (fst r) / hd (fst p)
      in (map2 (\<lambda>x y. x - f * y) (tl (fst r)) (tl (fst p)), snd r - f * snd p))"

fun solve_rows :: "nat \<Rightarrow> (vec \<times> real) list \<Rightarrow> vec option" where
  "solve_rows 0 rows = Some []"
| "solve_rows (Suc n) rows =
     (case pivot_split rows of
        None \<Rightarrow> None
      | Some (p, others) \<Rightarrow>
          (case solve_rows n (map (eliminate p) others) of
             None \<Rightarrow> None
           | Some xs \<Rightarrow> Some ((snd p - dot (tl (fst p)) xs) / hd (fst p) # xs)))"

definition is_square :: "mat \<Rightarrow> bool" where
  "is_square A = list_all (\<lambda>r. length r = length A) A"

definition linalg_solve :: "mat \<Rightarrow> vec \<Rightarrow> error + vec" where
  "linalg_solve A b =
     (if \<not> is_square A then Inl LinAlgError
      else if length b \<noteq> length A then Inl ValueError
      else case solve_rows (length A) (zip A b) of
             None \<Rightarrow> Inl LinAlgError
           | Some x \<Rightarrow> Inr x)"

text \<open>
  A square matrix is invertible when its kernel is trivial.  The predicate is used in
  the statements only; the code never evaluates it.
\<close>

definition kernel_trivial :: "nat \<Rightarrow> vec list \<Rightarrow> bool" where
  "kernel_trivial n rs =
     (\<forall>y. length y = n \<and> (\<forall>r\<in>set rs. dot r y = 0) \<longrightarrow> y = replicate n 0)"

definition nonsingular :: "mat \<Rightarrow> bool" where
  "nonsingular A = (is_square A \<and> kernel_trivial (length A) A)"

subsection \<open>Boolean masks\<close>

text \<open>\<^verbatim>\<open>x[d]\<close>, \<^verbatim>\<open>x[d] = 0.0\<close> and \<^verbatim>\<open>x[d] = v\<close> for a boolean mask \<^verbatim>\<open>d\<close>.\<close>

definition mask_select :: "bool list \<Rightarrow> 'a list \<Rightarrow> 'a list" where
  "mask_select d xs = map snd (filter fst (zip d xs))"

definition mask_fill :: "bool list \<Rightarrow> real \<Rightarrow> vec \<Rightarrow> vec" where
  "mask_fill d v xs = map2 (\<lambda>m x. if m then v else x) d xs"

fun mask_assign :: "bool list \<Rightarrow> vec \<Rightarrow> vec \<Rightarrow> vec" where
  "mask_assign (m # ms) (x # xs) vs =
     (if m then hd vs # mask_assign ms xs (tl vs) else x # mask_assign ms xs vs)"
| "mask_assign _ xs _ = xs"

section \<open>The state snapshot \<^verbatim>\<open>StateParameters\<close>\<close>

text \<open>
  The constructor sets the four arrays, \<^verbatim>\<open>pmin\<close>, the invariants \<^verbatim>\<open>p, sij, rij, R\<close>, the
  increment \<^verbatim>\<open>dp\<close> and the two flags.  Every other attribute is set later by the model;
  reading one that is not set yet raises \<^verbatim>\<open>AttributeError\<close>, so these are optional
  fields.  A field \<open>sp_x\<close> or \<open>x\<close> is the attribute \<^verbatim>\<open>sp.x\<close>.
\<close>

record state_parameters =
  sp_strain :: mat
  sp_stress :: mat
  sp_dstress :: mat
  sp_dstrain :: mat
  sp_pmin :: real
  sp_p :: real
  sp_sij :: mat
  sp_rij :: mat
  sp_R :: real
  sp_dp :: real
  elastic_flag1 :: bool
  elastic_flag2 :: bool
  rij_bar :: "mat option"
  R_bar :: "real option"
  g_bar :: "real option"
  rho1_ratio :: "real option"
  p_bar :: "real option"
  rho2_ratio :: "real option"
  Ge :: "real option"
  Ke :: "real option"
  psi :: "real option"
  sp_g :: "real option"
  sp_h :: "real option"
  Kp1 :: "real option"
  Kp1_b :: "real option"
  D1 :: "real option"
  Kp2 :: "real option"
  Kp2_b :: "real option"
  D2 :: "real option"
  nij :: "mat option"
  mij :: "mat option"
  sp_B :: "real option"
  Tij :: "mat option"
  Zij :: "mat option"
  Ep :: "tensor4 option"

definition attr :: "'a option \<Rightarrow> error + 'a" where
  "attr x = (case x of None \<Rightarrow> Inl AttributeError | Some v \<Rightarrow> Inr v)"

definition ebind :: "error + 'a \<Rightarrow> ('a \<Rightarrow> error + 'b) \<Rightarrow> error + 'b" where
  "ebind r f = (case r of Inl e \<Rightarrow> Inl e | Inr v \<Rightarrow> f v)"

definition sp_set_stress_variable :: "state_parameters \<Rightarrow> state_parameters" where
  "sp_set_stress_variable sp =
     (let stress = sp_stress sp;
          p = (stress ! 0 ! 0 + stress ! 1 ! 1 + stress ! 2 ! 2) / 3;
          sij = mat_sub stress (mat_scale p eye3);
          rij = mat_div sij (max p (sp_pmin sp));
          R = sqrt (1.5 * sum_sq rij)
      in sp\<lparr>sp_p := p, sp_sij := sij, sp_rij := rij, sp_R := R\<rparr>)"

definition sp_set_stress_increment :: "state_parameters \<Rightarrow> state_parameters" where
  "sp_set_stress_increment sp =
     (let stress = mat_add (sp_stress sp) (sp_dstress sp);
          p = (stress ! 0 ! 0 + stress ! 1 ! 1 + stress ! 2 ! 2) / 3
      in sp\<lparr>sp_dp := p - sp_p sp\<rparr>)"

definition StateParameters :: "mat \<Rightarrow> mat \<Rightarrow> mat \<Rightarrow> mat \<Rightarrow> bool \<Rightarrow> bool \<Rightarrow> state_parameters" where
  "StateParameters strain stress dstrain dstress ef1 ef2 =
     (sp_set_stress_increment (sp_set_stress_variable
        \<lparr>sp_strain = strain, sp_stress = stress, sp_dstress = dstress, sp_dstrain = dstrain,
         sp_pmin = 1, sp_p = 0, sp_sij = [], sp_rij = [], sp_R = 0, sp_dp = 0,
         elastic_flag1 = False, elastic_flag2 = False,
         rij_bar = None, R_bar = None, g_bar = None, rho1_ratio = None, p_bar = None,
         rho2_ratio = None, Ge = None, Ke = None, psi = None, sp_g = None, sp_h = None,
         Kp1 = None, Kp1_b = None, D1 = None, Kp2 = None, Kp2_b = None, D2 = None,
         nij = None, mij = None, sp_B = None, Tij = None, Zij = None, Ep = None\<rparr>))
       \<lparr>elastic_flag1 := ef1, elastic_flag2 := ef2\<rparr>"

section \<open>The model \<^verbatim>\<open>Li2002\<close>\<close>

text \<open>
  A field \<open>s_x\<close> is the attribute \<^verbatim>\<open>self.x\<close>.  The constructor does not set \<^verbatim>\<open>self.e\<close> and
  \<^verbatim>\<open>self.e0\<close>; the drivers do.
\<close>

record li2002 =
  s_G0 :: real
  s_nu :: real
  s_M :: real
  s_c :: real
  s_eg :: real
  s_rlambdac :: real
  s_xi :: real
  s_d1 :: real
  s_m :: real
  s_h1 :: real
  s_h2 :: real
  s_h3 :: real
  s_n :: real
  s_d2 :: real
  s_h4 :: real
  s_a :: real
  s_b1 :: real
  s_b2 :: real
  s_b3 :: real
  s_eps :: real
  s_pr :: real
  s_pmin :: real
  s_stress :: mat
  s_strain :: mat
  s_alpha :: mat
  s_beta :: real
  s_H1 :: real
  s_H2 :: real
  s_L1 :: real
  s_e :: "real option"
  s_e0 :: "real option"

definition Li2002 ::
  "real \<Rightarrow> real \<Rightarrow> real \<Rightarrow> real \<Rightarrow> real \<Rightarrow> real \<Rightarrow> real \<Rightarrow> real \<Rightarrow> real \<Rightarrow> real \<Rightarrow> real \<Rightarrow> real \<Rightarrow>
   real \<Rightarrow> real \<Rightarrow> real \<Rightarrow> real \<Rightarrow> real \<Rightarrow> real \<Rightarrow> real \<Rightarrow> li2002" where
  "Li2002 G0 nu M c eg rlambdac xi d1 m h1 h2 h3 n d2 h4 a b1 b2 b3 =
     \<lparr>s_G0 = G0, s_nu = nu, s_M = M, s_c = c, s_eg = eg, s_rlambdac = rlambdac, s_xi = xi,
      s_d1 = d1, s_m = m, s_h1 = h1, s_h2 = h2, s_h3 = h3, s_n = n, s_d2 = d2, s_h4 = h4,
      s_a = a, s_b1 = b1, s_b2 = b2, s_b3 = b3,
      s_eps = 1 / 1000000, s_pr = 101000, s_pmin = 100,
      s_stress = zeros33, s_strain = zeros33, s_alpha = zeros33,
      s_beta = 0, s_H1 = 0, s_H2 = 0, s_L1 = 0, s_e = None, s_e0 = None\<rparr>"

text \<open>The default parameters (Toyoura sand).\<close>

definition Li2002_default :: li2002 where
  "Li2002_default =
     Li2002 125 0.25 1.25 0.75 0.934 0.019 0.7 0.41 3.5 3.15 3.05 2.2 1.1 1 3.5 1 0.005 2 0.01"

definition vector_to_matrix :: "'a list \<Rightarrow> 'a list list" where
  "vector_to_matrix v =
     [[v ! 0, v ! 3, v ! 5],
      [v ! 3, v ! 1, v ! 4],
      [v ! 5, v ! 4, v ! 2]]"

definition matrix_to_vector :: "'a list list \<Rightarrow> 'a list" where
  "matrix_to_vector A = [A ! 0 ! 0, A ! 1 ! 1, A ! 2 ! 2, A ! 0 ! 1, A ! 1 ! 2, A ! 2 ! 0]"

definition clear_strain :: "li2002 \<Rightarrow> li2002" where
  "clear_strain st = st\<lparr>s_strain := zeros33\<rparr>"

definition set_strain_variable :: "mat \<Rightarrow> real \<times> real" where
  "set_strain_variable strain_mat =
     (let ev = strain_mat ! 0 ! 0 + strain_mat ! 1 ! 1 + strain_mat ! 2 ! 2;
          dev_strain = mat_sub strain_mat (mat_scale (ev / 3) eye3);
          gamma = sqrt (2 / 3 * sum_sq dev_strain)
      in (ev, gamma))"

definition set_stress_variable :: "li2002 \<Rightarrow> mat \<Rightarrow> real \<times> real" where
  "set_stress_variable st stress =
     (let p = (stress ! 0 ! 0 + stress ! 1 ! 1 + stress ! 2 ! 2) / 3;
          dev_stress = mat_sub stress (mat_scale p eye3);
          r_stress = mat_div dev_stress (max p (s_pmin st));
          R = sqrt (1.5 * sum_sq r_stress)
      in (p, R))"

subsection \<open>Lode angle and the shape function\<close>

definition Lode_angle :: "mat \<Rightarrow> real" where
  "Lode_angle dev_stress =
     (let J2 = 0.5 * sum_sq dev_stress;
          J3 = - det3 dev_stress;
          s3 = (if J2 = 0 then 0 else min (max (J3 / 2 * (3 / J2) powr 1.5) (-1)) 1)
      in arcsin s3 / 3)"

definition g_theta :: "li2002 \<Rightarrow> mat \<Rightarrow> real" where
  "g_theta st dev_stress =
     (let theta = Lode_angle dev_stress;
          sn = sin (3 * theta);
          c = s_c st
      in if sn = 0 then (c * (1 + c)) / (1 + c\<^sup>2)
         else (sqrt ((1 + c\<^sup>2)\<^sup>2 + 4 * c * (1 - c\<^sup>2) * sn) - (1 + c\<^sup>2)) / (2 * (1 - c) * sn))"

definition dg_theta :: "li2002 \<Rightarrow> real \<Rightarrow> real" where
  "dg_theta st theta =
     (let sn = sin (3 * theta);
          c = s_c st
      in if sn = 0 then (- c\<^sup>2 * (1 - c) * (1 + c)\<^sup>2) / (1 + c\<^sup>2) ^ 3
         else (let g11 = c * (1 + c);
                   g12 = sn * sqrt ((1 + c\<^sup>2)\<^sup>2 + 4 * c * (1 - c\<^sup>2) * sn);
                   g21 = sqrt ((1 + c\<^sup>2)\<^sup>2 + 4 * c * (1 - c\<^sup>2) * sn) - (1 + c\<^sup>2);
                   g22 = 2 * (1 - c) * sn * sn
               in g11 / g12 - g21 / g22))"



text \<open>Where the two functions stay in the reals.\<close>

definition g_theta_finite :: "li2002 \<Rightarrow> mat \<Rightarrow> bool" where
  "g_theta_finite st dev_stress =
     (let sn = sin (3 * Lode_angle dev_stress); c = s_c st
      in if sn = 0 then True else c \<noteq> 1 \<and> 0 \<le> (1 + c\<^sup>2)\<^sup>2 + 4 * c * (1 - c\<^sup>2) * sn)"

definition dg_theta_finite :: "li2002 \<Rightarrow> real \<Rightarrow> bool" where
  "dg_theta_finite st theta =
     (let sn = sin (3 * theta); c = s_c st
      in if sn = 0 then True else c \<noteq> 1 \<and> 0 < (1 + c\<^sup>2)\<^sup>2 + 4 * c * (1 - c\<^sup>2) * sn)"

subsection \<open>State parameter and elastic response\<close>

definition state_parameter :: "li2002 \<Rightarrow> real \<Rightarrow> real \<Rightarrow> real" where
  "state_parameter st e p =
     e - (s_eg st - s_rlambdac st * (max p (s_pmin st) / s_pr st) powr s_xi st)"

definition elastic_modulus :: "li2002 \<Rightarrow> real \<Rightarrow> real \<Rightarrow> real \<times> real" where
  "elastic_modulus st e p =
     (let G = s_G0 st * (2.97 - e)\<^sup>2 / (1 + e) * sqrt (max p (s_pmin st) * s_pr st);
          K = G * 2 * (1 + s_nu st) / (3 * (1 - 2 * s_nu st))
      in (G, K))"

text \<open>
  Where \<open>elastic_modulus\<close> and \<open>state_parameter\<close> stay in the reals: no division by
  zero, a non-negative argument of the square root and a positive base of the power.
\<close>

definition moduli_finite :: "li2002 \<Rightarrow> real \<Rightarrow> real \<Rightarrow> bool" where
  "moduli_finite st e p =
     (1 + e \<noteq> 0 \<and> 1 - 2 * s_nu st \<noteq> 0 \<and> 0 < s_pr st \<and> 0 < max p (s_pmin st))"

definition elastic_stiffness :: "li2002 \<Rightarrow> real \<Rightarrow> tensor4" where
  "elastic_stiffness st G =
     (let mu = G;
          rlambda = 2 * G * s_nu st / (1 - 2 * s_nu st);
          Dijkl = tensor_of (\<lambda>i j k l. eye3 ! i ! j * eye3 ! k ! l);
          Dikjl = tensor_of (\<lambda>i k j l. eye3 ! i ! j * eye3 ! k ! l)
      in tensor_add (tensor_scale rlambda Dijkl) (tensor_scale (2 * mu) Dikjl))"

definition isotropic_compression_stiffness :: "li2002 \<Rightarrow> real \<Rightarrow> real \<Rightarrow> tensor4" where
  "isotropic_compression_stiffness st e p =
     (let (G, K) = elastic_modulus st e p;
          fn = 2 * (1 + s_nu st) / (3 * (1 - 2 * s_nu st));
          K2 = G * fn * s_h4 st / (s_h4 st + sqrt (2 / 3) * fn * s_d2 st);
          G2 = K2 / fn
      in elastic_stiffness st G2)"

definition compression_finite :: "li2002 \<Rightarrow> real \<Rightarrow> real \<Rightarrow> bool" where
  "compression_finite st e p =
     (moduli_finite st e p \<and> 1 + s_nu st \<noteq> 0
      \<and> s_h4 st + sqrt (2 / 3) * (2 * (1 + s_nu st) / (3 * (1 - 2 * s_nu st))) * s_d2 st \<noteq> 0)"

subsection \<open>The linear solvers\<close>

definition solve_strain :: "mat \<Rightarrow> tensor4 \<Rightarrow> error + mat" where
  "solve_strain stress_mat E =
     (let b = flatten stress_mat;
          A = reshape99 E
      in ebind (linalg_solve A b) (\<lambda>x. Inr (reshape33 x)))"

definition solve_strain_with_consttain ::
  "mat \<Rightarrow> mat \<Rightarrow> tensor4 \<Rightarrow> bool list list \<Rightarrow> error + (mat \<times> mat)" where
  "solve_strain_with_consttain strain_given stress_given E deformation =
     (let d = flatten deformation;
          A = reshape99 E;
          strain = mask_fill d 0 (flatten strain_given);
          stress_constrain = mat_vec A strain;
          stress = map2 (-) (flatten stress_given) stress_constrain;
          stress_mask = mask_select d stress;
          A_mask = map (mask_select d) (mask_select d A)
      in ebind (linalg_solve A_mask stress_mask) (\<lambda>strain_mask.
           let strain' = mask_assign d strain strain_mask;
               stress' = mat_vec A strain'
           in Inr (reshape33 strain', reshape33 stress')))"

text \<open>The two uniform masks: every component stress-prescribed, every component
  strain-prescribed.\<close>

definition all_True :: "bool list list" where
  "all_True = [[True, True, True], [True, True, True], [True, True, True]]"

definition all_False :: "bool list list" where
  "all_False = [[False, False, False], [False, False, False], [False, False, False]]"

definition elastic_deformation ::
  "li2002 \<Rightarrow> mat \<Rightarrow> mat \<Rightarrow> real \<Rightarrow> bool list list \<Rightarrow> error + (mat \<times> mat)" where
  "elastic_deformation st dstrain dstress G deformation =
     solve_strain_with_consttain dstrain dstress (elastic_stiffness st G) deformation"

section \<open>Bounding-surface mapping\<close>

text \<open>
  \<^verbatim>\<open>scipy.optimize.brentq\<close> is a library root finder: it returns an approximate root of its
  function argument in the bracket, or raises \<^verbatim>\<open>ValueError\<close> when the function has the
  same sign at both ends.  The model takes it as a parameter \<open>brentq\<close> and assumes
  nothing about what it returns.
\<close>

type_synonym root_finder = "(real \<Rightarrow> real) \<Rightarrow> real \<Rightarrow> real \<Rightarrow> error + real"

definition mapping_r :: "li2002 \<Rightarrow> real \<Rightarrow> mat \<Rightarrow> mat \<Rightarrow> mat \<times> real \<times> real" where
  "mapping_r st t rij alpha =
     (let rij_bar' = mat_add alpha (mat_scale t (mat_sub rij alpha));
          g_bar' = g_theta st rij_bar';
          R_bar' = sqrt (1.5 * sum_sq rij_bar')
      in (rij_bar', R_bar', g_bar'))"

definition F1_boundary_surface :: "li2002 \<Rightarrow> real \<Rightarrow> mat \<Rightarrow> mat \<Rightarrow> real" where
  "F1_boundary_surface st t rij alpha =
     (case mapping_r st t rij alpha of (_, R_bar', g_bar') \<Rightarrow> R_bar' - s_H1 st * g_bar')"

text \<open>
  \<open>set_mapping_stress\<close> in three parts, in the order of the source: the two
  assignments that recentre \<^verbatim>\<open>alpha\<close> and \<^verbatim>\<open>beta\<close> when the snapshot enters with a flag
  set, the mapping of mechanism 1, and the mapping of mechanism 2 (whose early returns
  end the method).
\<close>

definition recenter :: "li2002 \<Rightarrow> state_parameters \<Rightarrow> li2002" where
  "recenter st sp =
     (let st1 = (if elastic_flag1 sp then st\<lparr>s_alpha := sp_rij sp\<rparr> else st)
      in if elastic_flag2 sp then st1\<lparr>s_beta := sp_p sp\<rparr> else st1)"

definition mapping1 ::
  "root_finder \<Rightarrow> li2002 \<Rightarrow> state_parameters \<Rightarrow> error + (li2002 \<times> state_parameters)" where
  "mapping1 brentq st sp =
     (if frob_norm (mat_sub (sp_rij sp) (s_alpha st)) < 1 / 1000000
      then Inr (st, sp\<lparr>elastic_flag1 := True\<rparr>)
      else case mapping_r st 1 (sp_rij sp) (s_alpha st) of (rb, Rb, gb) \<Rightarrow>
        if \<not> g_theta_finite st rb then Inl NonFinite
        else if F1_boundary_surface st 1 (sp_rij sp) (s_alpha st) > 0
        then (if gb = 0 then Inl NonFinite
              else Inr (st\<lparr>s_H1 := Rb / gb\<rparr>,
                        sp\<lparr>rij_bar := Some rb, R_bar := Some Rb, g_bar := Some gb,
                           rho1_ratio := Some 1\<rparr>))
        else ebind (brentq (\<lambda>t. F1_boundary_surface st t (sp_rij sp) (s_alpha st)) 1 1000000)
               (\<lambda>t. case mapping_r st t (sp_rij sp) (s_alpha st) of (rb', Rb', gb') \<Rightarrow>
                  if \<not> g_theta_finite st rb' then Inl NonFinite
                  else Inr (st, sp\<lparr>rij_bar := Some rb', R_bar := Some Rb', g_bar := Some gb',
                                   rho1_ratio := Some t\<rparr>)))"

definition mapping2 :: "li2002 \<Rightarrow> state_parameters \<Rightarrow> li2002 \<times> state_parameters" where
  "mapping2 st sp =
     (if \<bar>sp_p sp - s_beta st\<bar> = 0 then (st, sp\<lparr>elastic_flag2 := True\<rparr>)
      else
        let st' = (if sp_p sp > s_H2 st then st\<lparr>s_H2 := sp_p sp\<rparr> else st)
        in if sp_dp sp > 0 then
             (if sp_p sp \<le> s_beta st' then (st', sp\<lparr>elastic_flag2 := True\<rparr>)
              else (st', sp\<lparr>p_bar := Some (s_H2 st'),
                             rho2_ratio := Some (\<bar>s_H2 st' - s_beta st'\<bar> / \<bar>sp_p sp - s_beta st'\<bar>)\<rparr>))
           else if sp_dp sp < 0 then
             (if s_beta st' \<le> sp_p sp then (st', sp\<lparr>elastic_flag2 := True\<rparr>)
              else (st', sp\<lparr>p_bar := Some (s_pmin st'),
                             rho2_ratio := Some (\<bar>s_pmin st' - s_beta st'\<bar> / \<bar>sp_p sp - s_beta st'\<bar>)\<rparr>))
           else (st', sp\<lparr>elastic_flag2 := True\<rparr>))"

definition set_mapping_stress ::
  "root_finder \<Rightarrow> li2002 \<Rightarrow> state_parameters \<Rightarrow> error + (li2002 \<times> state_parameters)" where
  "set_mapping_stress brentq st sp =
     ebind (mapping1 brentq (recenter st sp) sp) (\<lambda>(st1, sp1). Inr (mapping2 st1 sp1))"

section \<open>Plastic moduli and dilatancy\<close>

definition accumulated_load_index :: "li2002 \<Rightarrow> real \<Rightarrow> real" where
  "accumulated_load_index st L1 =
     (1 - s_b3 st) / sqrt ((1 - L1 / s_b1 st)\<^sup>2 + (L1 / s_b1 st) / (s_b2 st)\<^sup>2) + s_b3 st"

text \<open>The source's \<^verbatim>\<open>scaling_factor(e, rho1_ratio)\<close> ignores its argument \<^verbatim>\<open>e\<close> and reads
  \<^verbatim>\<open>self.e\<close> and \<^verbatim>\<open>self.L1\<close>; the argument \<open>e\<close> here is the value of \<^verbatim>\<open>self.e\<close>.\<close>

definition scaling_factor :: "li2002 \<Rightarrow> real \<Rightarrow> real \<Rightarrow> real" where
  "scaling_factor st e rho1 =
     (let fL = accumulated_load_index st (s_L1 st);
          r1 = (1 / rho1) ^ 10
      in (s_h1 st - s_h2 st * e) * (r1 + s_h3 st * fL * (1 - r1)))"

definition plastic_modulus1 ::
  "li2002 \<Rightarrow> real \<Rightarrow> real \<Rightarrow> real \<Rightarrow> real \<Rightarrow> real \<Rightarrow> real \<Rightarrow> real \<times> real" where
  "plastic_modulus1 st G Rb gb rho1 h ps =
     (let Mg_R = s_M st * gb * exp (- s_n st * ps) / Rb
      in (G * h * (Mg_R * rho1 - 1), G * h * (Mg_R - 1)))"

definition dilatancy1 :: "li2002 \<Rightarrow> real \<Rightarrow> real \<Rightarrow> real \<Rightarrow> real \<Rightarrow> real" where
  "dilatancy1 st R g rho1 ps =
     (let R_Mg = R / (s_M st * g)
      in s_d1 st * (exp (s_m st * ps) * sqrt rho1 - R_Mg))"

definition plastic_modulus2 :: "li2002 \<Rightarrow> real \<Rightarrow> real \<Rightarrow> real \<Rightarrow> real \<Rightarrow> real \<times> real" where
  "plastic_modulus2 st G Mg_R rho2 sign =
     (let Kp2' = G * s_h4 st * Mg_R * rho2 powr s_a st * sign
      in (Kp2', if rho2 = 1 \<and> sign > 0 then Kp2' else 0))"

definition dilatancy2 :: "li2002 \<Rightarrow> real \<Rightarrow> real \<Rightarrow> real" where
  "dilatancy2 st Mg_R sign = (if Mg_R \<ge> 1 then s_d2 st * (Mg_R - 1) * sign else 0)"

text \<open>Where the computations of mechanism 1 and of a power \<^verbatim>\<open>rho2_ratio ** a\<close> stay in
  the reals.\<close>

definition mechanism1_finite :: "li2002 \<Rightarrow> real \<Rightarrow> real \<Rightarrow> real \<Rightarrow> bool" where
  "mechanism1_finite st rho1 Rb g =
     (s_b1 st \<noteq> 0 \<and> s_b2 st \<noteq> 0
      \<and> 0 < (1 - s_L1 st / s_b1 st)\<^sup>2 + (s_L1 st / s_b1 st) / (s_b2 st)\<^sup>2
      \<and> 0 < rho1 \<and> Rb \<noteq> 0 \<and> s_M st * g \<noteq> 0)"

definition power_finite :: "real \<Rightarrow> real \<Rightarrow> bool" where
  "power_finite x y = (0 < x \<or> (x = 0 \<and> 0 < y))"

text \<open>\<open>set_parameters\<close>: the elastic moduli, then mechanism 1, then mechanism 2.\<close>

definition set_parameters1 ::
  "li2002 \<Rightarrow> real \<Rightarrow> real \<Rightarrow> real \<Rightarrow> real \<Rightarrow> state_parameters \<Rightarrow> error + state_parameters" where
  "set_parameters1 st e G ps g sp =
     (if elastic_flag1 sp then Inr (sp\<lparr>Kp1_b := Some 0\<rparr>)
      else
        ebind (attr (rho1_ratio sp)) (\<lambda>rho1.
        ebind (attr (R_bar sp)) (\<lambda>Rb.
        ebind (attr (g_bar sp)) (\<lambda>gb.
          if \<not> mechanism1_finite st rho1 Rb g then Inl NonFinite
          else
            let h = scaling_factor st e rho1;
                (Kp1', Kp1_b') = plastic_modulus1 st G Rb gb rho1 h ps;
                D1' = dilatancy1 st (sp_R sp) g rho1 ps
            in Inr (sp\<lparr>sp_h := Some h, Kp1 := Some Kp1', Kp1_b := Some Kp1_b',
                       D1 := Some D1'\<rparr>)))))"

definition set_parameters2 ::
  "li2002 \<Rightarrow> real \<Rightarrow> real \<Rightarrow> state_parameters \<Rightarrow> error + state_parameters" where
  "set_parameters2 st G g sp =
     (if elastic_flag2 sp \<or> sp_R sp = 0 then Inr (sp\<lparr>Kp2_b := Some 0\<rparr>)
      else
        ebind (attr (rho2_ratio sp)) (\<lambda>rho2.
          if \<not> (sp_dp sp \<noteq> 0 \<and> power_finite rho2 (s_a st)) then Inl NonFinite
          else
            let sign = sp_dp sp / \<bar>sp_dp sp\<bar>;
                Mg_R = s_M st * g / sp_R sp;
                (Kp2', Kp2_b') = plastic_modulus2 st G Mg_R rho2 sign;
                D2' = dilatancy2 st Mg_R sign
            in Inr (sp\<lparr>Kp2 := Some Kp2', Kp2_b := Some Kp2_b', D2 := Some D2'\<rparr>)))"

definition set_parameters :: "li2002 \<Rightarrow> state_parameters \<Rightarrow> error + state_parameters" where
  "set_parameters st sp =
     ebind (attr (s_e st)) (\<lambda>e.
       if \<not> (moduli_finite st e (sp_p sp) \<and> g_theta_finite st (sp_sij sp)) then Inl NonFinite
       else
         let (G, K) = elastic_modulus st e (sp_p sp);
             ps = state_parameter st e (sp_p sp);
             g = g_theta st (sp_sij sp);
             sp1 = sp\<lparr>Ge := Some G, Ke := Some K, psi := Some ps, sp_g := Some g\<rparr>
         in ebind (set_parameters1 st e G ps g sp1) (set_parameters2 st G g))"

section \<open>Flow directions\<close>

definition dF1_r :: "li2002 \<Rightarrow> mat \<Rightarrow> real \<Rightarrow> real \<Rightarrow> real \<Rightarrow> real \<Rightarrow> mat" where
  "dF1_r st r_bar Rb theta_bar gb dg_bar =
     (if \<bar>Rb\<bar> < s_eps st then zeros33
      else
        let st_bar = sin (3 * theta_bar);
            a = Rb * gb + 3 * Rb * st_bar * dg_bar;
            b = 9 * dg_bar;
            c = 1.5 / (Rb * gb)\<^sup>2;
            rr_bar = map (\<lambda>ri. map (\<lambda>rj. dot ri rj) r_bar) r_bar
        in mat_scale c (mat_add (mat_scale a r_bar) (mat_scale b rr_bar)))"

text \<open>
  \<open>set_parameter_nm\<close>: the flow direction \<^verbatim>\<open>nij\<close> of mechanism 1 (the normalised
  deviator of \<^verbatim>\<open>dF1\<close>), set when the mechanism is plastic, then \<^verbatim>\<open>mij\<close>.
\<close>

definition flow_direction ::
  "li2002 \<Rightarrow> mat \<Rightarrow> mat \<Rightarrow> real \<Rightarrow> real \<Rightarrow> error + mat" where
  "flow_direction st sij rb Rb gb =
     (let theta_bar = Lode_angle sij;
          dg_bar = dg_theta st theta_bar;
          dF1 = dF1_r st rb Rb theta_bar gb dg_bar;
          dF1_tr = trace3 dF1;
          nij' = mat_sub dF1 (mat_scale (dF1_tr / 3) eye3)
      in if \<not> (dg_theta_finite st theta_bar \<and> (\<bar>Rb\<bar> < s_eps st \<or> Rb * gb \<noteq> 0)
                \<and> frob_norm nij' \<noteq> 0)
         then Inl NonFinite
         else Inr (mat_div nij' (frob_norm nij')))"

definition set_nij :: "li2002 \<Rightarrow> state_parameters \<Rightarrow> error + state_parameters" where
  "set_nij st sp =
     (if \<not> elastic_flag1 sp then
        ebind (attr (rij_bar sp)) (\<lambda>rb.
        ebind (attr (R_bar sp)) (\<lambda>Rb.
        ebind (attr (g_bar sp)) (\<lambda>gb.
        ebind (flow_direction st (sp_sij sp) rb Rb gb) (\<lambda>n.
          Inr (sp\<lparr>nij := Some n\<rparr>)))))
      else Inr sp)"

definition set_mij :: "state_parameters \<Rightarrow> state_parameters" where
  "set_mij sp =
     (let r_abs = frob_norm (sp_rij sp)
      in sp\<lparr>mij := Some (if r_abs = 0 then zeros33 else mat_div (sp_rij sp) r_abs)\<rparr>)"

definition set_parameter_nm :: "li2002 \<Rightarrow> state_parameters \<Rightarrow> error + state_parameters" where
  "set_parameter_nm st sp = ebind (set_nij st sp) (\<lambda>sp1. Inr (set_mij sp1))"

text \<open>\<open>set_parameter_TZ\<close>: the coupling term \<^verbatim>\<open>B\<close>, then \<^verbatim>\<open>Tij\<close>, then \<^verbatim>\<open>Zij\<close>.\<close>

definition set_B :: "state_parameters \<Rightarrow> error + state_parameters" where
  "set_B sp =
     (if elastic_flag1 sp \<or> elastic_flag2 sp \<or> sp_R sp = 0 then Inr (sp\<lparr>sp_B := Some 0\<rparr>)
      else
        ebind (attr (nij sp)) (\<lambda>n.
        ebind (attr (mij sp)) (\<lambda>m.
        ebind (attr (Ge sp)) (\<lambda>G.
        ebind (attr (Ke sp)) (\<lambda>K.
        ebind (attr (D2 sp)) (\<lambda>D2'.
        ebind (attr (Kp2 sp)) (\<lambda>Kp2'.
          let nm = ddot n m;
              nr = ddot n (sp_rij sp);
              Bu = 2 * G * nm - sqrt (2 / 3) * K * D2' * nr;
              Bd = sqrt (2 / 3) * K * D2' + Kp2'
          in if Bd = 0 then Inl NonFinite else Inr (sp\<lparr>sp_B := Some (Bu / Bd)\<rparr>))))))))"

definition set_Tij :: "state_parameters \<Rightarrow> error + state_parameters" where
  "set_Tij sp =
     (if elastic_flag1 sp then Inr (sp\<lparr>Tij := Some zeros33\<rparr>)
      else
        ebind (attr (nij sp)) (\<lambda>n.
        ebind (attr (Ge sp)) (\<lambda>G.
        ebind (attr (Ke sp)) (\<lambda>K.
        ebind (attr (sp_B sp)) (\<lambda>B.
        ebind (attr (D1 sp)) (\<lambda>D1'.
        ebind (attr (Kp1 sp)) (\<lambda>Kp1'.
          let nr = ddot n (sp_rij sp);
              Tu = mat_sub (mat_scale (2 * G) n) (mat_scale (K * (nr + B)) eye3);
              Td = 2 * G - sqrt (2 / 3) * K * D1' * (nr + B) + Kp1'
          in if Td = 0 then Inl NonFinite else Inr (sp\<lparr>Tij := Some (mat_div Tu Td)\<rparr>))))))))"

definition Zij_denominator :: "li2002 \<Rightarrow> state_parameters \<Rightarrow> real \<Rightarrow> error + real" where
  "Zij_denominator st sp K =
     (if sp_R sp = 0 then
        ebind (attr (Ge sp)) (\<lambda>G.
        ebind (attr (rho2_ratio sp)) (\<lambda>rho2.
          if \<not> (s_d2 st \<noteq> 0 \<and> power_finite rho2 (s_a st)) then Inl NonFinite
          else Inr (sqrt (2 / 3) * K + G * s_h4 st / s_d2 st * rho2 powr s_a st)))
      else
        ebind (attr (D2 sp)) (\<lambda>D2'.
        ebind (attr (Kp2 sp)) (\<lambda>Kp2'.
          Inr (sqrt (2 / 3) * K * D2' + Kp2'))))"

definition set_Zij :: "li2002 \<Rightarrow> state_parameters \<Rightarrow> error + state_parameters" where
  "set_Zij st sp =
     (if elastic_flag2 sp then Inr (sp\<lparr>Zij := Some zeros33\<rparr>)
      else
        ebind (attr (Ke sp)) (\<lambda>K.
        ebind (attr (D1 sp)) (\<lambda>D1'.
        ebind (attr (Tij sp)) (\<lambda>T.
        ebind (Zij_denominator st sp K) (\<lambda>Zd.
          if Zd = 0 then Inl NonFinite
          else Inr (sp\<lparr>Zij := Some (mat_div (mat_sub (mat_scale K eye3)
                       (mat_scale (sqrt (2 / 3) * K * D1') T)) Zd)\<rparr>))))))"

definition set_parameter_TZ :: "li2002 \<Rightarrow> state_parameters \<Rightarrow> error + state_parameters" where
  "set_parameter_TZ st sp = ebind (set_B sp) (\<lambda>sp1. ebind (set_Tij sp1) (set_Zij st))"

section \<open>Tangent stiffness\<close>

definition set_tensor_Ep :: "li2002 \<Rightarrow> state_parameters \<Rightarrow> error + state_parameters" where
  "set_tensor_Ep st sp =
     (let Lm0 = tensor_of (\<lambda>p q k l. eye3 ! p ! k * eye3 ! q ! l)
      in ebind
           (if elastic_flag1 sp then Inr (outer4 zeros33 zeros33)
            else
              ebind (attr (nij sp)) (\<lambda>n.
              ebind (attr (D1 sp)) (\<lambda>D1'.
              ebind (attr (Tij sp)) (\<lambda>T.
                Inr (outer4 (mat_add n (mat_scale (sqrt (2 / 27) * D1') eye3)) T)))))
           (\<lambda>Lm1.
         ebind
           (if elastic_flag2 sp then Inr (outer4 zeros33 zeros33)
            else if sp_R sp = 0 then
              ebind (attr (Zij sp)) (\<lambda>Z. Inr (outer4 (mat_scale (sqrt (2 / 27)) eye3) Z))
            else
              ebind (attr (mij sp)) (\<lambda>m.
              ebind (attr (D2 sp)) (\<lambda>D2'.
              ebind (attr (Zij sp)) (\<lambda>Z.
                Inr (outer4 (mat_add m (mat_scale (sqrt (2 / 27) * D2') eye3)) Z)))))
           (\<lambda>Lm2.
         ebind (attr (Ge sp)) (\<lambda>G.
           if 1 - 2 * s_nu st = 0 then Inl NonFinite
           else
             let Lm = tensor_sub (tensor_sub Lm0 Lm1) Lm2;
                 Ee = elastic_stiffness st G
             in Inr (sp\<lparr>Ep := Some (tensor_contract Ee Lm)\<rparr>)))))"

section \<open>The loading and unloading state machine\<close>

text \<open>
  \<open>check_unload\<close>, \<open>update_parameters\<close> and \<open>plastic_stiffness\<close> start with the same four
  calls, here \<open>evaluate\<close>.  The source mutates the model and the snapshot in place; the
  embedding returns both.
\<close>

definition evaluate ::
  "root_finder \<Rightarrow> li2002 \<Rightarrow> state_parameters \<Rightarrow> error + (li2002 \<times> state_parameters)" where
  "evaluate brentq st sp =
     ebind (set_mapping_stress brentq st sp) (\<lambda>(st1, sp1).
     ebind (set_parameters st1 sp1) (\<lambda>sp2.
     ebind (set_parameter_nm st1 sp2) (\<lambda>sp3.
     ebind (set_parameter_TZ st1 sp3) (\<lambda>sp4. Inr (st1, sp4)))))"

definition check_unload ::
  "root_finder \<Rightarrow> li2002 \<Rightarrow> state_parameters
     \<Rightarrow> error + (li2002 \<times> state_parameters \<times> bool \<times> bool)" where
  "check_unload brentq st sp =
     ebind (evaluate brentq st sp) (\<lambda>(st1, sp1).
     ebind (attr (Tij sp1)) (\<lambda>T.
     ebind (attr (Zij sp1)) (\<lambda>Z.
       let dL1 = ddot T (sp_dstrain sp1);
           st2 = (if dL1 < 0 then st1\<lparr>s_alpha := sp_rij sp1\<rparr> else st1);
           dL2 = ddot Z (sp_dstrain sp1);
           st3 = (if dL2 < 0 then st2\<lparr>s_beta := sp_p sp1\<rparr> else st2)
       in Inr (st3, sp1, dL1 < 0, dL2 < 0))))"

definition update_parameters ::
  "root_finder \<Rightarrow> li2002 \<Rightarrow> state_parameters \<Rightarrow> error + (li2002 \<times> state_parameters)" where
  "update_parameters brentq st sp =
     ebind (evaluate brentq st sp) (\<lambda>(st1, sp1).
     ebind (attr (Tij sp1)) (\<lambda>T.
     ebind (attr (Zij sp1)) (\<lambda>Z.
       let dL1 = ddot T (sp_dstrain sp1);
           dL2 = ddot Z (sp_dstrain sp1)
       in ebind
            (if \<not> elastic_flag1 sp1 then
               ebind (attr (Kp1_b sp1)) (\<lambda>k.
                 if sp_p sp1 = 0 then Inl NonFinite
                 else Inr (st1\<lparr>s_L1 := s_L1 st1 + dL1,
                               s_H1 := s_H1 st1 + k * dL1 / sp_p sp1\<rparr>))
             else Inr st1)
            (\<lambda>st2.
          ebind
            (if \<not> elastic_flag2 sp1 then
               ebind (attr (Kp2_b sp1)) (\<lambda>k. Inr (st2\<lparr>s_H2 := s_H2 st2 + k * dL2\<rparr>))
             else Inr st2)
            (\<lambda>st3. Inr (st3, sp1))))))"

definition plastic_stiffness ::
  "root_finder \<Rightarrow> li2002 \<Rightarrow> state_parameters \<Rightarrow> error + (li2002 \<times> state_parameters \<times> tensor4)" where
  "plastic_stiffness brentq st sp =
     ebind (evaluate brentq st sp) (\<lambda>(st1, sp1).
     ebind (set_tensor_Ep st1 sp1) (\<lambda>sp2.
     ebind (attr (Ep sp2)) (\<lambda>E. Inr (st1, sp2, E))))"

definition plastic_deformation ::
  "root_finder \<Rightarrow> li2002 \<Rightarrow> mat \<Rightarrow> mat \<Rightarrow> bool list list \<Rightarrow> state_parameters
     \<Rightarrow> error + (li2002 \<times> mat \<times> mat \<times> state_parameters)" where
  "plastic_deformation brentq st dstrain_given dstress_given deformation sp0 =
     ebind (check_unload brentq st sp0) (\<lambda>(st1, sp0', ef1, ef2).
       let sp = StateParameters (s_strain st1) (s_stress st1) dstrain_given dstress_given ef1 ef2
       in ebind (plastic_stiffness brentq st1 sp) (\<lambda>(st2, sp', Ep').
          ebind (solve_strain_with_consttain dstrain_given dstress_given Ep' deformation)
            (\<lambda>(dstrain_ep, dstress_ep).
               let sp2 = StateParameters (s_strain st2) (s_stress st2) dstrain_ep dstress_ep
                           False False
               in ebind (update_parameters brentq st2 sp2) (\<lambda>(st3, sp2').
                    Inr (st3, dstrain_ep, dstress_ep, sp2')))))"

section \<open>Loading-path drivers\<close>

text \<open>
  One pass of the loop of \<open>isotropic_compression\<close>, the loop, and the driver.  The step
  count is a Python \<^verbatim>\<open>int\<close>, here a \<^typ>\<open>nat\<close>; \<^verbatim>\<open>compression_stress / nstep\<close> raises
  \<^verbatim>\<open>ZeroDivisionError\<close> for \<^verbatim>\<open>nstep = 0\<close>.
\<close>

definition isotropic_compression_step :: "real \<Rightarrow> mat \<Rightarrow> li2002 \<Rightarrow> error + li2002" where
  "isotropic_compression_step e0 dstress st =
     ebind (attr (s_e st)) (\<lambda>e.
       let (p, _) = set_stress_variable st (s_stress st)
       in if \<not> compression_finite st e p then Inl NonFinite
          else
            let E = isotropic_compression_stiffness st e p
            in ebind (solve_strain dstress E) (\<lambda>dstrain.
                 let stress' = mat_add (s_stress st) dstress;
                     strain' = mat_add (s_strain st) dstrain;
                     (ev, _) = set_strain_variable strain'
                 in Inr (st\<lparr>s_stress := stress', s_strain := strain',
                            s_e := Some (e0 - ev * (1 + e0))\<rparr>)))"

fun isotropic_compression_loop :: "nat \<Rightarrow> real \<Rightarrow> mat \<Rightarrow> li2002 \<Rightarrow> error + li2002" where
  "isotropic_compression_loop 0 e0 dstress st = Inr st"
| "isotropic_compression_loop (Suc k) e0 dstress st =
     ebind (isotropic_compression_step e0 dstress st) (isotropic_compression_loop k e0 dstress)"

definition isotropic_compression :: "li2002 \<Rightarrow> real \<Rightarrow> real \<Rightarrow> nat \<Rightarrow> error + li2002" where
  "isotropic_compression st e0 compression_stress nstep =
     (if nstep = 0 then Inl ZeroDivisionError
      else
        let dcp = compression_stress / real nstep;
            st0 = st\<lparr>s_e := Some e0\<rparr>;
            dstress_vec = [dcp, dcp * 2, dcp, 0, 0, 0];
            dstress = vector_to_matrix dstress_vec
        in ebind (isotropic_compression_loop nstep e0 dstress st0) (\<lambda>st'. Inr (clear_strain st')))"

text \<open>
  \<open>triaxial_compression\<close>.  Its loop calls
  \<^verbatim>\<open>self.plastic_deformation(dstrain_input,dstress_input,deformation)\<close> with three
  arguments, and the method has four parameters besides \<^verbatim>\<open>self\<close>: Python raises
  \<^verbatim>\<open>TypeError\<close> at the call, before the method body runs, in the first pass of the loop.
\<close>

fun triaxial_compression_loop :: "nat \<Rightarrow> li2002 \<Rightarrow> error + (li2002 \<times> real list)" where
  "triaxial_compression_loop 0 st = Inr (st, [])"
| "triaxial_compression_loop (Suc k) st =
     (let (p, R) = set_stress_variable st (s_stress st) in Inl TypeError)"

definition triaxial_compression ::
  "li2002 \<Rightarrow> real \<Rightarrow> real \<Rightarrow> real \<Rightarrow> real \<Rightarrow> error + (li2002 \<times> real list)" where
  "triaxial_compression st e0 compression_stress de emax =
     ebind (isotropic_compression st e0 compression_stress 1000) (\<lambda>st1.
       let st2 = st1\<lparr>s_e0 := Some e0, s_e := Some e0\<rparr>;
           (p, _) = set_stress_variable st2 (s_stress st2);
           st3 = st2\<lparr>s_beta := p, s_H2 := p\<rparr>
       in if de = 0 then Inl ZeroDivisionError
          else triaxial_compression_loop (nat \<lfloor>emax / de\<rfloor>) st3)"

text \<open>
  \<open>cyclic_shear_test\<close>: the stress increment of pass \<open>i\<close> of cycle \<open>ic\<close>, one pass of
  the loop, the loop over the increments, and the driver.  The model returns the final
  state and snapshot; the lists the source collects for plotting are left out.
\<close>

definition cycle_load :: "nat \<Rightarrow> real \<Rightarrow> nat \<Rightarrow> real" where
  "cycle_load nstep amp i =
     amp * sin ((real i + 1) / real nstep * 2 * pi * 2) - amp * sin (real i / real nstep * 2 * pi * 2)"

definition cyclic_dtau :: "nat \<Rightarrow> nat \<Rightarrow> nat \<Rightarrow> real" where
  "cyclic_dtau nstep ic i =
     (let dtau = cycle_load nstep 15000 i
      in if ic < 5 then dtau * (real (i + ic * nstep) / real nstep * 2 / 10)
         else if 15 < ic then dtau * ((20000 - real (i + ic * nstep)) / real nstep * 2 / 10)
         else dtau)"

definition cyclic_deformation :: "bool list list" where
  "cyclic_deformation = vector_to_matrix [False, False, False, True, True, True]"

definition cyclic_step ::
  "root_finder \<Rightarrow> real \<Rightarrow> li2002 \<Rightarrow> state_parameters \<Rightarrow> real
     \<Rightarrow> error + (li2002 \<times> state_parameters)" where
  "cyclic_step brentq e0 st sp0 dtau =
     (let dstrain_input = vector_to_matrix [0, 0, 0, 0, 0, 0];
          dstress_input = vector_to_matrix [0, 0, 0, dtau, 0, 0];
          sp = StateParameters (s_strain st) (s_stress st) (sp_dstrain sp0) dstress_input
                 False False
      in ebind (plastic_deformation brentq st dstrain_input dstress_input cyclic_deformation sp)
           (\<lambda>(st1, dstrain, dstress, sp0').
              let stress' = mat_add (s_stress st1) dstress;
                  strain' = mat_add (s_strain st1) dstrain;
                  (ev, gamma) = set_strain_variable strain'
              in Inr (st1\<lparr>s_stress := stress', s_strain := strain',
                          s_e := Some (e0 - ev * (1 + e0))\<rparr>, sp0')))"

fun cyclic_loop ::
  "root_finder \<Rightarrow> real \<Rightarrow> real list \<Rightarrow> li2002 \<Rightarrow> state_parameters
     \<Rightarrow> error + (li2002 \<times> state_parameters)" where
  "cyclic_loop brentq e0 [] st sp0 = Inr (st, sp0)"
| "cyclic_loop brentq e0 (dtau # dtaus) st sp0 =
     ebind (cyclic_step brentq e0 st sp0 dtau) (\<lambda>(st', sp0'). cyclic_loop brentq e0 dtaus st' sp0')"

definition cyclic_shear_test ::
  "root_finder \<Rightarrow> li2002 \<Rightarrow> real \<Rightarrow> real \<Rightarrow> error + (li2002 \<times> state_parameters)" where
  "cyclic_shear_test brentq st e0 compression_stress =
     ebind (isotropic_compression st e0 compression_stress 1000) (\<lambda>st1.
       let st2 = st1\<lparr>s_e0 := Some e0, s_e := Some e0\<rparr>;
           (p0, _) = set_stress_variable st2 (s_stress st2);
           st3 = st2\<lparr>s_beta := p0, s_H2 := p0\<rparr>;
           nstep = 1000;
           ncycle = 10;
           dstrain_input = vector_to_matrix [0, 0, 0, 0, 0, 0];
           dstress_input = vector_to_matrix [0, 0, 0, 0, 0, 0];
           sp0 = StateParameters (s_strain st3) (s_stress st3) dstrain_input dstress_input
                   False False;
           dtaus = concat (map (\<lambda>ic. map (cyclic_dtau nstep ic) [0..<nstep]) [0..<ncycle])
       in cyclic_loop brentq e0 dtaus st3 sp0)"

section \<open>Arrays as objects: the store\<close>

text \<open>
  Everywhere above an array is a value.  In the source it is an object, and two
  attributes can hold the same one.  For the claim about copies the arrays live in a
  store: an address is an index into the list of the arrays allocated so far,
  \<^verbatim>\<open>np.copy\<close> appends a new array with the contents of its argument and returns its
  address, and an assignment into an array replaces the contents at its address.  The
  constructor of \<^verbatim>\<open>StateParameters\<close> keeps the addresses of its four copies, made in the
  order of the source: \<^verbatim>\<open>strain\<close>, \<^verbatim>\<open>stress\<close>, \<^verbatim>\<open>dstress\<close>, \<^verbatim>\<open>dstrain\<close>.
\<close>

type_synonym addr = nat
type_synonym store = "mat list"

definition np_copy :: "store \<Rightarrow> addr \<Rightarrow> store \<times> addr" where
  "np_copy h a = (h @ [h ! a], length h)"

definition store_write :: "store \<Rightarrow> addr \<Rightarrow> mat \<Rightarrow> store" where
  "store_write h a v = h[a := v]"

record snapshot_refs =
  ref_strain :: addr
  ref_stress :: addr
  ref_dstress :: addr
  ref_dstrain :: addr

definition StateParameters_refs ::
  "store \<Rightarrow> addr \<Rightarrow> addr \<Rightarrow> addr \<Rightarrow> addr \<Rightarrow> store \<times> snapshot_refs" where
  "StateParameters_refs h strain stress dstrain dstress =
     (let (h1, a1) = np_copy h strain;
          (h2, a2) = np_copy h1 stress;
          (h3, a3) = np_copy h2 dstress;
          (h4, a4) = np_copy h3 dstrain
      in (h4, \<lparr>ref_strain = a1, ref_stress = a2, ref_dstress = a3, ref_dstrain = a4\<rparr>))"

text \<open>Any sequence of assignments into the arrays a snapshot holds.\<close>

fun snapshot_writes :: "store \<Rightarrow> (addr \<times> mat) list \<Rightarrow> store" where
  "snapshot_writes h [] = h"
| "snapshot_writes h ((a, v) # ws) = snapshot_writes (store_write h a v) ws"

definition snapshot_addrs :: "snapshot_refs \<Rightarrow> addr list" where
  "snapshot_addrs r = [ref_strain r, ref_stress r, ref_dstress r, ref_dstrain r]"

section \<open>The compression scenario of the specification\<close>

text \<open>
  The invariant of the loop of \<open>isotropic_compression\<close> in the scenario
  \<^verbatim>\<open>Li2002().isotropic_compression(e0=0.75, compression_stress=20000, nstep=1000)\<close>,
  after \<open>k\<close> passes: the stress is \<open>k\<close> times the increment \<^verbatim>\<open>[dcp, dcp*2, dcp]\<close> with
  \<^verbatim>\<open>dcp = 20\<close>, the volumetric strain is between 0 and \<open>k / 10000\<close>, and the void ratio
  follows it.  It is used in the proofs only.
\<close>

definition compression_increment :: mat where
  "compression_increment = [[20, 0, 0], [0, 40, 0], [0, 0, 20]]"

definition compression_invariant :: "nat \<Rightarrow> li2002 \<Rightarrow> bool" where
  "compression_invariant k st =
     (s_nu st = 1 / 4 \<and> s_G0 st = 125 \<and> s_pr st = 101000 \<and> s_pmin st = 100
      \<and> s_h4 st = 7 / 2 \<and> s_d2 st = 1
      \<and> s_stress st = [[20 * real k, 0, 0], [0, 40 * real k, 0], [0, 0, 20 * real k]]
      \<and> is_mat33 (s_strain st)
      \<and> 0 \<le> trace3 (s_strain st) \<and> trace3 (s_strain st) \<le> real k / 10000
      \<and> s_e st = Some (3 / 4 - trace3 (s_strain st) * (7 / 4)))"


text \<open>
  A state in triaxial extension used to evaluate the state machine: the default model
  with mean stress \<open>p = pr = 101000\<close>, deviator \<open>diag (10100, 10100, - 20200)\<close>
  (stress ratio \<open>R = 3 / 10\<close>), the void ratio \<open>0.915\<close> on the critical-state line, and
  \<^verbatim>\<open>beta = H2 = p\<close> as the drivers set them after consolidation; and a strain increment
  that unloads mechanism 1.
\<close>

definition extension_stress :: mat where
  "extension_stress = [[111100, 0, 0], [0, 111100, 0], [0, 0, 80800]]"

definition extension_state :: li2002 where
  "extension_state =
     Li2002_default\<lparr>s_stress := extension_stress, s_beta := 101000, s_H2 := 101000,
                     s_e := Some (183 / 200), s_e0 := Some (183 / 200)\<rparr>"

definition unloading_increment :: mat where
  "unloading_increment = [[- (1 / 1000), 0, 0], [0, - (1 / 1000), 0], [0, 0, 2 / 1000]]"

definition unloading_snapshot :: state_parameters where
  "unloading_snapshot =
     StateParameters zeros33 extension_stress unloading_increment zeros33 False False"

text \<open>A root finder that is never asked: the evaluations below stay off its branch.\<close>

definition no_brentq :: root_finder where
  "no_brentq f a b = Inl ValueError"




section \<open>Gaussian elimination solves the system\<close>

lemma pivot_split_None: "pivot_split rows = None \<Longrightarrow> \<forall>r\<in>set rows. hd (fst r) = 0"
  by (induction rows) (auto split: option.splits if_splits)

lemma pivot_split_Some:
  "pivot_split rows = Some (p, others) \<Longrightarrow>
     hd (fst p) \<noteq> 0 \<and> set rows = insert p (set others) \<and> length rows = Suc (length others)"
proof (induction rows arbitrary: p others)
  case Nil
  then show ?case by simp
next
  case (Cons r rs)
  show ?case
  proof (cases "pivot_split rs")
    case None
    with Cons.prems have "hd (fst r) \<noteq> 0" "p = r" "others = rs"
      by (simp_all split: if_splits)
    then show ?thesis by simp
  next
    case (Some q)
    obtain p' o' where q: "q = (p', o')" by (cases q)
    from Cons.IH[OF Some[unfolded q]] have ih: "hd (fst p') \<noteq> 0" "set rs = insert p' (set o')"
      "length rs = Suc (length o')" by simp_all
    show ?thesis
    proof (cases "\<bar>hd (fst r)\<bar> < \<bar>hd (fst p')\<bar>")
      case True
      with Cons.prems Some q have "p = p'" "others = r # o'" by simp_all
      with ih show ?thesis by auto
    next
      case False
      with Cons.prems Some q have e: "p = r" "others = rs" by simp_all
      from False ih(1) have "hd (fst r) \<noteq> 0" by auto
      with e show ?thesis by simp
    qed
  qed
qed


lemma dot_Nil [simp]: "dot [] v = 0" "dot u [] = 0"
  by (simp_all add: dot_def)

lemma dot_Cons [simp]: "dot (a # u) (b # v) = a * b + dot u v"
  by (simp add: dot_def)

lemma dot_elim:
  "length u = length xs \<Longrightarrow> length v = length xs \<Longrightarrow>
   dot (map2 (\<lambda>x y. x - f * y) u v) xs = dot u xs - f * dot v xs"
proof (induction xs arbitrary: u v)
  case Nil
  then show ?case by simp
next
  case (Cons x xs)
  then obtain a u' b v' where "u = a # u'" "v = b # v'"
    by (cases u; cases v) auto
  with Cons show ?case by (simp add: algebra_simps)
qed

lemma dot_hd_tl: "length r = Suc n \<Longrightarrow> dot r (x # xs) = hd r * x + dot (tl r) xs"
  by (cases r) simp_all

lemma eliminate_length:
  "length (fst p) = Suc n \<Longrightarrow> length (fst r) = Suc n \<Longrightarrow> length (fst (eliminate p r)) = n"
  by (simp add: eliminate_def Let_def)

lemma eliminate_dot:
  assumes "length (fst p) = Suc n" "length (fst r) = Suc n" "length xs = n"
  shows "dot (fst (eliminate p r)) xs
         = dot (tl (fst r)) xs - hd (fst r) / hd (fst p) * dot (tl (fst p)) xs"
  using assms dot_elim[of "tl (fst r)" xs "tl (fst p)" "hd (fst r) / hd (fst p)"]
  by (simp add: eliminate_def Let_def)

lemma eliminate_snd: "snd (eliminate p r) = snd r - hd (fst r) / hd (fst p) * snd p"
  by (simp add: eliminate_def Let_def)

lemma solve_rows_sound:
  "solve_rows n rows = Some x \<Longrightarrow> length rows = n \<Longrightarrow> \<forall>r\<in>set rows. length (fst r) = n \<Longrightarrow>
   length x = n \<and> (\<forall>r\<in>set rows. dot (fst r) x = snd r)"
proof (induction n arbitrary: rows x)
  case 0
  then show ?case by auto
next
  case (Suc n)
  from Suc.prems(1) obtain p others where ps: "pivot_split rows = Some (p, others)"
    by (auto split: option.splits)
  from Suc.prems(1) ps obtain xs where xs: "solve_rows n (map (eliminate p) others) = Some xs"
    and x: "x = (snd p - dot (tl (fst p)) xs) / hd (fst p) # xs"
    by (auto split: option.splits)
  from pivot_split_Some[OF ps] have a: "hd (fst p) \<noteq> 0" and st: "set rows = insert p (set others)"
    and len: "length rows = Suc (length others)"
    by simp_all
  from st Suc.prems(3) have lp: "length (fst p) = Suc n"
    and lo: "\<forall>r\<in>set others. length (fst r) = Suc n" by auto
  have l1: "length (map (eliminate p) others) = n" using len Suc.prems(2) by simp
  have "\<forall>r\<in>set (map (eliminate p) others). length (fst r) = n"
    using lp lo by (auto simp: eliminate_length)
  from Suc.IH[OF xs l1 this] have lx: "length xs = n"
    and ih: "\<forall>r\<in>set others. dot (fst (eliminate p r)) xs = snd (eliminate p r)" by auto
  have pp: "dot (fst p) x = snd p"
    using a lp by (simp add: x dot_hd_tl[OF lp])
  have "dot (fst r) x = snd r" if r: "r \<in> set others" for r
  proof -
    from lo r have lr: "length (fst r) = Suc n" by simp
    from ih r have "dot (fst (eliminate p r)) xs = snd (eliminate p r)" by simp
    then have e: "dot (tl (fst r)) xs - hd (fst r) / hd (fst p) * dot (tl (fst p)) xs
               = snd r - hd (fst r) / hd (fst p) * snd p"
      by (simp add: eliminate_dot[OF lp lr lx] eliminate_snd)
    have "dot (fst r) x = hd (fst r) * ((snd p - dot (tl (fst p)) xs) / hd (fst p)) + dot (tl (fst r)) xs"
      by (simp add: x dot_hd_tl[OF lr])
    also have "\<dots> = snd r" using e a by (simp add: field_simps)
    finally show ?thesis .
  qed
  with pp st lx x show ?case by auto
qed

lemma dot_replicate_0 [simp]: "dot r (replicate n 0) = 0"
proof (induction r arbitrary: n)
  case Nil
  then show ?case by simp
next
  case (Cons a r)
  then show ?case by (cases n) simp_all
qed

lemma solve_rows_complete:
  "\<forall>r\<in>set rows. length (fst r) = n \<Longrightarrow> kernel_trivial n (map fst rows) \<Longrightarrow>
   solve_rows n rows \<noteq> None"
proof (induction n arbitrary: rows)
  case 0
  then show ?case by simp
next
  case (Suc n)
  show ?case
  proof (cases "pivot_split rows")
    case None
    from pivot_split_None[OF None] have z: "\<forall>r\<in>set rows. hd (fst r) = 0" .
    have "\<forall>r\<in>set (map fst rows). dot r (1 # replicate n 0) = 0"
    proof
      fix r assume "r \<in> set (map fst rows)"
      then obtain q where q: "q \<in> set rows" "r = fst q" by auto
      with Suc.prems(1) have lr: "length r = Suc n" by simp
      from z q have "hd r = 0" by simp
      then show "dot r (1 # replicate n 0) = 0" by (simp add: dot_hd_tl[OF lr])
    qed
    with Suc.prems(2) have "1 # replicate n 0 = replicate (Suc n) (0::real)"
      unfolding kernel_trivial_def by (metis length_Cons length_replicate)
    then show ?thesis by simp
  next
    case (Some q)
    obtain p others where q: "q = (p, others)" by (cases q)
    from pivot_split_Some[OF Some[unfolded q]] have a: "hd (fst p) \<noteq> 0"
      and st: "set rows = insert p (set others)" by simp_all
    from st Suc.prems(1) have lp: "length (fst p) = Suc n"
      and lo: "\<forall>r\<in>set others. length (fst r) = Suc n" by auto
    have l2: "\<forall>r\<in>set (map (eliminate p) others). length (fst r) = n"
      using lp lo by (auto simp: eliminate_length)
    have "kernel_trivial n (map fst (map (eliminate p) others))"
      unfolding kernel_trivial_def
    proof (intro allI impI, elim conjE)
      fix y assume ly: "length y = n"
        and ker: "\<forall>r\<in>set (map fst (map (eliminate p) others)). dot r y = 0"
      define y0 where "y0 = - dot (tl (fst p)) y / hd (fst p)"
      have kp: "dot (fst p) (y0 # y) = 0"
        using a by (simp add: dot_hd_tl[OF lp] y0_def)
      have ko: "dot (fst r) (y0 # y) = 0" if r: "r \<in> set others" for r
      proof -
        from lo r have lr: "length (fst r) = Suc n" by simp
        from ker r have "dot (fst (eliminate p r)) y = 0" by simp
        then have "dot (tl (fst r)) y = hd (fst r) / hd (fst p) * dot (tl (fst p)) y"
          by (simp add: eliminate_dot[OF lp lr ly])
        then show ?thesis using a by (simp add: dot_hd_tl[OF lr] y0_def)
      qed
      have "\<forall>r\<in>set (map fst rows). dot r (y0 # y) = 0"
        using kp ko st by auto
      with Suc.prems(2) ly have "y0 # y = replicate (Suc n) 0"
        unfolding kernel_trivial_def by (metis length_Cons)
      then show "y = replicate n 0" by simp
    qed
    from Suc.IH[OF l2 this] show ?thesis
      using Some q by (auto split: option.splits)
  qed
qed

lemma zip_rows:
  assumes "length b = length A"
  shows "map fst (zip A b) = A" "map snd (zip A b) = b"
  using assms by simp_all

theorem linalg_solve_sound:
  assumes "linalg_solve A b = Inr x"
  shows "length x = length A \<and> mat_vec A x = b"
proof -
  from assms have sq: "is_square A" and lb: "length b = length A"
    and sr: "solve_rows (length A) (zip A b) = Some x"
    by (auto simp: linalg_solve_def split: if_splits option.splits)
  have rows: "\<forall>r\<in>set (zip A b). length (fst r) = length A"
    using sq by (auto simp: is_square_def list_all_iff dest: set_zip_leftD)
  have lz: "length (zip A b) = length A" using lb by simp
  from solve_rows_sound[OF sr lz rows]
  have lx: "length x = length A" and eq: "\<forall>r\<in>set (zip A b). dot (fst r) x = snd r" by auto
  have "map (\<lambda>r. dot (fst r) x) (zip A b) = map snd (zip A b)"
    using eq by (intro map_cong) auto
  then have "map (\<lambda>r. dot r x) (map fst (zip A b)) = map snd (zip A b)"
    by (simp add: comp_def)
  then have "mat_vec A x = b"
    using lb by (simp add: mat_vec_def)
  with lx show ?thesis by simp
qed

theorem linalg_solve_complete:
  assumes "nonsingular A" "length b = length A"
  shows "\<exists>x. linalg_solve A b = Inr x"
proof -
  from assms(1) have sq: "is_square A" and kt: "kernel_trivial (length A) A"
    by (simp_all add: nonsingular_def)
  have rows: "\<forall>r\<in>set (zip A b). length (fst r) = length A"
    using sq by (auto simp: is_square_def list_all_iff dest: set_zip_leftD)
  have "kernel_trivial (length A) (map fst (zip A b))"
    using kt assms(2) by simp
  from solve_rows_complete[OF rows this] sq assms(2) show ?thesis
    by (auto simp: linalg_solve_def)
qed

lemma dot_sub:
  "length x = length y \<Longrightarrow> dot r (map2 (-) x y) = dot r x - dot r y"
proof (induction r arbitrary: x y)
  case Nil
  then show ?case by simp
next
  case (Cons a r)
  then show ?case by (cases x; cases y) (simp_all add: algebra_simps)
qed

lemma map2_sub_zero:
  "length x = length y \<Longrightarrow> map2 (-) x y = replicate (length x) (0::real) \<Longrightarrow> x = y"
proof (induction x arbitrary: y)
  case Nil
  then show ?case by simp
next
  case (Cons a x)
  then show ?case by (cases y) simp_all
qed

theorem nonsingular_unique:
  assumes "nonsingular A" "length x = length A" "length y = length A"
    and "mat_vec A x = mat_vec A y"
  shows "x = y"
proof -
  from assms(1) have kt: "kernel_trivial (length A) A" by (simp add: nonsingular_def)
  have lxy: "length x = length y" using assms(2,3) by simp
  have "\<forall>r\<in>set A. dot r (map2 (-) x y) = 0"
  proof
    fix r assume "r \<in> set A"
    with assms(4) have "dot r x = dot r y" by (simp add: mat_vec_def)
    then show "dot r (map2 (-) x y) = 0" by (simp add: dot_sub[OF lxy])
  qed
  moreover have "length (map2 (-) x y) = length A" using assms(2,3) by simp
  ultimately have "map2 (-) x y = replicate (length A) 0"
    using kt unfolding kernel_trivial_def by blast
  with map2_sub_zero[OF lxy] assms(2) show ?thesis by simp
qed

section \<open>Shapes, masks and the mixed-control solver\<close>

lemma length3E:
  assumes "length xs = 3"
  obtains a b c where "xs = [a, b, c]"
proof -
  from assms obtain a xs1 where 1: "xs = a # xs1" "length xs1 = 2" by (cases xs) auto
  then obtain b xs2 where 2: "xs1 = b # xs2" "length xs2 = 1" by (cases xs1) auto
  then obtain c where "xs2 = [c]" by (cases xs2) auto
  with 1 2 that show ?thesis by simp
qed

lemma is_mat33E:
  assumes "is_mat33 A"
  obtains a b c d e f g h i where "A = [[a, b, c], [d, e, f], [g, h, i]]"
proof -
  from assms have "length A = 3" by (simp add: is_mat33_def)
  then obtain r0 r1 r2 where A: "A = [r0, r1, r2]" by (rule length3E)
  with assms have "length r0 = 3" "length r1 = 3" "length r2 = 3"
    by (simp_all add: is_mat33_def)
  then obtain a b c d e f g h i where "r0 = [a, b, c]" "r1 = [d, e, f]" "r2 = [g, h, i]"
    by (metis length3E)
  with A that show ?thesis by simp
qed

lemma is_mat33_flatten:
  assumes "is_mat33 A"
  shows "length (flatten A) = 9" "reshape33 (flatten A) = A"
proof -
  from assms obtain a b c d e f g h i where "A = [[a, b, c], [d, e, f], [g, h, i]]"
    by (rule is_mat33E)
  then show "length (flatten A) = 9" "reshape33 (flatten A) = A"
    by (simp_all add: flatten_def reshape33_def)
qed

lemma is_tensor4E:
  assumes "is_tensor4 E"
  obtains a b c d e f g h i where "E = [[a, b, c], [d, e, f], [g, h, i]]"
    "is_mat33 a" "is_mat33 b" "is_mat33 c" "is_mat33 d" "is_mat33 e" "is_mat33 f"
    "is_mat33 g" "is_mat33 h" "is_mat33 i"
proof -
  from assms have "length E = 3" by (simp add: is_tensor4_def)
  then obtain r0 r1 r2 where E: "E = [r0, r1, r2]" by (rule length3E)
  with assms have l: "length r0 = 3" "length r1 = 3" "length r2 = 3"
    and m: "list_all is_mat33 r0" "list_all is_mat33 r1" "list_all is_mat33 r2"
    by (simp_all add: is_tensor4_def)
  from l obtain a b c d e f g h i where r: "r0 = [a, b, c]" "r1 = [d, e, f]" "r2 = [g, h, i]"
    by (metis length3E)
  with m have "is_mat33 a" "is_mat33 b" "is_mat33 c" "is_mat33 d" "is_mat33 e" "is_mat33 f"
    "is_mat33 g" "is_mat33 h" "is_mat33 i" by simp_all
  with E r that show ?thesis by simp
qed

lemma reshape99_rows:
  "reshape99 [[a, b, c], [d, e, f], [g, h, i]] =
     [flatten a, flatten b, flatten c, flatten d, flatten e, flatten f,
      flatten g, flatten h, flatten i]"
  by (simp add: reshape99_def)

lemma reshape99_shape:
  assumes "is_tensor4 E"
  shows "length (reshape99 E) = 9" "is_square (reshape99 E)"
proof -
  from assms obtain a b c d e f g h i where E: "E = [[a, b, c], [d, e, f], [g, h, i]]"
    by (rule is_tensor4E)
  from assms have m: "is_mat33 a" "is_mat33 b" "is_mat33 c" "is_mat33 d" "is_mat33 e"
    "is_mat33 f" "is_mat33 g" "is_mat33 h" "is_mat33 i"
    unfolding E is_tensor4_def by simp_all
  have L: "length (flatten a) = 9" "length (flatten b) = 9" "length (flatten c) = 9"
    "length (flatten d) = 9" "length (flatten e) = 9" "length (flatten f) = 9"
    "length (flatten g) = 9" "length (flatten h) = 9" "length (flatten i) = 9"
    using m by (simp_all add: is_mat33_flatten(1))
  show "length (reshape99 E) = 9" unfolding E reshape99_rows by simp
  show "is_square (reshape99 E)" unfolding E reshape99_rows is_square_def using L by simp
qed

lemma tensor_apply_reshape:
  assumes "is_tensor4 E"
  shows "reshape33 (mat_vec (reshape99 E) (flatten s)) = tensor_apply E s"
proof -
  from assms obtain a b c d e f g h i where E: "E = [[a, b, c], [d, e, f], [g, h, i]]"
    by (rule is_tensor4E)
  show ?thesis
    by (simp add: E reshape99_def mat_vec_def reshape33_def tensor_apply_def ddot_def)
qed

lemma length_mat_vec [simp]: "length (mat_vec A x) = length A"
  by (simp add: mat_vec_def)

lemma mask_select_all:
  "length xs = n \<Longrightarrow> mask_select (replicate n True) xs = xs"
proof (induction xs arbitrary: n)
  case Nil
  then show ?case by (simp add: mask_select_def)
next
  case (Cons x xs)
  then obtain k where "n = Suc k" "length xs = k" by (cases n) auto
  with Cons.IH[of k] show ?case by (simp add: mask_select_def)
qed

lemma mask_select_none: "mask_select (replicate n False) xs = []"
proof (induction n arbitrary: xs)
  case 0
  then show ?case by (simp add: mask_select_def)
next
  case (Suc n)
  then show ?case by (cases xs) (simp_all add: mask_select_def)
qed

lemma mask_fill_all: "length xs = n \<Longrightarrow> mask_fill (replicate n True) v xs = replicate n v"
proof (induction xs arbitrary: n)
  case Nil
  then show ?case by (simp add: mask_fill_def)
next
  case (Cons x xs)
  then obtain k where "n = Suc k" "length xs = k" by (cases n) auto
  with Cons.IH[of k] show ?case by (simp add: mask_fill_def)
qed

lemma mask_fill_none: "length xs = n \<Longrightarrow> mask_fill (replicate n False) v xs = xs"
proof (induction xs arbitrary: n)
  case Nil
  then show ?case by (simp add: mask_fill_def)
next
  case (Cons x xs)
  then obtain k where "n = Suc k" "length xs = k" by (cases n) auto
  with Cons.IH[of k] show ?case by (simp add: mask_fill_def)
qed

lemma mask_assign_all:
  "length xs = n \<Longrightarrow> length vs = n \<Longrightarrow> mask_assign (replicate n True) xs vs = vs"
proof (induction xs arbitrary: n vs)
  case Nil
  then show ?case by simp
next
  case (Cons x xs)
  then obtain k where k: "n = Suc k" "length xs = k" by (cases n) auto
  with Cons.prems obtain v vs' where "vs = v # vs'" "length vs' = k" by (cases vs) auto
  with k Cons.IH[of k vs'] show ?case by simp
qed

lemma mask_assign_none: "mask_assign (replicate n False) xs vs = xs"
proof (induction xs arbitrary: n)
  case Nil
  then show ?case by (cases n) simp_all
next
  case (Cons x xs)
  then show ?case by (cases n) simp_all
qed

lemma mat_vec_zero: "mat_vec A (replicate n 0) = replicate (length A) 0"
  by (simp add: mat_vec_def map_replicate_const)

lemma map2_sub_replicate_0: "length xs = n \<Longrightarrow> map2 (-) xs (replicate n (0::real)) = xs"
proof (induction xs arbitrary: n)
  case Nil
  then show ?case by simp
next
  case (Cons x xs)
  then obtain k where "n = Suc k" "length xs = k" by (cases n) auto
  with Cons.IH[of k] show ?case by simp
qed

lemma flatten_all: "flatten all_True = replicate 9 True" "flatten all_False = replicate 9 False"
  by (simp_all add: flatten_def all_True_def all_False_def numeral_eq_Suc)

lemma linalg_solve_empty: "linalg_solve [] [] = Inr []"
  by (simp add: linalg_solve_def is_square_def)

lemma solve_constrain_all_strain:
  assumes "is_tensor4 E" "is_mat33 strain" "is_mat33 stress"
  shows "solve_strain_with_consttain strain stress E all_False = Inr (strain, tensor_apply E strain)"
proof -
  have l: "length (flatten strain) = 9" using assms(2) by (rule is_mat33_flatten)
  show ?thesis
    unfolding solve_strain_with_consttain_def Let_def flatten_all
    by (simp add: mask_select_none mask_fill_none[OF l] mask_assign_none linalg_solve_empty
        ebind_def is_mat33_flatten(2)[OF assms(2)] tensor_apply_reshape[OF assms(1)])
qed

lemma solve_constrain_all_stress:
  assumes "is_tensor4 E" "is_mat33 stress" "length (flatten strain) = 9"
  shows "solve_strain_with_consttain strain stress E all_True =
           ebind (linalg_solve (reshape99 E) (flatten stress))
             (\<lambda>x. Inr (reshape33 x, reshape33 (mat_vec (reshape99 E) x)))"
proof -
  let ?A = "reshape99 E"
  have lA: "length ?A = 9" and sq: "is_square ?A" using assms(1) by (rule reshape99_shape)+
  have ls: "length (flatten stress) = 9" using assms(2) by (rule is_mat33_flatten)
  have rows: "map (mask_select (replicate 9 True)) ?A = ?A"
    using sq lA by (intro map_idI) (simp add: is_square_def list_all_iff mask_select_all)
  have 1: "mask_fill (replicate 9 True) 0 (flatten strain) = replicate 9 0"
    by (rule mask_fill_all[OF assms(3)])
  have 2: "map2 (-) (flatten stress) (mat_vec ?A (replicate 9 0)) = flatten stress"
    by (simp add: mat_vec_zero lA map2_sub_replicate_0[OF ls])
  have 3: "mask_select (replicate 9 True) (flatten stress) = flatten stress"
    by (rule mask_select_all[OF ls])
  have 4: "mask_select (replicate 9 True) ?A = ?A"
    by (rule mask_select_all[OF lA])
  show ?thesis
  proof (cases "linalg_solve ?A (flatten stress)")
    case (Inl e)
    then show ?thesis
      unfolding solve_strain_with_consttain_def Let_def flatten_all 1 2 3 4 rows
      by (simp add: ebind_def)
  next
    case (Inr x)
    from linalg_solve_sound[OF Inr] lA have lx: "length x = 9" by simp
    have "mask_assign (replicate 9 True) (replicate 9 0) x = x"
      by (rule mask_assign_all) (simp_all add: lx)
    with Inr show ?thesis
      unfolding solve_strain_with_consttain_def Let_def flatten_all 1 2 3 4 rows
      by (simp add: ebind_def)
  qed
qed

section \<open>The isotropic elastic stiffness tensor\<close>

lemma length9E:
  assumes "length xs = 9"
  obtains x0 x1 x2 x3 x4 x5 x6 x7 x8 where "xs = [x0, x1, x2, x3, x4, x5, x6, x7, x8]"
proof -
  have a: "length (take 3 xs) = 3" "length (take 3 (drop 3 xs)) = 3" "length (drop 6 xs) = 3"
    using assms by simp_all
  obtain x0 x1 x2 where 1: "take 3 xs = [x0, x1, x2]" using a(1) by (rule length3E)
  obtain x3 x4 x5 where 2: "take 3 (drop 3 xs) = [x3, x4, x5]" using a(2) by (rule length3E)
  obtain x6 x7 x8 where 3: "drop 6 xs = [x6, x7, x8]" using a(3) by (rule length3E)
  have d: "drop 3 (drop 3 xs) = drop 6 xs" by simp
  have "xs = take 3 xs @ (take 3 (drop 3 xs) @ drop 3 (drop 3 xs))"
    by (simp only: append_take_drop_id)
  then have "xs = [x0, x1, x2, x3, x4, x5, x6, x7, x8]" by (simp only: 1 2 3 d) simp
  then show ?thesis by (rule that)
qed

lemma reshape33_flatten9:
  assumes "length x = 9"
  shows "is_mat33 (reshape33 x)" "flatten (reshape33 x) = x"
proof -
  from assms obtain x0 x1 x2 x3 x4 x5 x6 x7 x8 where "x = [x0, x1, x2, x3, x4, x5, x6, x7, x8]"
    by (rule length9E)
  then show "is_mat33 (reshape33 x)" "flatten (reshape33 x) = x"
    by (simp_all add: reshape33_def is_mat33_def flatten_def)
qed

lemma elastic_stiffness_quarter:
  assumes "s_nu st = 1 / 4"
  shows "elastic_stiffness st G =
      [[[[3 * G, 0, 0], [0, G, 0], [0, 0, G]],
        [[0, 2 * G, 0], [0, 0, 0], [0, 0, 0]],
        [[0, 0, 2 * G], [0, 0, 0], [0, 0, 0]]],
       [[[0, 0, 0], [2 * G, 0, 0], [0, 0, 0]],
        [[G, 0, 0], [0, 3 * G, 0], [0, 0, G]],
        [[0, 0, 0], [0, 0, 2 * G], [0, 0, 0]]],
       [[[0, 0, 0], [0, 0, 0], [2 * G, 0, 0]],
        [[0, 0, 0], [0, 0, 0], [0, 2 * G, 0]],
        [[G, 0, 0], [0, G, 0], [0, 0, 3 * G]]]]"
  by (simp add: elastic_stiffness_def Let_def tensor_of_def tensor_add_def tensor_scale_def
      eye3_def assms)

lemma elastic_operator_quarter:
  assumes "s_nu st = 1 / 4"
  shows "reshape99 (elastic_stiffness st G) =
      [[3 * G, 0, 0, 0, G, 0, 0, 0, G],
       [0, 2 * G, 0, 0, 0, 0, 0, 0, 0],
       [0, 0, 2 * G, 0, 0, 0, 0, 0, 0],
       [0, 0, 0, 2 * G, 0, 0, 0, 0, 0],
       [G, 0, 0, 0, 3 * G, 0, 0, 0, G],
       [0, 0, 0, 0, 0, 2 * G, 0, 0, 0],
       [0, 0, 0, 0, 0, 0, 2 * G, 0, 0],
       [0, 0, 0, 0, 0, 0, 0, 2 * G, 0],
       [G, 0, 0, 0, G, 0, 0, 0, 3 * G]]"
  by (simp add: elastic_stiffness_quarter[OF assms] reshape99_def flatten_def)

lemma elastic_stiffness_tensor4:
  assumes "s_nu st = 1 / 4"
  shows "is_tensor4 (elastic_stiffness st G)"
  by (simp add: elastic_stiffness_quarter[OF assms] is_tensor4_def is_mat33_def)

lemma elastic_kernel:
  fixes G :: real
  assumes "G \<noteq> 0"
    and "3 * G * y0 + G * y4 + G * y8 = 0" "G * y0 + 3 * G * y4 + G * y8 = 0"
    and "G * y0 + G * y4 + 3 * G * y8 = 0"
  shows "y0 = 0 \<and> y4 = 0 \<and> y8 = 0"
proof -
  from assms(2-4) have "G * (3 * y0 + y4 + y8) = 0" "G * (y0 + 3 * y4 + y8) = 0"
    "G * (y0 + y4 + 3 * y8) = 0" by (simp_all add: algebra_simps)
  with assms(1) have "3 * y0 + y4 + y8 = 0" "y0 + 3 * y4 + y8 = 0" "y0 + y4 + 3 * y8 = 0"
    by simp_all
  then show ?thesis by linarith
qed

lemma elastic_operator_nonsingular:
  assumes "s_nu st = 1 / 4" "G \<noteq> 0"
  shows "nonsingular (reshape99 (elastic_stiffness st G))"
proof -
  let ?A = "reshape99 (elastic_stiffness st G)"
  have sq: "is_square ?A"
    by (rule reshape99_shape(2)[OF elastic_stiffness_tensor4[OF assms(1)]])
  have l: "length ?A = 9"
    by (rule reshape99_shape(1)[OF elastic_stiffness_tensor4[OF assms(1)]])
  have "kernel_trivial 9 ?A"
    unfolding kernel_trivial_def
  proof (intro allI impI, elim conjE)
    fix y :: "real list"
    assume ly: "length y = 9" and k: "\<forall>r\<in>set ?A. dot r y = 0"
    from ly obtain y0 y1 y2 y3 y4 y5 y6 y7 y8 where y: "y = [y0, y1, y2, y3, y4, y5, y6, y7, y8]"
      by (rule length9E)
    from k have e: "3 * G * y0 + G * y4 + G * y8 = 0" "G * y0 + 3 * G * y4 + G * y8 = 0"
      "G * y0 + G * y4 + 3 * G * y8 = 0"
      and z: "y1 = 0" "y2 = 0" "y3 = 0" "y5 = 0" "y6 = 0" "y7 = 0"
      using assms(2) by (simp_all add: elastic_operator_quarter[OF assms(1)] y)
    from elastic_kernel[OF assms(2) e] z show "y = replicate 9 0"
      by (simp add: y numeral_eq_Suc)
  qed
  with sq l show ?thesis by (simp add: nonsingular_def)
qed

lemma solve_strain_elastic:
  assumes nu: "s_nu st = 1 / 4" and G: "G \<noteq> 0" and b: "is_mat33 b"
  shows "\<exists>s. solve_strain b (elastic_stiffness st G) = Inr s \<and> is_mat33 s
             \<and> trace3 s = trace3 b / (5 * G)"
proof -
  let ?A = "reshape99 (elastic_stiffness st G)"
  have l: "length ?A = 9"
    by (rule reshape99_shape(1)[OF elastic_stiffness_tensor4[OF nu]])
  have lb: "length (flatten b) = length ?A"
    using is_mat33_flatten(1)[OF b] l by simp
  from linalg_solve_complete[OF elastic_operator_nonsingular[OF nu G] lb]
  obtain x where x: "linalg_solve ?A (flatten b) = Inr x" by blast
  from linalg_solve_sound[OF x] l have lx: "length x = 9" and eq: "mat_vec ?A x = flatten b"
    by simp_all
  from lx obtain x0 x1 x2 x3 x4 x5 x6 x7 x8 where xs: "x = [x0, x1, x2, x3, x4, x5, x6, x7, x8]"
    by (rule length9E)
  from b obtain b0 b1 b2 b3 b4 b5 b6 b7 b8 where bs: "b = [[b0, b1, b2], [b3, b4, b5], [b6, b7, b8]]"
    by (rule is_mat33E)
  from eq have "3 * G * x0 + G * x4 + G * x8 = b0" "G * x0 + 3 * G * x4 + G * x8 = b4"
    "G * x0 + G * x4 + 3 * G * x8 = b8"
    by (simp_all add: elastic_operator_quarter[OF nu] xs bs mat_vec_def flatten_def)
  then have "5 * G * (x0 + x4 + x8) = b0 + b4 + b8" by (simp add: algebra_simps)
  then have "x0 + x4 + x8 = (b0 + b4 + b8) / (5 * G)" using G by (simp add: field_simps)
  then have t: "trace3 (reshape33 x) = trace3 b / (5 * G)"
    by (simp add: xs bs trace3_def reshape33_def)
  have "solve_strain b (elastic_stiffness st G) = Inr (reshape33 x)"
    by (simp add: solve_strain_def Let_def x ebind_def)
  with t reshape33_flatten9(1)[OF lx] show ?thesis by blast
qed

section \<open>The mixed-control solver: round trip and refinement\<close>

lemma solve_all_stress_result:
  assumes E: "is_tensor4 E" and b: "is_mat33 b" and ns: "nonsingular (reshape99 E)"
    and ls: "length (flatten strain) = 9"
  shows "\<exists>s. solve_strain b E = Inr s
             \<and> solve_strain_with_consttain strain b E all_True = Inr (s, b)
             \<and> is_mat33 s \<and> tensor_apply E s = b"
proof -
  let ?A = "reshape99 E"
  have l: "length ?A = 9" using E by (rule reshape99_shape(1))
  have lb: "length (flatten b) = length ?A" using is_mat33_flatten(1)[OF b] l by simp
  from linalg_solve_complete[OF ns lb] obtain x where x: "linalg_solve ?A (flatten b) = Inr x"
    by blast
  from linalg_solve_sound[OF x] l have lx: "length x = 9" and eq: "mat_vec ?A x = flatten b"
    by simp_all
  have 1: "solve_strain b E = Inr (reshape33 x)"
    by (simp add: solve_strain_def Let_def x ebind_def)
  have 2: "solve_strain_with_consttain strain b E all_True = Inr (reshape33 x, b)"
    by (simp add: solve_constrain_all_stress[OF E b ls] x ebind_def eq is_mat33_flatten(2)[OF b])
  have "tensor_apply E (reshape33 x) = reshape33 (mat_vec ?A (flatten (reshape33 x)))"
    by (rule tensor_apply_reshape[OF E, symmetric])
  also have "\<dots> = b"
    by (simp add: reshape33_flatten9(2)[OF lx] eq is_mat33_flatten(2)[OF b])
  finally have 3: "tensor_apply E (reshape33 x) = b" .
  from 1 2 3 reshape33_flatten9(1)[OF lx] show ?thesis by blast
qed

text \<open>
  C7.  For a stiffness tensor whose 9x9 operator is invertible and any pair of 3x3
  increments: with every component strain-prescribed the solver returns the given
  strain and the stress \<open>E : strain\<close>; with every component stress-prescribed it returns
  a strain to which the stiffness tensor applied gives the given stress, and returns
  that stress.  Over the reals the recovered stress is the given stress exactly.
\<close>

theorem solve_constrain_round_trip:
  assumes "is_tensor4 E" "is_mat33 strain" "is_mat33 stress" "nonsingular (reshape99 E)"
  shows "solve_strain_with_consttain strain stress E all_False
           = Inr (strain, tensor_apply E strain)
       \<and> (\<exists>strain'. solve_strain_with_consttain strain stress E all_True = Inr (strain', stress)
              \<and> is_mat33 strain' \<and> tensor_apply E strain' = stress)"
proof -
  have ls: "length (flatten strain) = 9" using assms(2) by (rule is_mat33_flatten(1))
  from solve_all_stress_result[OF assms(1) assms(3) assms(4) ls]
  have "\<exists>strain'. solve_strain_with_consttain strain stress E all_True = Inr (strain', stress)
              \<and> is_mat33 strain' \<and> tensor_apply E strain' = stress" by blast
  with solve_constrain_all_strain[OF assms(1-3)] show ?thesis by blast
qed

theorem solve_constrain_round_trip_witness:
  "is_tensor4 (elastic_stiffness Li2002_default 1)
   \<and> is_mat33 [[1, 0, 0], [0, 2, 0], [0, 0, 3::real]]
   \<and> is_mat33 [[5, 1, 0], [1, 5, 0], [0, 0, 5::real]]
   \<and> nonsingular (reshape99 (elastic_stiffness Li2002_default 1))
   \<and> solve_strain_with_consttain [[1, 0, 0], [0, 2, 0], [0, 0, 3]] [[5, 1, 0], [1, 5, 0], [0, 0, 5]]
       (elastic_stiffness Li2002_default 1) all_False
     = Inr ([[1, 0, 0], [0, 2, 0], [0, 0, 3]],
            tensor_apply (elastic_stiffness Li2002_default 1) [[1, 0, 0], [0, 2, 0], [0, 0, 3]])
   \<and> (\<exists>strain'. solve_strain_with_consttain [[1, 0, 0], [0, 2, 0], [0, 0, 3]]
                    [[5, 1, 0], [1, 5, 0], [0, 0, 5]] (elastic_stiffness Li2002_default 1) all_True
                  = Inr (strain', [[5, 1, 0], [1, 5, 0], [0, 0, 5]])
              \<and> is_mat33 strain'
              \<and> tensor_apply (elastic_stiffness Li2002_default 1) strain'
                  = [[5, 1, 0], [1, 5, 0], [0, 0, 5]])"
proof -
  have nu: "s_nu Li2002_default = 1 / 4" by (simp add: Li2002_default_def Li2002_def)
  have 1: "is_tensor4 (elastic_stiffness Li2002_default 1)"
    by (rule elastic_stiffness_tensor4[OF nu])
  have 2: "is_mat33 [[1, 0, 0], [0, 2, 0], [0, 0, 3::real]]" by (simp add: is_mat33_def)
  have 3: "is_mat33 [[5, 1, 0], [1, 5, 0], [0, 0, 5::real]]" by (simp add: is_mat33_def)
  have 4: "nonsingular (reshape99 (elastic_stiffness Li2002_default 1))"
    by (rule elastic_operator_nonsingular[OF nu]) simp
  from solve_constrain_round_trip[OF 1 2 3 4] 1 2 3 4 show ?thesis by blast
qed

text \<open>
  C9.  For a 3x3 stress \<open>b\<close> and a stiffness tensor whose operator is invertible, the
  mixed-control solver with every component stress-prescribed and a zero given strain
  returns the strain \<open>solve_strain b E\<close> returns, and the stress \<open>b\<close>, which is the
  stiffness tensor applied to that strain.
\<close>

theorem solve_constrain_refines_solve_strain:
  assumes "is_tensor4 E" "is_mat33 b" "nonsingular (reshape99 E)"
  shows "\<exists>s. solve_strain b E = Inr s
           \<and> solve_strain_with_consttain zeros33 b E all_True = Inr (s, b)
           \<and> tensor_apply E s = b"
proof -
  have "length (flatten zeros33) = 9" by (simp add: zeros33_def flatten_def)
  from solve_all_stress_result[OF assms this] show ?thesis by blast
qed

theorem solve_constrain_refines_solve_strain_witness:
  "is_tensor4 (elastic_stiffness Li2002_default 1)
   \<and> is_mat33 [[5, 1, 0], [1, 5, 0], [0, 0, 5::real]]
   \<and> nonsingular (reshape99 (elastic_stiffness Li2002_default 1))
   \<and> (\<exists>s. solve_strain [[5, 1, 0], [1, 5, 0], [0, 0, 5]] (elastic_stiffness Li2002_default 1) = Inr s
     \<and> solve_strain_with_consttain zeros33 [[5, 1, 0], [1, 5, 0], [0, 0, 5]]
          (elastic_stiffness Li2002_default 1) all_True
        = Inr (s, [[5, 1, 0], [1, 5, 0], [0, 0, 5]])
     \<and> tensor_apply (elastic_stiffness Li2002_default 1) s = [[5, 1, 0], [1, 5, 0], [0, 0, 5]])"
proof -
  have nu: "s_nu Li2002_default = 1 / 4" by (simp add: Li2002_default_def Li2002_def)
  have 1: "is_tensor4 (elastic_stiffness Li2002_default 1)"
    by (rule elastic_stiffness_tensor4[OF nu])
  have 3: "is_mat33 [[5, 1, 0], [1, 5, 0], [0, 0, 5::real]]" by (simp add: is_mat33_def)
  have 4: "nonsingular (reshape99 (elastic_stiffness Li2002_default 1))"
    by (rule elastic_operator_nonsingular[OF nu]) simp
  from solve_constrain_refines_solve_strain[OF 1 3 4] 1 3 4 show ?thesis by blast
qed

section \<open>Isotropic compression\<close>

lemma trace3_mat_add:
  assumes "is_mat33 A" "is_mat33 B"
  shows "trace3 (mat_add A B) = trace3 A + trace3 B" "is_mat33 (mat_add A B)"
proof -
  from assms(1) obtain a b c d e f g h i where A: "A = [[a, b, c], [d, e, f], [g, h, i]]"
    by (rule is_mat33E)
  from assms(2) obtain a' b' c' d' e' f' g' h' i' where
    B: "B = [[a', b', c'], [d', e', f'], [g', h', i']]"
    by (rule is_mat33E)
  show "trace3 (mat_add A B) = trace3 A + trace3 B" "is_mat33 (mat_add A B)"
    by (simp_all add: A B mat_add_def trace3_def is_mat33_def)
qed

lemma set_strain_variable_fst:
  assumes "is_mat33 A"
  shows "fst (set_strain_variable A) = trace3 A"
  by (simp add: set_strain_variable_def Let_def trace3_def)

lemma shear_modulus_bound:
  fixes e p :: real
  assumes "0 \<le> e" "e \<le> 3 / 4"
  shows "250000 \<le> 125 * (2.97 - e)\<^sup>2 / (1 + e) * sqrt (max p 100 * 101000)"
proof -
  have "2 \<le> 2.97 - e" using assms by simp
  then have "2\<^sup>2 \<le> (2.97 - e)\<^sup>2" by (intro power_mono) simp_all
  then have n: "4 \<le> (2.97 - e)\<^sup>2" by simp
  have d: "0 < 1 + e" "1 + e \<le> 2" using assms by simp_all
  have "4 / 2 \<le> (2.97 - e)\<^sup>2 / (1 + e)"
    using n d by (intro frac_le) simp_all
  then have q: "2 \<le> (2.97 - e)\<^sup>2 / (1 + e)" by simp
  have "(1000::real)\<^sup>2 \<le> max p 100 * 101000" by simp
  then have "sqrt ((1000::real)\<^sup>2) \<le> sqrt (max p 100 * 101000)"
    by (rule real_sqrt_le_mono)
  then have s: "1000 \<le> sqrt (max p 100 * 101000)" by simp
  have "2 * 1000 \<le> (2.97 - e)\<^sup>2 / (1 + e) * sqrt (max p 100 * 101000)"
    using q s by (intro mult_mono) simp_all
  then have "125 * (2 * 1000) \<le> 125 * ((2.97 - e)\<^sup>2 / (1 + e) * sqrt (max p 100 * 101000))"
    by (intro mult_left_mono) simp_all
  then show ?thesis by (simp add: mult.assoc)
qed

lemma sqrt_two_thirds: "0 < sqrt (2 / 3 :: real)" "sqrt (2 / 3 :: real) \<le> 1"
proof -
  show "0 < sqrt (2 / 3 :: real)" by simp
  have "sqrt (2 / 3 :: real) \<le> sqrt 1" by (rule real_sqrt_le_mono) simp
  then show "sqrt (2 / 3 :: real) \<le> 1" by simp
qed

lemma compression_stiffness_bound:
  assumes par: "s_nu st = 1 / 4" "s_G0 st = 125" "s_pr st = 101000" "s_pmin st = 100"
    "s_h4 st = 7 / 2" "s_d2 st = 1"
    and e: "0 \<le> e" "e \<le> 3 / 4"
  shows "compression_finite st e p"
    and "\<exists>G2. isotropic_compression_stiffness st e p = elastic_stiffness st G2 \<and> 160000 \<le> G2"
proof -
  define r where "r = sqrt (2 / 3 :: real)"
  have r: "0 < r" "r \<le> 1" unfolding r_def by (rule sqrt_two_thirds)+
  define G where "G = 125 * (2.97 - e)\<^sup>2 / (1 + e) * sqrt (max p 100 * 101000)"
  have G: "250000 \<le> G" unfolding G_def by (rule shear_modulus_bound[OF e])
  define D where "D = 7 / 2 + r * (5 / 3)"
  have D: "0 < D" "D \<le> 31 / 6" using r by (simp_all add: D_def add_pos_pos)
  have fn: "2 * (1 + s_nu st) / (3 * (1 - 2 * s_nu st)) = 5 / 3" by (simp add: par)
  show "compression_finite st e p"
    using e D by (simp add: compression_finite_def moduli_finite_def par fn D_def r_def)
  have "G * (5 / 3) * (7 / 2) / X / (5 / 3) = G * (7 / 2) / X" for X :: real
    by simp
  from this[of D]
  have arith: "G * (5 / 3) * (7 / 2) / (7 / 2 + r * (5 / 3) * 1) / (5 / 3) = G * (7 / 2) / D"
    unfolding D_def mult_1_right .
  have "isotropic_compression_stiffness st e p
          = elastic_stiffness st (G * (5 / 3) * (7 / 2) / (7 / 2 + r * (5 / 3) * 1) / (5 / 3))"
    unfolding isotropic_compression_stiffness_def elastic_modulus_def Let_def prod.case fn
    unfolding par G_def r_def ..
  then have eq: "isotropic_compression_stiffness st e p = elastic_stiffness st (G * (7 / 2) / D)"
    unfolding arith .
  have "G * (7 / 2) / (31 / 6) \<le> G * (7 / 2) / D"
    using D G by (intro divide_left_mono) simp_all
  moreover have "160000 \<le> G * (7 / 2) / (31 / 6)" using G by simp
  ultimately have "160000 \<le> G * (7 / 2) / D" by linarith
  with eq show "\<exists>G2. isotropic_compression_stiffness st e p = elastic_stiffness st G2 \<and> 160000 \<le> G2"
    by blast
qed

lemma compression_step:
  assumes inv: "compression_invariant k st" and k: "k < 1000"
  shows "\<exists>st'. isotropic_compression_step (3 / 4) compression_increment st = Inr st'
            \<and> compression_invariant (Suc k) st'
            \<and> trace3 (s_strain st) < trace3 (s_strain st')
            \<and> st' = st\<lparr>s_stress := s_stress st', s_strain := s_strain st', s_e := s_e st'\<rparr>"
proof -
  from inv have par: "s_nu st = 1 / 4" "s_G0 st = 125" "s_pr st = 101000" "s_pmin st = 100"
    "s_h4 st = 7 / 2" "s_d2 st = 1"
    and stress: "s_stress st = [[20 * real k, 0, 0], [0, 40 * real k, 0], [0, 0, 20 * real k]]"
    and strain: "is_mat33 (s_strain st)"
    and ev: "0 \<le> trace3 (s_strain st)" "trace3 (s_strain st) \<le> real k / 10000"
    and e: "s_e st = Some (3 / 4 - trace3 (s_strain st) * (7 / 4))"
    by (simp_all add: compression_invariant_def)
  define e' where "e' = 3 / 4 - trace3 (s_strain st) * (7 / 4)"
  define p where "p = fst (set_stress_variable st (s_stress st))"
  have "real k / 10000 \<le> 1 / 10" using k by simp
  with ev have eb: "0 \<le> e'" "e' \<le> 3 / 4" by (simp_all add: e'_def)
  from compression_stiffness_bound[OF par eb, of p]
  obtain G2 where fin: "compression_finite st e' p"
    and E: "isotropic_compression_stiffness st e' p = elastic_stiffness st G2"
    and G2: "160000 \<le> G2" by blast
  have ds: "is_mat33 compression_increment" by (simp add: compression_increment_def is_mat33_def)
  have G2nz: "G2 \<noteq> 0" using G2 by simp
  from solve_strain_elastic[OF par(1) G2nz ds]
  obtain s where s: "solve_strain compression_increment (elastic_stiffness st G2) = Inr s"
    and ms: "is_mat33 s" and ts: "trace3 s = trace3 compression_increment / (5 * G2)" by blast
  have tds: "trace3 compression_increment = 80" by (simp add: compression_increment_def trace3_def)
  have ts': "trace3 s = 16 / G2" using ts tds by simp
  have pos: "0 < trace3 s" using G2 ts' by simp
  have "16 / G2 \<le> 16 / 160000" using G2 by (intro divide_left_mono) simp_all
  then have small: "trace3 s \<le> 1 / 10000" using ts' by simp
  define strain' where "strain' = mat_add (s_strain st) s"
  have tr: "trace3 strain' = trace3 (s_strain st) + trace3 s" and ms': "is_mat33 strain'"
    unfolding strain'_def by (rule trace3_mat_add[OF strain ms])+
  define st' where "st' = st\<lparr>s_stress := mat_add (s_stress st) compression_increment,
    s_strain := strain', s_e := Some (3 / 4 - trace3 strain' * (1 + 3 / 4))\<rparr>"
  have step: "isotropic_compression_step (3 / 4) compression_increment st = Inr st'"
    using fin[unfolded e'_def] E[unfolded e'_def] s set_strain_variable_fst[OF ms']
    by (simp add: isotropic_compression_step_def e attr_def ebind_def Let_def split_def
        p_def[symmetric] strain'_def[symmetric] st'_def)
  have stress': "s_stress st' = [[20 * real (Suc k), 0, 0], [0, 40 * real (Suc k), 0],
                                 [0, 0, 20 * real (Suc k)]]"
    by (simp add: st'_def stress mat_add_def compression_increment_def algebra_simps)
  have inv': "compression_invariant (Suc k) st'"
    unfolding compression_invariant_def
    using par stress' ms' ev pos small tr
    by (simp add: st'_def add_divide_distrib)
  have mono: "trace3 (s_strain st) < trace3 (s_strain st')" using tr pos by (simp add: st'_def)
  have frame: "st' = st\<lparr>s_stress := s_stress st', s_strain := s_strain st', s_e := s_e st'\<rparr>"
    by (simp add: st'_def)
  from step inv' mono frame show ?thesis by blast
qed

lemma compression_loop:
  assumes "compression_invariant k st" "k + j \<le> 1000"
  shows "\<exists>st'. isotropic_compression_loop j (3 / 4) compression_increment st = Inr st'
            \<and> compression_invariant (k + j) st'
            \<and> (0 < j \<longrightarrow> trace3 (s_strain st) < trace3 (s_strain st'))
            \<and> st' = st\<lparr>s_stress := s_stress st', s_strain := s_strain st', s_e := s_e st'\<rparr>"
  using assms
proof (induction j arbitrary: k st)
  case 0
  then show ?case by simp
next
  case (Suc j)
  from Suc.prems have k: "k < 1000" by simp
  from compression_step[OF Suc.prems(1) k] obtain st1 where
    1: "isotropic_compression_step (3 / 4) compression_increment st = Inr st1"
    and i1: "compression_invariant (Suc k) st1"
    and m1: "trace3 (s_strain st) < trace3 (s_strain st1)"
    and f1: "st1 = st\<lparr>s_stress := s_stress st1, s_strain := s_strain st1, s_e := s_e st1\<rparr>"
    by blast
  from Suc.prems have "Suc k + j \<le> 1000" by simp
  from Suc.IH[OF i1 this] obtain st' where
    2: "isotropic_compression_loop j (3 / 4) compression_increment st1 = Inr st'"
    and i2: "compression_invariant (Suc k + j) st'"
    and m2: "0 < j \<longrightarrow> trace3 (s_strain st1) < trace3 (s_strain st')"
    and f2: "st' = st1\<lparr>s_stress := s_stress st', s_strain := s_strain st', s_e := s_e st'\<rparr>"
    by blast
  have l: "isotropic_compression_loop (Suc j) (3 / 4) compression_increment st = Inr st'"
    by (simp add: 1 2 ebind_def)
  have m: "trace3 (s_strain st) < trace3 (s_strain st')"
    using m1 m2 by (cases j) (use 2 in auto)
  have f: "st' = st\<lparr>s_stress := s_stress st', s_strain := s_strain st', s_e := s_e st'\<rparr>"
    by (subst f2, subst f1) simp
  from l i2 m f show ?case by simp
qed

lemma compression_scenario:
  "\<exists>st ev. isotropic_compression Li2002_default (3 / 4) 20000 1000 = Inr st
      \<and> st = Li2002_default\<lparr>s_stress := [[20000, 0, 0], [0, 40000, 0], [0, 0, 20000]],
                              s_e := Some (3 / 4 - ev * (7 / 4))\<rparr>
      \<and> 0 < ev \<and> ev \<le> 1 / 10"
proof -
  define st0 where "st0 = Li2002_default\<lparr>s_e := Some (3 / 4)\<rparr>"
  have i0: "compression_invariant 0 st0"
    by (simp add: compression_invariant_def st0_def Li2002_default_def Li2002_def zeros33_def
        is_mat33_def trace3_def)
  from compression_loop[OF i0, of 1000] obtain st' where
    l: "isotropic_compression_loop 1000 (3 / 4) compression_increment st0 = Inr st'"
    and i: "compression_invariant 1000 st'"
    and m: "trace3 (s_strain st0) < trace3 (s_strain st')"
    and f: "st' = st0\<lparr>s_stress := s_stress st', s_strain := s_strain st', s_e := s_e st'\<rparr>"
    by auto
  define ev where "ev = trace3 (s_strain st')"
  have ev: "0 < ev" "ev \<le> 1 / 10"
    using m i by (simp_all add: ev_def st0_def Li2002_default_def Li2002_def zeros33_def trace3_def
        compression_invariant_def)
  from i have s: "s_stress st' = [[20000, 0, 0], [0, 40000, 0], [0, 0, 20000]]"
    and e: "s_e st' = Some (3 / 4 - ev * (7 / 4))"
    by (simp_all add: compression_invariant_def ev_def)
  have inc: "vector_to_matrix [20000 / real 1000, 20000 / real 1000 * 2, 20000 / real 1000, 0, 0, 0]
             = compression_increment"
    by (simp add: vector_to_matrix_def compression_increment_def)
  have run: "isotropic_compression Li2002_default (3 / 4) 20000 1000 = Inr (clear_strain st')"
    unfolding isotropic_compression_def Let_def inc st0_def[symmetric] l
    by (simp add: ebind_def)
  have "clear_strain st' = Li2002_default\<lparr>s_stress := [[20000, 0, 0], [0, 40000, 0], [0, 0, 20000]],
                              s_e := Some (3 / 4 - ev * (7 / 4))\<rparr>"
    by (subst f) (simp add: clear_strain_def s e st0_def Li2002_default_def Li2002_def)
  with run ev show ?thesis by metis
qed

text \<open>
  C1, as the code has it.  The run
  \<^verbatim>\<open>Li2002().isotropic_compression(e0=0.75, compression_stress=20000, nstep=1000)\<close>
  returns; the void ratio it leaves is below \<open>e0 = 0.75\<close>; the stress is
  \<open>diag (20000, 40000, 20000)\<close>, since the increment is \<^verbatim>\<open>[dcp, dcp*2, dcp]\<close>; so the
  final mean stress is \<open>80000 / 3\<close>, four thirds of \<^verbatim>\<open>compression_stress\<close>; and the strain
  accumulator is cleared.
\<close>

theorem isotropic_compression_scenario:
  "\<exists>st e. isotropic_compression Li2002_default (3 / 4) 20000 1000 = Inr st
      \<and> s_e st = Some e \<and> e < 3 / 4
      \<and> s_stress st = [[20000, 0, 0], [0, 40000, 0], [0, 0, 20000]]
      \<and> fst (set_stress_variable st (s_stress st)) = 80000 / 3
      \<and> s_strain st = zeros33"
proof -
  from compression_scenario obtain st ev where
    r: "isotropic_compression Li2002_default (3 / 4) 20000 1000 = Inr st"
    and st: "st = Li2002_default\<lparr>s_stress := [[20000, 0, 0], [0, 40000, 0], [0, 0, 20000]],
                              s_e := Some (3 / 4 - ev * (7 / 4))\<rparr>"
    and ev: "0 < ev" by blast
  have 1: "s_e st = Some (3 / 4 - ev * (7 / 4))" by (simp add: st)
  have 2: "3 / 4 - ev * (7 / 4) < 3 / 4" using ev by simp
  have 3: "s_stress st = [[20000, 0, 0], [0, 40000, 0], [0, 0, 20000]]" by (simp add: st)
  have 4: "fst (set_stress_variable st (s_stress st)) = 80000 / 3"
    by (simp add: 3 set_stress_variable_def Let_def)
  have 5: "s_strain st = zeros33" by (simp add: st Li2002_default_def Li2002_def)
  from r 1 2 3 4 5 show ?thesis by blast
qed

text \<open>
  C1 as stated fails: no result of the run has a final mean stress within 6666 of
  20000.
\<close>

theorem isotropic_compression_mean_stress_counterexample:
  "\<not> (\<exists>st. isotropic_compression Li2002_default (3 / 4) 20000 1000 = Inr st
          \<and> \<bar>fst (set_stress_variable st (s_stress st)) - 20000\<bar> \<le> 6666)"
proof
  assume "\<exists>st. isotropic_compression Li2002_default (3 / 4) 20000 1000 = Inr st
          \<and> \<bar>fst (set_stress_variable st (s_stress st)) - 20000\<bar> \<le> 6666"
  then obtain st where a: "isotropic_compression Li2002_default (3 / 4) 20000 1000 = Inr st"
    and b: "\<bar>fst (set_stress_variable st (s_stress st)) - 20000\<bar> \<le> 6666" by blast
  from compression_scenario a have
    "s_stress st = [[20000, 0, 0], [0, 40000, 0], [0, 0, 20000]]" by auto
  then have "fst (set_stress_variable st (s_stress st)) = 80000 / 3"
    by (simp add: set_stress_variable_def Let_def)
  with b show False by simp
qed

lemma triaxial_compression_loop_raises:
  "0 < n \<Longrightarrow> triaxial_compression_loop n st = Inl TypeError"
  by (cases n) (simp_all add: split_def)

text \<open>
  C2.  The triaxial run of the specification raises \<^verbatim>\<open>TypeError\<close> in the first pass of
  its loop, after the consolidation has succeeded: the loop calls \<open>plastic_deformation\<close>
  without its argument \<^verbatim>\<open>sp0\<close>.  No stress ratio is recorded.
\<close>

theorem triaxial_compression_raises:
  "triaxial_compression Li2002_default (3 / 4) 20000 (1 / 10000) (1 / 5) = Inl TypeError"
proof -
  from compression_scenario obtain st where
    r: "isotropic_compression Li2002_default (3 / 4) 20000 1000 = Inr st" by blast
  show ?thesis
    unfolding triaxial_compression_def r
    by (simp add: ebind_def Let_def split_def triaxial_compression_loop_raises)
qed

section \<open>The floor of the mean stress\<close>

text \<open>
  C3, at the stress \<open>diag (60, 50, 40)\<close>, whose mean stress 50 lies between the two
  floors: the snapshot floors the mean stress at its own \<^verbatim>\<open>pmin = 1.0\<close> and divides the
  deviator by 50, the model's \<open>set_stress_variable\<close> floors it at \<^verbatim>\<open>self.pmin = 100.0\<close>
  and divides by 100, so the two stress ratios of one stress differ by a factor of two.
\<close>

theorem pressure_floors_differ:
  "sp_pmin (StateParameters zeros33 [[60, 0, 0], [0, 50, 0], [0, 0, 40]] zeros33 zeros33 False False) = 1
   \<and> s_pmin Li2002_default = 100
   \<and> sp_p (StateParameters zeros33 [[60, 0, 0], [0, 50, 0], [0, 0, 40]] zeros33 zeros33 False False) = 50
   \<and> fst (set_stress_variable Li2002_default [[60, 0, 0], [0, 50, 0], [0, 0, 40]]) = 50
   \<and> sp_rij (StateParameters zeros33 [[60, 0, 0], [0, 50, 0], [0, 0, 40]] zeros33 zeros33 False False)
       = [[1 / 5, 0, 0], [0, 0, 0], [0, 0, - (1 / 5)]]
   \<and> sp_R (StateParameters zeros33 [[60, 0, 0], [0, 50, 0], [0, 0, 40]] zeros33 zeros33 False False)
       = sqrt (3 / 25)
   \<and> snd (set_stress_variable Li2002_default [[60, 0, 0], [0, 50, 0], [0, 0, 40]]) = sqrt (3 / 100)
   \<and> sp_R (StateParameters zeros33 [[60, 0, 0], [0, 50, 0], [0, 0, 40]] zeros33 zeros33 False False)
       \<noteq> snd (set_stress_variable Li2002_default [[60, 0, 0], [0, 50, 0], [0, 0, 40]])"
  by (simp add: StateParameters_def sp_set_stress_variable_def sp_set_stress_increment_def
      set_stress_variable_def Let_def Li2002_default_def Li2002_def mat_sub_def mat_scale_def
      mat_div_def mat_add_def eye3_def zeros33_def sum_sq_def flatten_def power2_eq_square)

text \<open>
  \<open>update_parameters\<close> divides by the mean stress of the snapshot as it is: when
  mechanism 1 is plastic, \<^verbatim>\<open>H1\<close> grows by \<^verbatim>\<open>Kp1_b * dL1 / sp.p\<close>, with no floor.
\<close>

lemma update_parameters_raw_pressure:
  assumes "update_parameters brentq st sp = Inr (st', sp')" "\<not> elastic_flag1 sp'"
  shows "\<exists>st1 k T. evaluate brentq st sp = Inr (st1, sp') \<and> Kp1_b sp' = Some k \<and> Tij sp' = Some T
           \<and> sp_p sp' \<noteq> 0
           \<and> s_H1 st' = s_H1 st1 + k * ddot T (sp_dstrain sp') / sp_p sp'"
  using assms
  by (auto simp: update_parameters_def ebind_def attr_def Let_def
      split: sum.splits option.splits if_splits prod.splits)

section \<open>Evaluating the state machine in triaxial extension\<close>

lemma powr_three_halves:
  fixes x :: real
  assumes "0 \<le> x"
  shows "(x\<^sup>2) powr (3 / 2) = x ^ 3"
proof (cases "x = 0")
  case True
  then show ?thesis by simp
next
  case False
  with assms have x: "0 < x" by simp
  have "(x\<^sup>2) powr (3 / 2) = (x powr 2) powr (3 / 2)" using x by simp
  also have "\<dots> = x powr 3" by (simp only: powr_powr) simp
  also have "\<dots> = x ^ 3" using x by (simp add: powr_numeral)
  finally show ?thesis .
qed

lemma sqrt_of_square:
  fixes x y :: real
  assumes "0 \<le> y" "y * y = x"
  shows "sqrt x = y"
  using assms by (metis real_sqrt_abs2 abs_of_nonneg)

lemma sqrt_square_values:
  "sqrt (9 / 100) = 3 / 10" "sqrt (961 / 256) = 31 / 16" "sqrt (10201000000) = 101000"
  by (rule sqrt_of_square; simp)+

lemma extension_Lode_angle:
  fixes t :: real
  assumes "0 < t"
  shows "Lode_angle [[t, 0, 0], [0, t, 0], [0, 0, - (2 * t)]] = pi / 6"
proof -
  have J2: "0.5 * sum_sq [[t, 0, 0], [0, t, 0], [0, 0, - (2 * t)]] = 3 * t\<^sup>2"
    by (simp add: sum_sq_def flatten_def power2_eq_square)
  have J3: "- det3 [[t, 0, 0], [0, t, 0], [0, 0, - (2 * t)]] = 2 * t ^ 3"
    by (simp add: det3_def power3_eq_cube)
  have nz: "3 * t\<^sup>2 \<noteq> 0" using assms by simp
  have "3 / (3 * t\<^sup>2) = (1 / t)\<^sup>2" using assms by (simp add: power2_eq_square)
  then have "(3 / (3 * t\<^sup>2)) powr 1.5 = ((1 / t)\<^sup>2) powr (3 / 2)" by simp
  also have "\<dots> = (1 / t) ^ 3" using assms by (intro powr_three_halves) simp
  finally have p: "(3 / (3 * t\<^sup>2)) powr 1.5 = (1 / t) ^ 3" .
  have s3: "2 * t ^ 3 / 2 * (1 / t) ^ 3 = 1" using assms by (simp add: power3_eq_cube)
  show ?thesis
    unfolding Lode_angle_def Let_def J2 J3 p s3 using nz by simp
qed

lemma sin_extension: "sin (3 * (pi / 6)) = 1"
  by simp

lemma extension_g_theta:
  assumes "s_c st = 3 / 4" "0 < t"
  shows "g_theta st [[t, 0, 0], [0, t, 0], [0, 0, - (2 * t)]] = 3 / 4"
    and "g_theta_finite st [[t, 0, 0], [0, t, 0], [0, 0, - (2 * t)]]"
    and "dg_theta st (pi / 6) = - (9 / 124)"
    and "dg_theta_finite st (pi / 6)"
proof -
  have d: "(1 + (3 / 4)\<^sup>2)\<^sup>2 + 4 * (3 / 4) * (1 - (3 / 4)\<^sup>2) * 1 = (961 / 256 :: real)"
    by (simp add: power2_eq_square)
  show "g_theta st [[t, 0, 0], [0, t, 0], [0, 0, - (2 * t)]] = 3 / 4"
    unfolding g_theta_def Let_def extension_Lode_angle[OF assms(2)] sin_extension assms(1) d
    by (simp add: sqrt_square_values power2_eq_square)
  show "g_theta_finite st [[t, 0, 0], [0, t, 0], [0, 0, - (2 * t)]]"
    unfolding g_theta_finite_def Let_def extension_Lode_angle[OF assms(2)] sin_extension assms(1) d
    by simp
  show "dg_theta st (pi / 6) = - (9 / 124)"
    unfolding dg_theta_def Let_def sin_extension assms(1) d
    by (simp add: sqrt_square_values power2_eq_square)
  show "dg_theta_finite st (pi / 6)"
    unfolding dg_theta_finite_def Let_def sin_extension assms(1) d
    by simp
qed

lemma extension_state_fields:
  "s_G0 extension_state = 125" "s_nu extension_state = 1 / 4" "s_M extension_state = 5 / 4"
  "s_c extension_state = 3 / 4" "s_eg extension_state = 934 / 1000"
  "s_rlambdac extension_state = 19 / 1000" "s_xi extension_state = 7 / 10"
  "s_d1 extension_state = 41 / 100" "s_m extension_state = 7 / 2" "s_h1 extension_state = 315 / 100"
  "s_h2 extension_state = 305 / 100" "s_h3 extension_state = 22 / 10" "s_n extension_state = 11 / 10"
  "s_d2 extension_state = 1" "s_h4 extension_state = 7 / 2" "s_a extension_state = 1"
  "s_b1 extension_state = 5 / 1000" "s_b2 extension_state = 2" "s_b3 extension_state = 1 / 100"
  "s_eps extension_state = 1 / 1000000" "s_pr extension_state = 101000" "s_pmin extension_state = 100"
  "s_stress extension_state = extension_stress" "s_strain extension_state = zeros33"
  "s_alpha extension_state = zeros33" "s_beta extension_state = 101000" "s_H1 extension_state = 0"
  "s_H2 extension_state = 101000" "s_L1 extension_state = 0" "s_e extension_state = Some (183 / 200)"
  by (simp_all add: extension_state_def Li2002_default_def Li2002_def)

lemma extension_snapshot_fields:
  "sp_p (StateParameters strain extension_stress dstrain dstress f1 f2) = 101000"
  "sp_sij (StateParameters strain extension_stress dstrain dstress f1 f2)
     = [[10100, 0, 0], [0, 10100, 0], [0, 0, - (2 * 10100)]]"
  "sp_rij (StateParameters strain extension_stress dstrain dstress f1 f2)
     = [[1 / 10, 0, 0], [0, 1 / 10, 0], [0, 0, - (2 * (1 / 10))]]"
  "sp_R (StateParameters strain extension_stress dstrain dstress f1 f2) = 3 / 10"
  "sp_dstrain (StateParameters strain extension_stress dstrain dstress f1 f2) = dstrain"
  "elastic_flag1 (StateParameters strain extension_stress dstrain dstress f1 f2) = f1"
  "elastic_flag2 (StateParameters strain extension_stress dstrain dstress f1 f2) = f2"
  by (simp_all add: StateParameters_def sp_set_stress_variable_def sp_set_stress_increment_def
      Let_def extension_stress_def mat_sub_def mat_scale_def mat_div_def eye3_def
      sum_sq_def flatten_def power2_eq_square sqrt_square_values)

lemma extension_shape_values:
  assumes "s_c st = 3 / 4"
  shows "g_theta st [[1 / 10, 0, 0], [0, 1 / 10, 0], [0, 0, - (1 / 5)]] = 3 / 4"
    "g_theta_finite st [[1 / 10, 0, 0], [0, 1 / 10, 0], [0, 0, - (1 / 5)]]"
    "g_theta st [[10100, 0, 0], [0, 10100, 0], [0, 0, - 20200]] = 3 / 4"
    "g_theta_finite st [[10100, 0, 0], [0, 10100, 0], [0, 0, - 20200]]"
    "dg_theta st (pi / 6) = - (9 / 124)"
    "dg_theta_finite st (pi / 6)"
  using extension_g_theta(1,2)[OF assms, of "1 / 10"] extension_g_theta[OF assms, of 10100]
  by simp_all

lemma extension_Lode_values:
  "Lode_angle [[10100, 0, 0], [0, 10100, 0], [0, 0, - 20200]] = pi / 6"
  using extension_Lode_angle[of 10100] by simp

lemma norm_not_small: "\<not> sqrt (3 / 50) * 1000000 < 1"
proof -
  have "1 / 5 \<le> sqrt (3 / 50 :: real)" by (rule real_le_rsqrt) (simp add: power2_eq_square)
  then show ?thesis by simp
qed

lemma extension_mapping1:
  "mapping1 brentq extension_state (StateParameters strain extension_stress dstrain dstress False False)
   = Inr (extension_state\<lparr>s_H1 := 2 / 5\<rparr>,
          (StateParameters strain extension_stress dstrain dstress False False)
            \<lparr>rij_bar := Some [[1 / 10, 0, 0], [0, 1 / 10, 0], [0, 0, - (1 / 5)]],
             R_bar := Some (3 / 10), g_bar := Some (3 / 4), rho1_ratio := Some 1\<rparr>)"
  by (simp add: mapping1_def extension_state_fields extension_snapshot_fields zeros33_def mat_sub_def frob_norm_def sum_sq_def flatten_def
     mapping_r_def Let_def mat_add_def mat_scale_def F1_boundary_surface_def  power2_eq_square extension_shape_values sqrt_square_values norm_not_small)

lemma extension_mapping:
  fixes strain dstrain dstress
  defines "sp \<equiv> StateParameters strain extension_stress dstrain dstress False False"
  shows "set_mapping_stress brentq extension_state sp
   = Inr (extension_state\<lparr>s_H1 := 2 / 5\<rparr>,
          sp\<lparr>rij_bar := Some [[1 / 10, 0, 0], [0, 1 / 10, 0], [0, 0, - (1 / 5)]],
             R_bar := Some (3 / 10), g_bar := Some (3 / 4), rho1_ratio := Some 1,
             elastic_flag2 := True\<rparr>)"
  unfolding sp_def
  by (simp add: set_mapping_stress_def recenter_def extension_snapshot_fields extension_mapping1
      ebind_def mapping2_def extension_state_fields)

lemma extension_parameters:
  fixes strain dstrain dstress
  defines "sp \<equiv> StateParameters strain extension_stress dstrain dstress False False"
  shows "set_parameters (extension_state\<lparr>s_H1 := 2 / 5\<rparr>)
          (sp\<lparr>rij_bar := Some [[1 / 10, 0, 0], [0, 1 / 10, 0], [0, 0, - (1 / 5)]],
             R_bar := Some (3 / 10), g_bar := Some (3 / 4), rho1_ratio := Some 1,
             elastic_flag2 := True\<rparr>)
        = Inr (sp\<lparr>rij_bar := Some [[1 / 10, 0, 0], [0, 1 / 10, 0], [0, 0, - (1 / 5)]],
             R_bar := Some (3 / 10), g_bar := Some (3 / 4), rho1_ratio := Some 1,
             elastic_flag2 := True, Ge := Some (10663138125 / 383),
             Ke := Some (17771896875 / 383), psi := Some 0, sp_g := Some (3 / 4),
             sp_h := Some (1437 / 4000), Kp1 := Some (2083918410045 / 98048),
             Kp1_b := Some (2083918410045 / 98048), D1 := Some (697 / 2500),
             Kp2_b := Some 0\<rparr>)"
  unfolding sp_def
  by (simp add: set_parameters_def extension_state_fields extension_snapshot_fields attr_def ebind_def
      moduli_finite_def extension_shape_values elastic_modulus_def state_parameter_def Let_def
      set_parameters1_def set_parameters2_def mechanism1_finite_def scaling_factor_def accumulated_load_index_def
      plastic_modulus1_def dilatancy1_def sqrt_square_values power2_eq_square)

lemma sqrt6_values:
  "sqrt (8 / 3) = 4 / sqrt 6" "sqrt (3 / 50) = 3 / (5 * sqrt 6)" "sqrt (2 / 3) = 2 / sqrt 6"
  "sqrt (2 / 27) = 2 / (3 * sqrt 6)"
proof -
  have s: "sqrt 6 * sqrt 6 = (6::real)" by simp
  have p: "0 < sqrt (6::real)" by simp
  show "sqrt (8 / 3) = 4 / sqrt 6"
    by (rule sqrt_of_square) (simp_all add: s)
  show "sqrt (3 / 50) = 3 / (5 * sqrt 6)"
    by (rule sqrt_of_square) (simp_all add: s)
  show "sqrt (2 / 3) = 2 / sqrt 6"
    by (rule sqrt_of_square) (simp_all add: s)
  show "sqrt (2 / 27) = 2 / (3 * sqrt 6)"
    by (rule sqrt_of_square) (simp_all add: s)
qed

lemma extension_nm:
  fixes strain dstrain dstress
  defines "sp \<equiv> StateParameters strain extension_stress dstrain dstress False False"
  shows "set_parameter_nm (extension_state\<lparr>s_H1 := 2 / 5\<rparr>)
          (sp\<lparr>rij_bar := Some [[1 / 10, 0, 0], [0, 1 / 10, 0], [0, 0, - (1 / 5)]],
             R_bar := Some (3 / 10), g_bar := Some (3 / 4), rho1_ratio := Some 1,
             elastic_flag2 := True, Ge := Some (10663138125 / 383),
             Ke := Some (17771896875 / 383), psi := Some 0, sp_g := Some (3 / 4),
             sp_h := Some (1437 / 4000), Kp1 := Some (2083918410045 / 98048),
             Kp1_b := Some (2083918410045 / 98048), D1 := Some (697 / 2500),
             Kp2_b := Some 0\<rparr>)
       = Inr (sp\<lparr>rij_bar := Some [[1 / 10, 0, 0], [0, 1 / 10, 0], [0, 0, - (1 / 5)]],
             R_bar := Some (3 / 10), g_bar := Some (3 / 4), rho1_ratio := Some 1,
             elastic_flag2 := True, Ge := Some (10663138125 / 383),
             Ke := Some (17771896875 / 383), psi := Some 0, sp_g := Some (3 / 4),
             sp_h := Some (1437 / 4000), Kp1 := Some (2083918410045 / 98048),
             Kp1_b := Some (2083918410045 / 98048), D1 := Some (697 / 2500),
             Kp2_b := Some 0,
             nij := Some [[sqrt 6 / 6, 0, 0], [0, sqrt 6 / 6, 0], [0, 0, - (sqrt 6 / 3)]],
             mij := Some [[sqrt 6 / 6, 0, 0], [0, sqrt 6 / 6, 0], [0, 0, - (sqrt 6 / 3)]]\<rparr>)"
  unfolding sp_def
  by (simp add: set_parameter_nm_def set_nij_def set_mij_def flow_direction_def extension_state_fields extension_snapshot_fields attr_def ebind_def
       extension_shape_values extension_Lode_values Let_def dF1_r_def 
      mat_add_def mat_scale_def mat_sub_def mat_div_def trace3_def eye3_def dot_def frob_norm_def sum_sq_def flatten_def
     sqrt_square_values power2_eq_square sqrt6_values)

lemma extension_TZ:
  fixes strain dstrain dstress
  defines "sp \<equiv> StateParameters strain extension_stress dstrain dstress False False"
  shows "set_parameter_TZ (extension_state\<lparr>s_H1 := 2 / 5\<rparr>)
          (sp\<lparr>rij_bar := Some [[1 / 10, 0, 0], [0, 1 / 10, 0], [0, 0, - (1 / 5)]],
             R_bar := Some (3 / 10), g_bar := Some (3 / 4), rho1_ratio := Some 1,
             elastic_flag2 := True, Ge := Some (10663138125 / 383),
             Ke := Some (17771896875 / 383), psi := Some 0, sp_g := Some (3 / 4),
             sp_h := Some (1437 / 4000), Kp1 := Some (2083918410045 / 98048),
             Kp1_b := Some (2083918410045 / 98048), D1 := Some (697 / 2500),
             Kp2_b := Some 0,
             nij := Some [[sqrt 6 / 6, 0, 0], [0, sqrt 6 / 6, 0], [0, 0, - (sqrt 6 / 3)]],
             mij := Some [[sqrt 6 / 6, 0, 0], [0, sqrt 6 / 6, 0], [0, 0, - (sqrt 6 / 3)]]\<rparr>)
       = Inr (sp\<lparr>rij_bar := Some [[1 / 10, 0, 0], [0, 1 / 10, 0], [0, 0, - (1 / 5)]],
             R_bar := Some (3 / 10), g_bar := Some (3 / 4), rho1_ratio := Some 1,
             elastic_flag2 := True, Ge := Some (10663138125 / 383),
             Ke := Some (17771896875 / 383), psi := Some 0, sp_g := Some (3 / 4),
             sp_h := Some (1437 / 4000), Kp1 := Some (2083918410045 / 98048),
             Kp1_b := Some (2083918410045 / 98048), D1 := Some (697 / 2500),
             Kp2_b := Some 0,
             nij := Some [[sqrt 6 / 6, 0, 0], [0, sqrt 6 / 6, 0], [0, 0, - (sqrt 6 / 3)]],
             mij := Some [[sqrt 6 / 6, 0, 0], [0, sqrt 6 / 6, 0], [0, 0, - (sqrt 6 / 3)]],
             sp_B := Some 0,
             Tij := Some [[80000 * sqrt 6 / 1281827, 0, 0], [0, 80000 * sqrt 6 / 1281827, 0],
                          [0, 0, - (400000 * sqrt 6 / 1281827)]],
             Zij := Some zeros33\<rparr>)"
  unfolding sp_def
  by (simp add: set_parameter_TZ_def set_B_def set_Tij_def set_Zij_def Zij_denominator_def extension_state_fields
      extension_snapshot_fields attr_def ebind_def Let_def ddot_def mat_add_def mat_scale_def
      mat_sub_def mat_div_def eye3_def dot_def flatten_def zeros33_def sqrt6_values)

text \<open>
  The four calls together, for a snapshot of the extension state made with both flags
  clear: mechanism 1 is plastic and maps onto itself (\<^verbatim>\<open>H1\<close> becomes \<open>R / g = 2 / 5\<close>),
  mechanism 2 is elastic since \<^verbatim>\<open>p = beta\<close>.
\<close>

lemma extension_evaluate:
  fixes strain dstrain dstress
  defines "sp \<equiv> StateParameters strain extension_stress dstrain dstress False False"
  shows "evaluate brentq extension_state sp
       = Inr (extension_state\<lparr>s_H1 := 2 / 5\<rparr>,
          sp\<lparr>rij_bar := Some [[1 / 10, 0, 0], [0, 1 / 10, 0], [0, 0, - (1 / 5)]],
             R_bar := Some (3 / 10), g_bar := Some (3 / 4), rho1_ratio := Some 1,
             elastic_flag2 := True, Ge := Some (10663138125 / 383),
             Ke := Some (17771896875 / 383), psi := Some 0, sp_g := Some (3 / 4),
             sp_h := Some (1437 / 4000), Kp1 := Some (2083918410045 / 98048),
             Kp1_b := Some (2083918410045 / 98048), D1 := Some (697 / 2500),
             Kp2_b := Some 0,
             nij := Some [[sqrt 6 / 6, 0, 0], [0, sqrt 6 / 6, 0], [0, 0, - (sqrt 6 / 3)]],
             mij := Some [[sqrt 6 / 6, 0, 0], [0, sqrt 6 / 6, 0], [0, 0, - (sqrt 6 / 3)]],
             sp_B := Some 0,
             Tij := Some [[80000 * sqrt 6 / 1281827, 0, 0], [0, 80000 * sqrt 6 / 1281827, 0],
                          [0, 0, - (400000 * sqrt 6 / 1281827)]],
             Zij := Some zeros33\<rparr>)"
  unfolding sp_def evaluate_def extension_mapping
  by (simp add: ebind_def extension_parameters extension_nm extension_TZ)

section \<open>Continuity of the shape function across its branch boundary\<close>















section \<open>What the evaluation of a snapshot changes\<close>

lemma ebind_Inr:
  "ebind r f = Inr y \<longleftrightarrow> (\<exists>x. r = Inr x \<and> f x = Inr y)"
  by (cases r) (simp_all add: ebind_def)

lemma attr_Inr: "attr x = Inr v \<longleftrightarrow> x = Some v"
  by (cases x) (simp_all add: attr_def)

lemma recenter_fields:
  "s_alpha (recenter st sp) = (if elastic_flag1 sp then sp_rij sp else s_alpha st)"
  "s_beta (recenter st sp) = (if elastic_flag2 sp then sp_p sp else s_beta st)"
  "recenter st sp = st\<lparr>s_alpha := s_alpha (recenter st sp), s_beta := s_beta (recenter st sp)\<rparr>"
  by (simp_all add: recenter_def Let_def)

lemma mapping1_frame:
  assumes "mapping1 brentq st sp = Inr (st1, sp1)"
  shows "st1 = st\<lparr>s_H1 := s_H1 st1\<rparr>"
    and "sp_rij sp1 = sp_rij sp \<and> sp_p sp1 = sp_p sp \<and> sp_dstrain sp1 = sp_dstrain sp
         \<and> sp_dp sp1 = sp_dp sp \<and> elastic_flag2 sp1 = elastic_flag2 sp"
proof -
  obtain rb Rb gb where r: "mapping_r st 1 (sp_rij sp) (s_alpha st) = (rb, Rb, gb)"
    by (cases "mapping_r st 1 (sp_rij sp) (s_alpha st)") auto
  have "st1 = st\<lparr>s_H1 := s_H1 st1\<rparr> \<and> sp_rij sp1 = sp_rij sp \<and> sp_p sp1 = sp_p sp
        \<and> sp_dstrain sp1 = sp_dstrain sp \<and> sp_dp sp1 = sp_dp sp
        \<and> elastic_flag2 sp1 = elastic_flag2 sp"
  proof (cases "frob_norm (mat_sub (sp_rij sp) (s_alpha st)) < 1 / 1000000")
    case True
    with assms show ?thesis by (auto simp: mapping1_def)
  next
    case False
    note nf = this
    show ?thesis
    proof (cases "F1_boundary_surface st 1 (sp_rij sp) (s_alpha st) > 0")
      case True
      with assms nf r show ?thesis
        by (auto simp: mapping1_def split: if_splits)
    next
      case False
      with assms nf r obtain t where
        m: "(case mapping_r st t (sp_rij sp) (s_alpha st) of
              (rb', Rb', gb') \<Rightarrow>
                if \<not> g_theta_finite st rb' then Inl NonFinite
                else Inr (st, sp\<lparr>rij_bar := Some rb', R_bar := Some Rb', g_bar := Some gb',
                                 rho1_ratio := Some t\<rparr>)) = Inr (st1, sp1)"
        by (auto simp: mapping1_def ebind_Inr split: if_splits)
      obtain rb' Rb' gb' where "mapping_r st t (sp_rij sp) (s_alpha st) = (rb', Rb', gb')"
        by (cases "mapping_r st t (sp_rij sp) (s_alpha st)") auto
      with m show ?thesis by (auto split: if_splits)
    qed
  qed
  then show "st1 = st\<lparr>s_H1 := s_H1 st1\<rparr>"
    and "sp_rij sp1 = sp_rij sp \<and> sp_p sp1 = sp_p sp \<and> sp_dstrain sp1 = sp_dstrain sp
         \<and> sp_dp sp1 = sp_dp sp \<and> elastic_flag2 sp1 = elastic_flag2 sp"
    by blast+
qed

lemma mapping2_frame:
  assumes "mapping2 st sp = (st2, sp2)"
  shows "st2 = st\<lparr>s_H2 := s_H2 st2\<rparr>"
    and "s_H2 st \<le> s_H2 st2"
    and "sp_rij sp2 = sp_rij sp \<and> sp_p sp2 = sp_p sp \<and> sp_dstrain sp2 = sp_dstrain sp
         \<and> elastic_flag1 sp2 = elastic_flag1 sp"
  using assms
  by (auto simp: mapping2_def Let_def split: if_splits)

lemma set_mapping_stress_frame:
  assumes "set_mapping_stress brentq st sp = Inr (st1, sp1)"
  shows "st1 = st\<lparr>s_alpha := s_alpha st1, s_beta := s_beta st1, s_H1 := s_H1 st1,
                   s_H2 := s_H2 st1\<rparr>"
    and "s_alpha st1 = (if elastic_flag1 sp then sp_rij sp else s_alpha st)"
    and "s_beta st1 = (if elastic_flag2 sp then sp_p sp else s_beta st)"
    and "s_H2 st \<le> s_H2 st1"
    and "sp_rij sp1 = sp_rij sp \<and> sp_p sp1 = sp_p sp \<and> sp_dstrain sp1 = sp_dstrain sp"
proof -
  from assms obtain sta spa where m1: "mapping1 brentq (recenter st sp) sp = Inr (sta, spa)"
    and m2: "mapping2 sta spa = (st1, sp1)"
    by (auto simp: set_mapping_stress_def ebind_Inr)
  note a = mapping1_frame[OF m1] and b = mapping2_frame[OF m2]
  have r: "recenter st sp = st\<lparr>s_alpha := s_alpha (recenter st sp),
                                  s_beta := s_beta (recenter st sp)\<rparr>"
    by (rule recenter_fields(3))
  have st1: "st1 = (recenter st sp)\<lparr>s_H1 := s_H1 sta, s_H2 := s_H2 st1\<rparr>"
    by (subst b(1), subst a(1)) simp
  show "s_alpha st1 = (if elastic_flag1 sp then sp_rij sp else s_alpha st)"
    by (subst st1) (simp add: recenter_fields(1,2))
  show "s_beta st1 = (if elastic_flag2 sp then sp_p sp else s_beta st)"
    by (subst st1) (simp add: recenter_fields(1,2))
  show "st1 = st\<lparr>s_alpha := s_alpha st1, s_beta := s_beta st1, s_H1 := s_H1 st1,
                   s_H2 := s_H2 st1\<rparr>"
    by (subst (1 2 3 4 5) st1, subst (1 2 3 4 5) r) simp
  have "s_H2 sta = s_H2 st" by (subst a(1)) (simp add: recenter_def Let_def)
  with b(2) show "s_H2 st \<le> s_H2 st1" by simp
  from a(2) b(3) show "sp_rij sp1 = sp_rij sp \<and> sp_p sp1 = sp_p sp \<and> sp_dstrain sp1 = sp_dstrain sp"
    by simp
qed

lemma set_parameters_frame:
  assumes "set_parameters st sp = Inr sp'"
  shows "sp_rij sp' = sp_rij sp \<and> sp_p sp' = sp_p sp \<and> sp_dstrain sp' = sp_dstrain sp
         \<and> elastic_flag1 sp' = elastic_flag1 sp \<and> elastic_flag2 sp' = elastic_flag2 sp"
proof -
  from assms obtain e sp1 where
    1: "set_parameters1 st e (fst (elastic_modulus st e (sp_p sp))) (state_parameter st e (sp_p sp))
          (g_theta st (sp_sij sp))
          (sp\<lparr>Ge := Some (fst (elastic_modulus st e (sp_p sp))),
              Ke := Some (snd (elastic_modulus st e (sp_p sp))),
              psi := Some (state_parameter st e (sp_p sp)),
              sp_g := Some (g_theta st (sp_sij sp))\<rparr>) = Inr sp1"
    and 2: "set_parameters2 st (fst (elastic_modulus st e (sp_p sp))) (g_theta st (sp_sij sp)) sp1
            = Inr sp'"
    by (auto simp: set_parameters_def ebind_Inr Let_def split_def split: if_splits)
  from 1 have a: "sp_rij sp1 = sp_rij sp \<and> sp_p sp1 = sp_p sp \<and> sp_dstrain sp1 = sp_dstrain sp
         \<and> elastic_flag1 sp1 = elastic_flag1 sp \<and> elastic_flag2 sp1 = elastic_flag2 sp"
    by (auto simp: set_parameters1_def ebind_Inr Let_def split_def split: if_splits)
  from 2 have "sp_rij sp' = sp_rij sp1 \<and> sp_p sp' = sp_p sp1 \<and> sp_dstrain sp' = sp_dstrain sp1
         \<and> elastic_flag1 sp' = elastic_flag1 sp1 \<and> elastic_flag2 sp' = elastic_flag2 sp1"
    by (auto simp: set_parameters2_def ebind_Inr Let_def split_def split: if_splits)
  with a show ?thesis by simp
qed

lemma set_parameter_nm_frame:
  assumes "set_parameter_nm st sp = Inr sp'"
  shows "sp_rij sp' = sp_rij sp \<and> sp_p sp' = sp_p sp \<and> sp_dstrain sp' = sp_dstrain sp
         \<and> elastic_flag1 sp' = elastic_flag1 sp \<and> elastic_flag2 sp' = elastic_flag2 sp"
proof -
  from assms obtain sp1 where 1: "set_nij st sp = Inr sp1" and 2: "sp' = set_mij sp1"
    by (auto simp: set_parameter_nm_def ebind_Inr)
  from 1 have "sp_rij sp1 = sp_rij sp \<and> sp_p sp1 = sp_p sp \<and> sp_dstrain sp1 = sp_dstrain sp
         \<and> elastic_flag1 sp1 = elastic_flag1 sp \<and> elastic_flag2 sp1 = elastic_flag2 sp"
    by (auto simp: set_nij_def ebind_Inr split: if_splits)
  with 2 show ?thesis by (simp add: set_mij_def Let_def)
qed

lemma set_B_frame:
  assumes "set_B sp = Inr sp'"
  shows "sp_rij sp' = sp_rij sp \<and> sp_p sp' = sp_p sp \<and> sp_dstrain sp' = sp_dstrain sp
         \<and> elastic_flag1 sp' = elastic_flag1 sp \<and> elastic_flag2 sp' = elastic_flag2 sp"
  using assms
  by (auto simp: set_B_def ebind_Inr Let_def split: if_splits)

lemma set_Tij_frame:
  assumes "set_Tij sp = Inr sp'"
  shows "sp_rij sp' = sp_rij sp \<and> sp_p sp' = sp_p sp \<and> sp_dstrain sp' = sp_dstrain sp
         \<and> elastic_flag1 sp' = elastic_flag1 sp \<and> elastic_flag2 sp' = elastic_flag2 sp"
    and "elastic_flag1 sp \<longrightarrow> Tij sp' = Some zeros33"
  using assms
  by (auto simp: set_Tij_def ebind_Inr Let_def split: if_splits)

lemma set_Zij_frame:
  assumes "set_Zij st sp = Inr sp'"
  shows "sp_rij sp' = sp_rij sp \<and> sp_p sp' = sp_p sp \<and> sp_dstrain sp' = sp_dstrain sp
         \<and> elastic_flag1 sp' = elastic_flag1 sp \<and> elastic_flag2 sp' = elastic_flag2 sp
         \<and> Tij sp' = Tij sp"
    and "elastic_flag2 sp \<longrightarrow> Zij sp' = Some zeros33"
  using assms
  by (auto simp: set_Zij_def ebind_Inr split: if_splits)

lemma set_parameter_TZ_frame:
  assumes "set_parameter_TZ st sp = Inr sp'"
  shows "sp_rij sp' = sp_rij sp \<and> sp_p sp' = sp_p sp \<and> sp_dstrain sp' = sp_dstrain sp
         \<and> elastic_flag1 sp' = elastic_flag1 sp \<and> elastic_flag2 sp' = elastic_flag2 sp"
    and "elastic_flag1 sp \<longrightarrow> Tij sp' = Some zeros33"
    and "elastic_flag2 sp \<longrightarrow> Zij sp' = Some zeros33"
proof -
  from assms obtain sp1 sp2 where 1: "set_B sp = Inr sp1" and 2: "set_Tij sp1 = Inr sp2"
    and 3: "set_Zij st sp2 = Inr sp'"
    by (auto simp: set_parameter_TZ_def ebind_Inr)
  note a = set_B_frame[OF 1] and b = set_Tij_frame[OF 2] and c = set_Zij_frame[OF 3]
  from a b(1) c(1) show "sp_rij sp' = sp_rij sp \<and> sp_p sp' = sp_p sp
    \<and> sp_dstrain sp' = sp_dstrain sp
    \<and> elastic_flag1 sp' = elastic_flag1 sp \<and> elastic_flag2 sp' = elastic_flag2 sp" by simp
  from a b(2) c(1) show "elastic_flag1 sp \<longrightarrow> Tij sp' = Some zeros33" by simp
  from a b(1) c(2) show "elastic_flag2 sp \<longrightarrow> Zij sp' = Some zeros33" by simp
qed

lemma evaluate_frame:
  assumes "evaluate brentq st sp = Inr (st1, sp1)"
  shows "st1 = st\<lparr>s_alpha := s_alpha st1, s_beta := s_beta st1, s_H1 := s_H1 st1,
                   s_H2 := s_H2 st1\<rparr>"
    and "s_alpha st1 = (if elastic_flag1 sp then sp_rij sp else s_alpha st)"
    and "s_beta st1 = (if elastic_flag2 sp then sp_p sp else s_beta st)"
    and "s_H2 st \<le> s_H2 st1"
    and "sp_rij sp1 = sp_rij sp \<and> sp_p sp1 = sp_p sp \<and> sp_dstrain sp1 = sp_dstrain sp"
    and "elastic_flag1 sp1 \<longrightarrow> Tij sp1 = Some zeros33"
    and "elastic_flag2 sp1 \<longrightarrow> Zij sp1 = Some zeros33"
proof -
  from assms obtain spa spb spc where 1: "set_mapping_stress brentq st sp = Inr (st1, spa)"
    and 2: "set_parameters st1 spa = Inr spb" and 3: "set_parameter_nm st1 spb = Inr spc"
    and 4: "set_parameter_TZ st1 spc = Inr sp1"
    by (auto simp: evaluate_def ebind_Inr)
  note m = set_mapping_stress_frame[OF 1] and p = set_parameters_frame[OF 2]
    and n = set_parameter_nm_frame[OF 3] and t = set_parameter_TZ_frame[OF 4]
  show "st1 = st\<lparr>s_alpha := s_alpha st1, s_beta := s_beta st1, s_H1 := s_H1 st1,
                   s_H2 := s_H2 st1\<rparr>" by (rule m(1))
  show "s_alpha st1 = (if elastic_flag1 sp then sp_rij sp else s_alpha st)" by (rule m(2))
  show "s_beta st1 = (if elastic_flag2 sp then sp_p sp else s_beta st)" by (rule m(3))
  show "s_H2 st \<le> s_H2 st1" by (rule m(4))
  from m(5) p n t(1)
  show "sp_rij sp1 = sp_rij sp \<and> sp_p sp1 = sp_p sp \<and> sp_dstrain sp1 = sp_dstrain sp" by simp
  from t show "elastic_flag1 sp1 \<longrightarrow> Tij sp1 = Some zeros33" by simp
  from t show "elastic_flag2 sp1 \<longrightarrow> Zij sp1 = Some zeros33" by simp
qed

lemma check_unload_result:
  assumes "check_unload brentq st sp = Inr (st', sp', ef1, ef2)"
  shows "\<exists>st1 T Z. evaluate brentq st sp = Inr (st1, sp') \<and> Tij sp' = Some T \<and> Zij sp' = Some Z
           \<and> ef1 = (ddot T (sp_dstrain sp) < 0) \<and> ef2 = (ddot Z (sp_dstrain sp) < 0)
           \<and> s_alpha st' = (if ef1 then sp_rij sp else s_alpha st1)
           \<and> s_beta st' = (if ef2 then sp_p sp else s_beta st1)
           \<and> st' = st1\<lparr>s_alpha := s_alpha st', s_beta := s_beta st'\<rparr>"
proof -
  from assms obtain st1 T Z where e: "evaluate brentq st sp = Inr (st1, sp')"
    and T: "Tij sp' = Some T" and Z: "Zij sp' = Some Z"
    and r: "(let dL1 = ddot T (sp_dstrain sp');
           st2 = (if dL1 < 0 then st1\<lparr>s_alpha := sp_rij sp'\<rparr> else st1);
           dL2 = ddot Z (sp_dstrain sp');
           st3 = (if dL2 < 0 then st2\<lparr>s_beta := sp_p sp'\<rparr> else st2)
       in Inr (st3, sp', dL1 < 0, dL2 < 0)) = (Inr (st', sp', ef1, ef2) :: error + _)"
    by (auto simp: check_unload_def ebind_Inr attr_Inr Let_def)
  from evaluate_frame(5)[OF e] have f: "sp_rij sp' = sp_rij sp" "sp_p sp' = sp_p sp"
    "sp_dstrain sp' = sp_dstrain sp" by simp_all
  from r have "ef1 = (ddot T (sp_dstrain sp) < 0)" "ef2 = (ddot Z (sp_dstrain sp) < 0)"
    "s_alpha st' = (if ef1 then sp_rij sp else s_alpha st1)"
    "s_beta st' = (if ef2 then sp_p sp else s_beta st1)"
    "st' = st1\<lparr>s_alpha := s_alpha st', s_beta := s_beta st'\<rparr>"
    by (auto simp: Let_def f split: if_splits)
  with e T Z show ?thesis by blast
qed

section \<open>The snapshot holds copies\<close>

lemma snapshot_writes_frame:
  assumes "list_all (\<lambda>w. n \<le> fst w) ws" "a < n"
  shows "snapshot_writes h ws ! a = h ! a"
  using assms
proof (induction ws arbitrary: h)
  case Nil
  then show ?case by simp
next
  case (Cons w ws)
  obtain a' v where w: "w = (a', v)" by (cases w)
  with Cons.prems have "a' \<noteq> a" by auto
  with Cons w show ?case by (simp add: store_write_def)
qed

lemma StateParameters_refs_result:
  "StateParameters_refs h strain stress dstrain dstress =
     (h @ [h ! strain, (h @ [h ! strain]) ! stress,
           (h @ [h ! strain, (h @ [h ! strain]) ! stress]) ! dstress,
           (h @ [h ! strain, (h @ [h ! strain]) ! stress,
                 (h @ [h ! strain, (h @ [h ! strain]) ! stress]) ! dstress]) ! dstrain],
      \<lparr>ref_strain = length h, ref_stress = Suc (length h), ref_dstress = Suc (Suc (length h)),
       ref_dstrain = Suc (Suc (Suc (length h)))\<rparr>)"
  by (simp add: StateParameters_refs_def np_copy_def)

text \<open>
  C10.  The constructor copies its four array arguments: the arrays the snapshot holds
  are new (their addresses were not allocated before, and differ from each other),
  they hold the contents of the arguments, the construction changes no array that
  existed before, and no sequence of assignments into the snapshot's arrays changes
  one, so the model's persistent stress and strain are never modified through a
  snapshot.
\<close>

theorem StateParameters_copies:
  assumes "strain < length h" "stress < length h" "dstrain < length h" "dstress < length h"
    and "StateParameters_refs h strain stress dstrain dstress = (h', r)"
    and "list_all (\<lambda>w. fst w \<in> set (snapshot_addrs r)) ws"
    and "a < length h"
  shows "h' ! a = h ! a \<and> snapshot_writes h' ws ! a = h ! a
       \<and> list_all (\<lambda>b. length h \<le> b \<and> b < length h') (snapshot_addrs r)
       \<and> distinct (snapshot_addrs r)
       \<and> h' ! ref_strain r = h ! strain \<and> h' ! ref_stress r = h ! stress
       \<and> h' ! ref_dstress r = h ! dstress \<and> h' ! ref_dstrain r = h ! dstrain"
proof -
  from assms(5) have h': "h' = h @ [h ! strain, h ! stress, h ! dstress, h ! dstrain]"
    and r: "r = \<lparr>ref_strain = length h, ref_stress = Suc (length h),
                 ref_dstress = Suc (Suc (length h)), ref_dstrain = Suc (Suc (Suc (length h)))\<rparr>"
    using assms(1-4) by (simp_all add: StateParameters_refs_result nth_append)
  have fresh: "list_all (\<lambda>b. length h \<le> b \<and> b < length h') (snapshot_addrs r)"
    by (simp add: h' r snapshot_addrs_def)
  have "list_all (\<lambda>w. length h \<le> fst w) ws"
    using assms(6) fresh unfolding list_all_iff by blast
  from snapshot_writes_frame[OF this assms(7)]
  have w: "snapshot_writes h' ws ! a = h' ! a" .
  have keep: "h' ! a = h ! a" using assms(7) by (simp add: h' nth_append)
  have d: "distinct (snapshot_addrs r)" by (simp add: r snapshot_addrs_def)
  have c: "h' ! ref_strain r = h ! strain" "h' ! ref_stress r = h ! stress"
    "h' ! ref_dstress r = h ! dstress" "h' ! ref_dstrain r = h ! dstrain"
    by (simp_all add: h' r nth_append)
  from w keep fresh d c show ?thesis by simp
qed

theorem StateParameters_copies_witness:
  "(0::nat) < length [zeros33, eye3] \<and> (1::nat) < length [zeros33, eye3]
   \<and> StateParameters_refs [zeros33, eye3] 0 1 0 0
        = ([zeros33, eye3, zeros33, eye3, zeros33, zeros33],
           \<lparr>ref_strain = 2, ref_stress = 3, ref_dstress = 4, ref_dstrain = 5\<rparr>)
   \<and> snapshot_writes [zeros33, eye3, zeros33, eye3, zeros33, zeros33]
        [(3, zeros33), (2, eye3)] ! 1 = eye3
   \<and> snapshot_writes [zeros33, eye3, zeros33, eye3, zeros33, zeros33]
        [(3, zeros33), (2, eye3)] ! 3 = zeros33"
proof -
  let ?h = "[zeros33, eye3]"
  let ?h' = "[zeros33, eye3, zeros33, eye3, zeros33, zeros33]"
  let ?r = "\<lparr>ref_strain = 2, ref_stress = 3, ref_dstress = 4, ref_dstrain = 5\<rparr>"
  have 0: "(0::nat) < length ?h" and 1: "(1::nat) < length ?h" by simp_all
  have 5: "StateParameters_refs ?h 0 1 0 0 = (?h', ?r)"
    by (simp add: StateParameters_refs_result)
  have 6: "list_all (\<lambda>w. fst w \<in> set (snapshot_addrs ?r)) [(3, zeros33), (2, eye3)]"
    by (simp add: snapshot_addrs_def)
  from StateParameters_copies[OF 0 1 0 0 5 6 1]
  have "snapshot_writes ?h' [(3, zeros33), (2, eye3)] ! 1 = eye3" by simp
  moreover have "snapshot_writes ?h' [(3, zeros33), (2, eye3)] ! 3 = zeros33"
    by (simp add: store_write_def)
  ultimately show ?thesis using 0 1 5 by blast
qed

section \<open>The state machine at the extension state\<close>

text \<open>
  When the mapping centre is at the stress ratio and \<^verbatim>\<open>beta\<close> at the mean stress (after
  the recentring of a snapshot that enters with its flags set, or because the state
  has them there), both mechanisms are elastic.
\<close>

lemma frob_norm_rij_zero:
  "frob_norm (mat_sub [[1 / 10, 0, 0], [0, 1 / 10, 0], [0, 0, - (1 / 5)]]
                      [[1 / 10, 0, 0], [0, 1 / 10, 0], [0, 0, - (1 / 5)]]) = 0"
  by (simp add: frob_norm_def mat_sub_def sum_sq_def flatten_def)

lemma elastic_evaluate:
  fixes strain dstrain dstress f1 f2
  defines "sp \<equiv> StateParameters strain extension_stress dstrain dstress f1 f2"
  assumes par: "s_G0 st = 125" "s_nu st = 1 / 4" "s_c st = 3 / 4" "s_eg st = 934 / 1000"
    "s_rlambdac st = 19 / 1000" "s_xi st = 7 / 10" "s_pr st = 101000" "s_pmin st = 100"
    "s_e st = Some (183 / 200)"
    and a: "s_alpha (recenter st sp) = [[1 / 10, 0, 0], [0, 1 / 10, 0], [0, 0, - (1 / 5)]]"
    and b: "s_beta (recenter st sp) = 101000"
  shows "evaluate brentq st sp
         = Inr (recenter st sp,
                sp\<lparr>elastic_flag1 := True, elastic_flag2 := True,
                   Ge := Some (10663138125 / 383), Ke := Some (17771896875 / 383),
                   psi := Some 0, sp_g := Some (3 / 4), Kp1_b := Some 0, Kp2_b := Some 0,
                   mij := Some [[sqrt 6 / 6, 0, 0], [0, sqrt 6 / 6, 0], [0, 0, - (sqrt 6 / 3)]],
                   sp_B := Some 0, Tij := Some zeros33, Zij := Some zeros33\<rparr>)"
proof -
  have rp: "s_G0 (recenter st sp) = 125" "s_nu (recenter st sp) = 1 / 4" "s_c (recenter st sp) = 3 / 4"
    "s_eg (recenter st sp) = 934 / 1000"
    "s_rlambdac (recenter st sp) = 19 / 1000" "s_xi (recenter st sp) = 7 / 10" "s_pr (recenter st sp) = 101000"
   "s_pmin (recenter st sp) = 100"
    "s_e (recenter st sp) = Some (183 / 200)"
    using par by (simp_all add: recenter_def Let_def)
  note rp = rp[unfolded sp_def]
  have m1: "mapping1 brentq (recenter st sp) sp = Inr (recenter st sp, sp\<lparr>elastic_flag1 := True\<rparr>)"
    by (simp add: mapping1_def a[unfolded sp_def] sp_def extension_snapshot_fields frob_norm_rij_zero)
  have m2: "mapping2 (recenter st sp) (sp\<lparr>elastic_flag1 := True\<rparr>) = (recenter st sp, sp\<lparr>elastic_flag1 := True, elastic_flag2 := True\<rparr>)"
    by (simp add: mapping2_def b[unfolded sp_def] sp_def extension_snapshot_fields)
  have m: "set_mapping_stress brentq st sp = Inr (recenter st sp, sp\<lparr>elastic_flag1 := True, elastic_flag2 := True\<rparr>)"
    by (simp add: set_mapping_stress_def m1 m2 ebind_def)
  show ?thesis
    unfolding evaluate_def m unfolding sp_def
    by (simp add: ebind_def set_parameters_def rp extension_snapshot_fields attr_def
        moduli_finite_def extension_shape_values elastic_modulus_def state_parameter_def Let_def
        set_parameters1_def set_parameters2_def sqrt_square_values power2_eq_square
        set_parameter_nm_def set_nij_def set_mij_def mat_div_def frob_norm_def sum_sq_def
        flatten_def sqrt6_values set_parameter_TZ_def set_B_def set_Tij_def set_Zij_def)
qed

lemma ddot_zeros33 [simp]: "ddot zeros33 [[a, b, c], [d, e, f], [g, h, i]] = 0"
  by (simp add: ddot_def zeros33_def flatten_def)

lemma extension_loading_index:
  "ddot [[80000 * sqrt 6 / 1281827, 0, 0], [0, 80000 * sqrt 6 / 1281827, 0],
         [0, 0, - (400000 * sqrt 6 / 1281827)]] unloading_increment
   = - (960 * sqrt 6 / 1281827)"
  by (simp add: ddot_def flatten_def unloading_increment_def)

lemma extension_check_unload:
  "\<exists>sp'. check_unload brentq extension_state unloading_snapshot
           = Inr (extension_state\<lparr>s_H1 := 2 / 5,
                    s_alpha := [[1 / 10, 0, 0], [0, 1 / 10, 0], [0, 0, - (1 / 5)]]\<rparr>,
                  sp', True, False)
         \<and> Tij sp' = Some [[80000 * sqrt 6 / 1281827, 0, 0], [0, 80000 * sqrt 6 / 1281827, 0],
                             [0, 0, - (400000 * sqrt 6 / 1281827)]]"
  unfolding check_unload_def unloading_snapshot_def extension_evaluate
  by (simp add: ebind_def attr_def Let_def extension_snapshot_fields
      extension_loading_index[unfolded unloading_increment_def] unloading_increment_def
      zeros33_def ddot_def flatten_def)




section \<open>Unload detection and the hardening history\<close>

text \<open>
  C5, as the code has it.  For a snapshot that enters \<open>check_unload\<close> with
  \<open>elastic_flag1\<close> clear (as every snapshot the drivers pass does) and a call that
  returns: if the loading index \<open>Tij : dstrain\<close> is negative the call returns
  \<open>elastic_flag1 = True\<close> and leaves \<^verbatim>\<open>alpha\<close> at the snapshot's \<^verbatim>\<open>rij\<close>; if it is
  non-negative the call returns \<open>elastic_flag1 = False\<close> and leaves \<^verbatim>\<open>alpha\<close> unchanged.
\<close>

theorem check_unload_mechanism1:
  assumes "check_unload brentq st sp = Inr (st', sp', ef1, ef2)" "\<not> elastic_flag1 sp"
  shows "\<exists>T. Tij sp' = Some T
           \<and> (ddot T (sp_dstrain sp) < 0 \<longrightarrow> ef1 \<and> s_alpha st' = sp_rij sp)
           \<and> (0 \<le> ddot T (sp_dstrain sp) \<longrightarrow> \<not> ef1 \<and> s_alpha st' = s_alpha st)"
proof -
  from check_unload_result[OF assms(1)] obtain st1 T where
    e: "evaluate brentq st sp = Inr (st1, sp')" and T: "Tij sp' = Some T"
    and f: "ef1 = (ddot T (sp_dstrain sp) < 0)"
    and a: "s_alpha st' = (if ef1 then sp_rij sp else s_alpha st1)" by blast
  from evaluate_frame(2)[OF e] assms(2) have "s_alpha st1 = s_alpha st" by simp
  with T f a show ?thesis by auto
qed

theorem check_unload_mechanism1_witness:
  "\<exists>st' sp' T. check_unload no_brentq extension_state unloading_snapshot = Inr (st', sp', True, False)
      \<and> \<not> elastic_flag1 unloading_snapshot
      \<and> Tij sp' = Some T \<and> ddot T (sp_dstrain unloading_snapshot) < 0
      \<and> s_alpha st' = sp_rij unloading_snapshot
      \<and> s_alpha st' = [[1 / 10, 0, 0], [0, 1 / 10, 0], [0, 0, - (1 / 5)]]"
proof -
  from extension_check_unload[of no_brentq] obtain sp' where
    c: "check_unload no_brentq extension_state unloading_snapshot
           = Inr (extension_state\<lparr>s_H1 := 2 / 5,
                    s_alpha := [[1 / 10, 0, 0], [0, 1 / 10, 0], [0, 0, - (1 / 5)]]\<rparr>,
                  sp', True, False)"
    and T: "Tij sp' = Some [[80000 * sqrt 6 / 1281827, 0, 0], [0, 80000 * sqrt 6 / 1281827, 0],
                             [0, 0, - (400000 * sqrt 6 / 1281827)]]" by blast
  have n: "\<not> elastic_flag1 unloading_snapshot"
    by (simp add: unloading_snapshot_def extension_snapshot_fields)
  have d: "sp_dstrain unloading_snapshot = unloading_increment"
    by (simp add: unloading_snapshot_def extension_snapshot_fields)
  have neg: "ddot [[80000 * sqrt 6 / 1281827, 0, 0], [0, 80000 * sqrt 6 / 1281827, 0],
               [0, 0, - (400000 * sqrt 6 / 1281827)]] (sp_dstrain unloading_snapshot) < 0"
    by (simp add: d extension_loading_index)
  from check_unload_mechanism1[OF c n] T neg
  have r: "s_alpha (extension_state\<lparr>s_H1 := 2 / 5,
          s_alpha := [[1 / 10, 0, 0], [0, 1 / 10, 0], [0, 0, - (1 / 5)]]\<rparr>)
        = sp_rij unloading_snapshot" by auto
  have v: "s_alpha (extension_state\<lparr>s_H1 := 2 / 5,
          s_alpha := [[1 / 10, 0, 0], [0, 1 / 10, 0], [0, 0, - (1 / 5)]]\<rparr>)
        = [[1 / 10, 0, 0], [0, 1 / 10, 0], [0, 0, - (1 / 5)]]" by simp
  show ?thesis
    by (intro exI[of _ "extension_state\<lparr>s_H1 := 2 / 5,
          s_alpha := [[1 / 10, 0, 0], [0, 1 / 10, 0], [0, 0, - (1 / 5)]]\<rparr>"] exI[of _ sp']
          exI[of _ "[[80000 * sqrt 6 / 1281827, 0, 0], [0, 80000 * sqrt 6 / 1281827, 0],
                             [0, 0, - (400000 * sqrt 6 / 1281827)]]"] conjI)
       (rule c, rule n, rule T, rule neg, rule r, rule v)
qed

text \<open>
  C5 as stated fails for a snapshot that enters with \<open>elastic_flag1\<close> set:
  \<open>set_mapping_stress\<close> recentres \<^verbatim>\<open>alpha\<close> at its \<^verbatim>\<open>rij\<close>, the loading index is 0, and the
  call returns \<open>elastic_flag1 = False\<close> with \<^verbatim>\<open>alpha\<close> changed.
\<close>

theorem check_unload_entry_flag_counterexample:
  "\<exists>st' sp' T. check_unload no_brentq extension_state
                  (StateParameters zeros33 extension_stress zeros33 zeros33 True True)
                = Inr (st', sp', False, False)
      \<and> Tij sp' = Some T
      \<and> 0 \<le> ddot T (sp_dstrain (StateParameters zeros33 extension_stress zeros33 zeros33 True True))
      \<and> s_alpha st' = [[1 / 10, 0, 0], [0, 1 / 10, 0], [0, 0, - (1 / 5)]]
      \<and> s_alpha extension_state = zeros33
      \<and> s_alpha st' \<noteq> s_alpha extension_state"
proof -
  let ?sp = "StateParameters zeros33 extension_stress zeros33 zeros33 True True"
  have r: "recenter extension_state ?sp
           = extension_state\<lparr>s_alpha := [[1 / 10, 0, 0], [0, 1 / 10, 0], [0, 0, - (1 / 5)]],
                              s_beta := 101000\<rparr>"
    by (simp add: recenter_def Let_def extension_snapshot_fields)
  have e: "evaluate no_brentq extension_state ?sp
         = Inr (recenter extension_state ?sp,
                ?sp\<lparr>elastic_flag1 := True, elastic_flag2 := True,
                   Ge := Some (10663138125 / 383), Ke := Some (17771896875 / 383),
                   psi := Some 0, sp_g := Some (3 / 4), Kp1_b := Some 0, Kp2_b := Some 0,
                   mij := Some [[sqrt 6 / 6, 0, 0], [0, sqrt 6 / 6, 0], [0, 0, - (sqrt 6 / 3)]],
                   sp_B := Some 0, Tij := Some zeros33, Zij := Some zeros33\<rparr>)"
    by (rule elastic_evaluate) (simp_all add: extension_state_fields r)
  have c: "check_unload no_brentq extension_state ?sp
           = Inr (recenter extension_state ?sp,
                ?sp\<lparr>elastic_flag1 := True, elastic_flag2 := True,
                   Ge := Some (10663138125 / 383), Ke := Some (17771896875 / 383),
                   psi := Some 0, sp_g := Some (3 / 4), Kp1_b := Some 0, Kp2_b := Some 0,
                   mij := Some [[sqrt 6 / 6, 0, 0], [0, sqrt 6 / 6, 0], [0, 0, - (sqrt 6 / 3)]],
                   sp_B := Some 0, Tij := Some zeros33, Zij := Some zeros33\<rparr>, False, False)"
    unfolding check_unload_def e
    by (simp add: ebind_def attr_def Let_def extension_snapshot_fields zeros33_def ddot_def
        flatten_def)
  have z: "ddot zeros33 (sp_dstrain ?sp) = 0"
    by (simp add: extension_snapshot_fields zeros33_def ddot_def flatten_def)
  have a: "s_alpha (recenter extension_state ?sp) = [[1 / 10, 0, 0], [0, 1 / 10, 0], [0, 0, - (1 / 5)]]"
    by (simp add: r)
  have b: "s_alpha extension_state = zeros33" by (simp add: extension_state_fields)
  have ne: "s_alpha (recenter extension_state ?sp) \<noteq> s_alpha extension_state"
    unfolding a b by (simp add: zeros33_def)
  show ?thesis
    by (intro exI[of _ "recenter extension_state ?sp"] exI[of _ zeros33] exI conjI)
       (rule c, simp, simp add: z, rule a, rule b, rule ne)
qed




section \<open>The mapping centres over a step\<close>

lemma snapshot_stress_only:
  "sp_rij (StateParameters strain stress dstrain dstress f1 f2)
     = sp_rij (StateParameters strain' stress dstrain' dstress' f1' f2')"
  "sp_p (StateParameters strain stress dstrain dstress f1 f2)
     = sp_p (StateParameters strain' stress dstrain' dstress' f1' f2')"
  by (simp_all add: StateParameters_def sp_set_stress_variable_def sp_set_stress_increment_def
      Let_def)

lemma snapshot_flags:
  "elastic_flag1 (StateParameters strain stress dstrain dstress f1 f2) = f1"
  "elastic_flag2 (StateParameters strain stress dstrain dstress f1 f2) = f2"
  "sp_dstrain (StateParameters strain stress dstrain dstress f1 f2) = dstrain"
  by (simp_all add: StateParameters_def sp_set_stress_variable_def sp_set_stress_increment_def
      Let_def)

lemma evaluate_stress:
  assumes "evaluate brentq st sp = Inr (st1, sp1)"
  shows "s_stress st1 = s_stress st" "s_strain st1 = s_strain st"
  by (subst evaluate_frame(1)[OF assms], simp)+

lemma check_unload_frame:
  assumes "check_unload brentq st sp = Inr (st', sp', ef1, ef2)"
    and "\<not> elastic_flag1 sp" "\<not> elastic_flag2 sp"
  shows "s_alpha st' = (if ef1 then sp_rij sp else s_alpha st)"
    and "s_beta st' = (if ef2 then sp_p sp else s_beta st)"
    and "s_stress st' = s_stress st" and "s_strain st' = s_strain st"
    and "\<exists>T Z. Tij sp' = Some T \<and> Zij sp' = Some Z
           \<and> ef1 = (ddot T (sp_dstrain sp) < 0) \<and> ef2 = (ddot Z (sp_dstrain sp) < 0)"
proof -
  from check_unload_result[OF assms(1)] obtain st1 T Z where
    e: "evaluate brentq st sp = Inr (st1, sp')" and T: "Tij sp' = Some T" and Z: "Zij sp' = Some Z"
    and f: "ef1 = (ddot T (sp_dstrain sp) < 0)" "ef2 = (ddot Z (sp_dstrain sp) < 0)"
    and a: "s_alpha st' = (if ef1 then sp_rij sp else s_alpha st1)"
    and b: "s_beta st' = (if ef2 then sp_p sp else s_beta st1)"
    and s: "st' = st1\<lparr>s_alpha := s_alpha st', s_beta := s_beta st'\<rparr>" by blast
  from evaluate_frame(2,3)[OF e] assms(2,3)
  have "s_alpha st1 = s_alpha st" "s_beta st1 = s_beta st" by simp_all
  with a b show "s_alpha st' = (if ef1 then sp_rij sp else s_alpha st)"
    "s_beta st' = (if ef2 then sp_p sp else s_beta st)" by simp_all
  have "s_stress st' = s_stress st1" "s_strain st' = s_strain st1" by (subst s, simp)+
  with evaluate_stress[OF e] show "s_stress st' = s_stress st" "s_strain st' = s_strain st"
    by simp_all
  from T Z f show "\<exists>T Z. Tij sp' = Some T \<and> Zij sp' = Some Z
           \<and> ef1 = (ddot T (sp_dstrain sp) < 0) \<and> ef2 = (ddot Z (sp_dstrain sp) < 0)" by blast
qed

lemma plastic_stiffness_frame:
  assumes "plastic_stiffness brentq st sp = Inr (st1, sp1, E)"
  shows "s_alpha st1 = (if elastic_flag1 sp then sp_rij sp else s_alpha st)"
    and "s_beta st1 = (if elastic_flag2 sp then sp_p sp else s_beta st)"
    and "s_stress st1 = s_stress st" and "s_strain st1 = s_strain st"
proof -
  from assms obtain sp0 where e: "evaluate brentq st sp = Inr (st1, sp0)"
    by (auto simp: plastic_stiffness_def ebind_Inr)
  show "s_alpha st1 = (if elastic_flag1 sp then sp_rij sp else s_alpha st)"
    by (rule evaluate_frame(2)[OF e])
  show "s_beta st1 = (if elastic_flag2 sp then sp_p sp else s_beta st)"
    by (rule evaluate_frame(3)[OF e])
  show "s_stress st1 = s_stress st" "s_strain st1 = s_strain st"
    by (rule evaluate_stress[OF e])+
qed

lemma update_parameters_frame:
  assumes "update_parameters brentq st sp = Inr (st', sp')"
  shows "s_alpha st' = (if elastic_flag1 sp then sp_rij sp else s_alpha st)"
    and "s_beta st' = (if elastic_flag2 sp then sp_p sp else s_beta st)"
proof -
  from assms obtain st1 T Z sta where e: "evaluate brentq st sp = Inr (st1, sp')"
    and u1: "(if \<not> elastic_flag1 sp' then
               ebind (attr (Kp1_b sp')) (\<lambda>k.
                 if sp_p sp' = 0 then Inl NonFinite
                 else Inr (st1\<lparr>s_L1 := s_L1 st1 + ddot T (sp_dstrain sp'),
                               s_H1 := s_H1 st1 + k * ddot T (sp_dstrain sp') / sp_p sp'\<rparr>))
             else Inr st1) = Inr sta"
    and u2: "(if \<not> elastic_flag2 sp' then
               ebind (attr (Kp2_b sp')) (\<lambda>k. Inr (sta\<lparr>s_H2 := s_H2 sta + k * ddot Z (sp_dstrain sp')\<rparr>))
             else Inr sta) = Inr st'"
    by (auto simp: update_parameters_def ebind_Inr attr_Inr Let_def)
  from u1 have 1: "s_alpha sta = s_alpha st1 \<and> s_beta sta = s_beta st1"
    by (auto simp: ebind_Inr attr_Inr split: if_splits)
  from u2 have 2: "s_alpha st' = s_alpha sta \<and> s_beta st' = s_beta sta"
    by (auto simp: ebind_Inr attr_Inr split: if_splits)
  from 1 2 evaluate_frame(2)[OF e]
  show "s_alpha st' = (if elastic_flag1 sp then sp_rij sp else s_alpha st)" by simp
  from 1 2 evaluate_frame(3)[OF e]
  show "s_beta st' = (if elastic_flag2 sp then sp_p sp else s_beta st)" by simp
qed

lemma plastic_deformation_frame:
  assumes "plastic_deformation brentq st dstrain_given dstress_given deformation sp0
             = Inr (st', dstrain, dstress, sp2)"
    and "\<not> elastic_flag1 sp0" "\<not> elastic_flag2 sp0" and "sp_stress sp0 = s_stress st"
    and "sp0 = StateParameters strain0 (s_stress st) dstrain0 dstress0 False False"
  shows "\<exists>st1 sp1 ef1 ef2 T Z. check_unload brentq st sp0 = Inr (st1, sp1, ef1, ef2)
           \<and> Tij sp1 = Some T \<and> Zij sp1 = Some Z
           \<and> ef1 = (ddot T (sp_dstrain sp0) < 0) \<and> ef2 = (ddot Z (sp_dstrain sp0) < 0)
           \<and> s_alpha st' = (if ef1 then sp_rij sp0 else s_alpha st)
           \<and> s_beta st' = (if ef2 then sp_p sp0 else s_beta st)"
proof -
  from assms(1) obtain st1 sp1 ef1 ef2 st2 spa E de ds where
    c: "check_unload brentq st sp0 = Inr (st1, sp1, ef1, ef2)"
    and p: "plastic_stiffness brentq st1
              (StateParameters (s_strain st1) (s_stress st1) dstrain_given dstress_given ef1 ef2)
            = Inr (st2, spa, E)"
    and u: "update_parameters brentq st2
              (StateParameters (s_strain st2) (s_stress st2) de ds False False) = Inr (st', sp2)"
    by (auto simp: plastic_deformation_def ebind_Inr Let_def)
  note cf = check_unload_frame[OF c assms(2,3)]
  note pf = plastic_stiffness_frame[OF p]
  note uf = update_parameters_frame[OF u]
  have r: "sp_rij (StateParameters (s_strain st1) (s_stress st1) dstrain_given dstress_given f1 f2)
           = sp_rij sp0"
    "sp_p (StateParameters (s_strain st1) (s_stress st1) dstrain_given dstress_given f1 f2)
           = sp_p sp0" for f1 f2
    unfolding cf(3) assms(5) by (rule snapshot_stress_only)+
  have a2: "s_alpha st2 = (if ef1 then sp_rij sp0 else s_alpha st)"
    unfolding pf(1) cf(1) snapshot_flags r by simp
  have b2: "s_beta st2 = (if ef2 then sp_p sp0 else s_beta st)"
    unfolding pf(2) cf(2) snapshot_flags r by simp
  from uf have "s_alpha st' = s_alpha st2" "s_beta st' = s_beta st2"
    by (simp_all add: snapshot_flags)
  with a2 b2 cf(5) c show ?thesis by auto
qed

text \<open>The consolidation loop writes the stress, the strain and the void ratio only.\<close>

lemma isotropic_compression_step_frame:
  assumes "isotropic_compression_step e0 dstress st = Inr st'"
  shows "s_alpha st' = s_alpha st" "s_beta st' = s_beta st"
proof -
  obtain p q where sv: "set_stress_variable st (s_stress st) = (p, q)"
    by (cases "set_stress_variable st (s_stress st)")
  from assms obtain e where e: "s_e st = Some e"
    and r: "(if \<not> compression_finite st e p then Inl NonFinite
          else ebind (solve_strain dstress (isotropic_compression_stiffness st e p)) (\<lambda>dstrain.
                 case set_strain_variable (mat_add (s_strain st) dstrain) of (ev, g) \<Rightarrow>
                   Inr (st\<lparr>s_stress := mat_add (s_stress st) dstress,
                            s_strain := mat_add (s_strain st) dstrain,
                            s_e := Some (e0 - ev * (1 + e0))\<rparr>))) = Inr st'"
    unfolding isotropic_compression_step_def Let_def ebind_Inr attr_Inr sv prod.case by blast
  from r obtain dstrain where
    k: "(case set_strain_variable (mat_add (s_strain st) dstrain) of (ev, g) \<Rightarrow>
          (Inr (st\<lparr>s_stress := mat_add (s_stress st) dstress,
                    s_strain := mat_add (s_strain st) dstrain,
                    s_e := Some (e0 - ev * (1 + e0))\<rparr>) :: error + li2002)) = Inr st'"
    by (cases "compression_finite st e p") (auto simp: ebind_Inr)
  obtain ev g where g: "set_strain_variable (mat_add (s_strain st) dstrain) = (ev, g)"
    by (cases "set_strain_variable (mat_add (s_strain st) dstrain)")
  from k have "st' = st\<lparr>s_stress := mat_add (s_stress st) dstress,
                    s_strain := mat_add (s_strain st) dstrain,
                    s_e := Some (e0 - ev * (1 + e0))\<rparr>"
    unfolding g prod.case by simp
  then show "s_alpha st' = s_alpha st" "s_beta st' = s_beta st" by simp_all
qed

lemma isotropic_compression_loop_frame:
  assumes "isotropic_compression_loop k e0 dstress st = Inr st'"
  shows "s_alpha st' = s_alpha st \<and> s_beta st' = s_beta st"
  using assms
proof (induction k arbitrary: st)
  case 0
  then show ?case by simp
next
  case (Suc k)
  then obtain st1 where 1: "isotropic_compression_step e0 dstress st = Inr st1"
    and 2: "isotropic_compression_loop k e0 dstress st1 = Inr st'"
    by (auto simp: ebind_Inr)
  from Suc.IH[OF 2] isotropic_compression_step_frame[OF 1] show ?case by simp
qed

text \<open>
  C6.  In one pass of the loop of \<open>cyclic_shear_test\<close> that returns, with \<open>sp\<close> the
  snapshot the pass makes of the current stress and of the strain increment of the pass
  before: \<open>check_unload\<close> returns on \<open>sp\<close>, its flags are the signs of the loading indices
  \<open>Tij : dstrain\<close> and \<open>Zij : dstrain\<close> of that increment, and over the whole pass
  (\<open>check_unload\<close>, \<open>plastic_stiffness\<close>, \<open>update_parameters\<close>) \<^verbatim>\<open>alpha\<close> becomes the
  snapshot's \<^verbatim>\<open>rij\<close> when mechanism 1 was found unloading and is unchanged otherwise, and
  \<^verbatim>\<open>beta\<close> becomes the snapshot's \<^verbatim>\<open>p\<close> when mechanism 2 was found unloading and is
  unchanged otherwise.
\<close>

theorem mapping_centres_step:
  assumes "cyclic_step brentq e0 st sp0 dtau = Inr (st', sp0')"
  shows "\<exists>st1 sp1 ef1 ef2 T Z.
           check_unload brentq st
             (StateParameters (s_strain st) (s_stress st) (sp_dstrain sp0)
                (vector_to_matrix [0, 0, 0, dtau, 0, 0]) False False)
             = Inr (st1, sp1, ef1, ef2)
         \<and> Tij sp1 = Some T \<and> Zij sp1 = Some Z
         \<and> ef1 = (ddot T (sp_dstrain sp0) < 0) \<and> ef2 = (ddot Z (sp_dstrain sp0) < 0)
         \<and> s_alpha st' = (if ef1 then sp_rij (StateParameters (s_strain st) (s_stress st)
                             (sp_dstrain sp0) (vector_to_matrix [0, 0, 0, dtau, 0, 0]) False False)
                           else s_alpha st)
         \<and> s_beta st' = (if ef2 then sp_p (StateParameters (s_strain st) (s_stress st)
                            (sp_dstrain sp0) (vector_to_matrix [0, 0, 0, dtau, 0, 0]) False False)
                          else s_beta st)"
proof -
  let ?sp = "StateParameters (s_strain st) (s_stress st) (sp_dstrain sp0)
               (vector_to_matrix [0, 0, 0, dtau, 0, 0]) False False"
  from assms obtain v where
    p0: "plastic_deformation brentq st (vector_to_matrix [0, 0, 0, 0, 0, 0])
          (vector_to_matrix [0, 0, 0, dtau, 0, 0]) cyclic_deformation ?sp = Inr v"
    and k: "(case v of (st1, dstrain, dstress, sp2) \<Rightarrow>
              case set_strain_variable (mat_add (s_strain st1) dstrain) of (ev, gamma) \<Rightarrow>
                Inr (st1\<lparr>s_stress := mat_add (s_stress st1) dstress,
                          s_strain := mat_add (s_strain st1) dstrain,
                          s_e := Some (e0 - ev * (1 + e0))\<rparr>, sp2))
            = (Inr (st', sp0') :: error + li2002 \<times> state_parameters)"
    unfolding cyclic_step_def Let_def ebind_Inr by blast
  obtain st2 de ds sp2 where v: "v = (st2, de, ds, sp2)" by (cases v)
  obtain ev gamma where g: "set_strain_variable (mat_add (s_strain st2) de) = (ev, gamma)"
    by (cases "set_strain_variable (mat_add (s_strain st2) de)")
  from k have e: "st' = st2\<lparr>s_stress := mat_add (s_stress st2) ds,
                          s_strain := mat_add (s_strain st2) de,
                          s_e := Some (e0 - ev * (1 + e0))\<rparr>" "sp2 = sp0'"
    unfolding v prod.case g by simp_all
  have s: "s_alpha st' = s_alpha st2" "s_beta st' = s_beta st2" by (subst e(1), simp)+
  have p: "plastic_deformation brentq st (vector_to_matrix [0, 0, 0, 0, 0, 0])
          (vector_to_matrix [0, 0, 0, dtau, 0, 0]) cyclic_deformation ?sp = Inr (st2, de, ds, sp0')"
    using p0 unfolding v e(2) .
  have f: "\<not> elastic_flag1 ?sp" "\<not> elastic_flag2 ?sp" "sp_dstrain ?sp = sp_dstrain sp0"
    by (simp_all add: snapshot_flags)
  have st: "sp_stress ?sp = s_stress st"
    by (simp add: StateParameters_def sp_set_stress_variable_def sp_set_stress_increment_def Let_def)
  from plastic_deformation_frame[OF p f(1,2) st refl] show ?thesis
    unfolding s f(3) .
qed

section \<open>One pass of the cyclic loop at the extension state\<close>

lemma identity_tensor:
  "tensor_sub (tensor_sub (tensor_of (\<lambda>p q k l. eye3 ! p ! k * eye3 ! q ! l))
                 (outer4 zeros33 zeros33)) (outer4 zeros33 zeros33)
   = [[[[1, 0, 0], [0, 0, 0], [0, 0, 0]],
       [[0, 1, 0], [0, 0, 0], [0, 0, 0]],
       [[0, 0, 1], [0, 0, 0], [0, 0, 0]]],
      [[[0, 0, 0], [1, 0, 0], [0, 0, 0]],
       [[0, 0, 0], [0, 1, 0], [0, 0, 0]],
       [[0, 0, 0], [0, 0, 1], [0, 0, 0]]],
      [[[0, 0, 0], [0, 0, 0], [1, 0, 0]],
       [[0, 0, 0], [0, 0, 0], [0, 1, 0]],
       [[0, 0, 0], [0, 0, 0], [0, 0, 1]]]]"
  by (simp add: tensor_sub_def tensor_of_def outer4_def eye3_def zeros33_def)

lemma elastic_tensor_Ep:
  assumes "s_nu st = 1 / 4" "elastic_flag1 sp" "elastic_flag2 sp" "Ge sp = Some G"
  shows "set_tensor_Ep st sp = Inr (sp\<lparr>Ep := Some (elastic_stiffness st G)\<rparr>)"
proof -
  have c: "tensor_contract (elastic_stiffness st G)
             (tensor_sub (tensor_sub (tensor_of (\<lambda>p q k l. eye3 ! p ! k * eye3 ! q ! l))
                 (outer4 zeros33 zeros33)) (outer4 zeros33 zeros33))
           = elastic_stiffness st G"
    unfolding identity_tensor elastic_stiffness_quarter[OF assms(1)]
    by (simp add: tensor_contract_def flatten_def)
  show ?thesis
    unfolding set_tensor_Ep_def Let_def
    by (simp add: assms ebind_def attr_def c)
qed

text \<open>
  The solve of the cyclic pass with an elastic tangent: the three normal strains are
  held at 0 and the shear stress increment \<open>dtau\<close> is prescribed, so the shear strain is
  \<open>dtau / (2 G)\<close>.
\<close>

lemma cyclic_mask:
  "flatten cyclic_deformation = [False, True, True, True, False, True, True, True, False]"
  by (simp add: cyclic_deformation_def vector_to_matrix_def flatten_def)

lemma shear_system:
  fixes G :: real
  assumes "0 < G"
  shows "linalg_solve
           [[2 * G, 0, 0, 0, 0, 0], [0, 2 * G, 0, 0, 0, 0], [0, 0, 2 * G, 0, 0, 0],
            [0, 0, 0, 2 * G, 0, 0], [0, 0, 0, 0, 2 * G, 0], [0, 0, 0, 0, 0, 2 * G]]
           [t, 0, t, 0, 0, 0]
         = Inr [t / (2 * G), 0, t / (2 * G), 0, 0, 0]"
  using assms
  by (simp add: linalg_solve_def is_square_def eval_nat_numeral eliminate_def)

lemma elastic_cyclic_solve:
  assumes "s_nu st = 1 / 4" "0 < G"
  shows "solve_strain_with_consttain (vector_to_matrix [0, 0, 0, 0, 0, 0])
           (vector_to_matrix [0, 0, 0, dtau, 0, 0]) (elastic_stiffness st G) cyclic_deformation
         = Inr ([[0, dtau / (2 * G), 0], [dtau / (2 * G), 0, 0], [0, 0, 0]],
                [[0, dtau, 0], [dtau, 0, 0], [0, 0, 0]])"
  unfolding solve_strain_with_consttain_def Let_def cyclic_mask
    elastic_operator_quarter[OF assms(1)]
  using assms(2)
  by (simp add: vector_to_matrix_def flatten_def mask_fill_def mask_select_def mat_vec_def
      shear_system ebind_def reshape33_def)

text \<open>
  After the unload of mechanism 1 the mapping centre is at the stress ratio: every
  further evaluation at this state is elastic and leaves the state as it is.
\<close>

lemma recentred_evaluate:
  fixes strain dstrain dstress f1 f2
  defines "st1 \<equiv> extension_state\<lparr>s_H1 := 2 / 5,
                     s_alpha := [[1 / 10, 0, 0], [0, 1 / 10, 0], [0, 0, - (1 / 5)]]\<rparr>"
    and "sp \<equiv> StateParameters strain extension_stress dstrain dstress f1 f2"
  shows "\<exists>sp'. evaluate brentq st1 sp = Inr (st1, sp')
           \<and> elastic_flag1 sp' \<and> elastic_flag2 sp' \<and> Ge sp' = Some (10663138125 / 383)
           \<and> Tij sp' = Some zeros33 \<and> Zij sp' = Some zeros33"
proof -
  have r: "recenter st1 sp = st1"
    by (cases f1; cases f2)
       (simp_all add: recenter_def Let_def st1_def sp_def extension_snapshot_fields
          extension_state_fields)
  have a: "s_alpha (recenter st1 (StateParameters strain extension_stress dstrain dstress f1 f2))
             = [[1 / 10, 0, 0], [0, 1 / 10, 0], [0, 0, - (1 / 5)]]"
    and b: "s_beta (recenter st1 (StateParameters strain extension_stress dstrain dstress f1 f2))
             = 101000"
    unfolding r[unfolded sp_def] by (simp_all add: st1_def extension_state_fields)
  have e: "evaluate brentq st1 (StateParameters strain extension_stress dstrain dstress f1 f2)
         = Inr (recenter st1 (StateParameters strain extension_stress dstrain dstress f1 f2),
                (StateParameters strain extension_stress dstrain dstress f1 f2)
                  \<lparr>elastic_flag1 := True, elastic_flag2 := True,
                   Ge := Some (10663138125 / 383), Ke := Some (17771896875 / 383),
                   psi := Some 0, sp_g := Some (3 / 4), Kp1_b := Some 0, Kp2_b := Some 0,
                   mij := Some [[sqrt 6 / 6, 0, 0], [0, sqrt 6 / 6, 0], [0, 0, - (sqrt 6 / 3)]],
                   sp_B := Some 0, Tij := Some zeros33, Zij := Some zeros33\<rparr>)"
    by (rule elastic_evaluate[OF _ _ _ _ _ _ _ _ _ a b])
       (simp_all add: st1_def extension_state_fields)
  show ?thesis unfolding sp_def e r[unfolded sp_def] by simp
qed

lemma extension_check_unload_snapshot:
  "\<exists>sp'. check_unload brentq extension_state
           (StateParameters strain extension_stress unloading_increment dstress False False)
           = Inr (extension_state\<lparr>s_H1 := 2 / 5,
                    s_alpha := [[1 / 10, 0, 0], [0, 1 / 10, 0], [0, 0, - (1 / 5)]]\<rparr>,
                  sp', True, False)"
  unfolding check_unload_def extension_evaluate
  by (simp add: ebind_def attr_def Let_def extension_snapshot_fields
      extension_loading_index[unfolded unloading_increment_def] unloading_increment_def
      zeros33_def ddot_def flatten_def)

lemma recentred_plastic_stiffness:
  fixes strain dstrain dstress f1 f2
  defines "st1 \<equiv> extension_state\<lparr>s_H1 := 2 / 5,
                     s_alpha := [[1 / 10, 0, 0], [0, 1 / 10, 0], [0, 0, - (1 / 5)]]\<rparr>"
  shows "\<exists>sp'. plastic_stiffness brentq st1
                 (StateParameters strain extension_stress dstrain dstress f1 f2)
               = Inr (st1, sp', elastic_stiffness st1 (10663138125 / 383))"
proof -
  from recentred_evaluate[of brentq strain dstrain dstress f1 f2] obtain sp' where
    e: "evaluate brentq st1 (StateParameters strain extension_stress dstrain dstress f1 f2)
          = Inr (st1, sp')"
    and f: "elastic_flag1 sp'" "elastic_flag2 sp'" "Ge sp' = Some (10663138125 / 383)"
    unfolding st1_def by blast
  have nu: "s_nu st1 = 1 / 4" by (simp add: st1_def extension_state_fields)
  show ?thesis
    unfolding plastic_stiffness_def e
    by (simp add: ebind_def attr_def elastic_tensor_Ep[OF nu f])
qed

lemma recentred_update_parameters:
  fixes strain dstrain dstress f1 f2
  defines "st1 \<equiv> extension_state\<lparr>s_H1 := 2 / 5,
                     s_alpha := [[1 / 10, 0, 0], [0, 1 / 10, 0], [0, 0, - (1 / 5)]]\<rparr>"
  shows "\<exists>sp'. update_parameters brentq st1
                 (StateParameters strain extension_stress dstrain dstress f1 f2) = Inr (st1, sp')"
proof -
  from recentred_evaluate[of brentq strain dstrain dstress f1 f2] obtain sp' where
    e: "evaluate brentq st1 (StateParameters strain extension_stress dstrain dstress f1 f2)
          = Inr (st1, sp')"
    and f: "elastic_flag1 sp'" "elastic_flag2 sp'"
      "Tij sp' = Some zeros33" "Zij sp' = Some zeros33"
    unfolding st1_def by blast
  show ?thesis
    unfolding update_parameters_def e
    by (simp add: ebind_def attr_def Let_def f)
qed

text \<open>
  The pass of the cyclic loop at the extension state, after a pass whose strain
  increment unloads mechanism 1.
\<close>

lemma extension_plastic_deformation:
  fixes dtau :: real
  defines "st1 \<equiv> extension_state\<lparr>s_H1 := 2 / 5,
                     s_alpha := [[1 / 10, 0, 0], [0, 1 / 10, 0], [0, 0, - (1 / 5)]]\<rparr>"
  shows "\<exists>sp'. plastic_deformation brentq extension_state (vector_to_matrix [0, 0, 0, 0, 0, 0])
            (vector_to_matrix [0, 0, 0, dtau, 0, 0]) cyclic_deformation
            (StateParameters strain extension_stress unloading_increment dstress False False)
          = Inr (st1,
                 [[0, dtau * 383 / 21326276250, 0],
                  [dtau * 383 / 21326276250, 0, 0], [0, 0, 0]],
                 [[0, dtau, 0], [dtau, 0, 0], [0, 0, 0]], sp')"
proof -
  let ?de = "[[0, dtau * 383 / 21326276250, 0],
              [dtau * 383 / 21326276250, 0, 0], [0, 0, 0]]"
  let ?ds = "[[0, dtau, 0], [dtau, 0, 0], [0, 0, 0]]"
  from extension_check_unload_snapshot[of brentq strain dstress] obtain spa where
    c: "check_unload brentq extension_state
           (StateParameters strain extension_stress unloading_increment dstress False False)
         = Inr (st1, spa, True, False)" unfolding st1_def by blast
  have s: "s_strain st1 = zeros33" "s_stress st1 = extension_stress" "s_nu st1 = 1 / 4"
    by (simp_all add: st1_def extension_state_fields)
  from recentred_plastic_stiffness[of brentq zeros33 "vector_to_matrix [0, 0, 0, 0, 0, 0]"
      "vector_to_matrix [0, 0, 0, dtau, 0, 0]" True False]
  obtain spb where
    p: "plastic_stiffness brentq st1
          (StateParameters zeros33 extension_stress (vector_to_matrix [0, 0, 0, 0, 0, 0])
             (vector_to_matrix [0, 0, 0, dtau, 0, 0]) True False)
        = Inr (st1, spb, elastic_stiffness st1 (10663138125 / 383))"
    unfolding st1_def by blast
  have v: "solve_strain_with_consttain (vector_to_matrix [0, 0, 0, 0, 0, 0])
             (vector_to_matrix [0, 0, 0, dtau, 0, 0])
             (elastic_stiffness st1 (10663138125 / 383)) cyclic_deformation
           = Inr (?de, ?ds)"
    using elastic_cyclic_solve[OF s(3), of "10663138125 / 383" dtau] by simp
  from recentred_update_parameters[of brentq zeros33 ?de ?ds False False]
  obtain spc where
    u: "update_parameters brentq st1 (StateParameters zeros33 extension_stress ?de ?ds False False)
        = Inr (st1, spc)"
    unfolding st1_def by blast
  have "plastic_deformation brentq extension_state (vector_to_matrix [0, 0, 0, 0, 0, 0])
            (vector_to_matrix [0, 0, 0, dtau, 0, 0]) cyclic_deformation
            (StateParameters strain extension_stress unloading_increment dstress False False)
          = Inr (st1, ?de, ?ds, spc)"
    unfolding plastic_deformation_def c
    by (simp add: ebind_def Let_def s p v u)
  then show ?thesis by blast
qed

lemma extension_cyclic_step:
  assumes "sp_dstrain sp0 = unloading_increment"
  shows "\<exists>st' sp'. cyclic_step brentq e0 extension_state sp0 dtau = Inr (st', sp')"
proof -
  from extension_plastic_deformation[of brentq dtau zeros33 "vector_to_matrix [0, 0, 0, dtau, 0, 0]"]
  obtain sp' where
    p: "plastic_deformation brentq extension_state (vector_to_matrix [0, 0, 0, 0, 0, 0])
            (vector_to_matrix [0, 0, 0, dtau, 0, 0]) cyclic_deformation
            (StateParameters zeros33 extension_stress unloading_increment
               (vector_to_matrix [0, 0, 0, dtau, 0, 0]) False False)
          = Inr (extension_state\<lparr>s_H1 := 2 / 5,
                     s_alpha := [[1 / 10, 0, 0], [0, 1 / 10, 0], [0, 0, - (1 / 5)]]\<rparr>,
                 [[0, dtau * 383 / 21326276250, 0],
                  [dtau * 383 / 21326276250, 0, 0], [0, 0, 0]],
                 [[0, dtau, 0], [dtau, 0, 0], [0, 0, 0]], sp')" by blast
  show ?thesis
    unfolding cyclic_step_def Let_def assms extension_state_fields p
    by (simp add: ebind_def split: prod.splits)
qed


theorem mapping_centres_step_witness:
  "\<exists>st' sp0' st1 sp1.
      cyclic_step no_brentq (183 / 200) extension_state unloading_snapshot 100 = Inr (st', sp0')
    \<and> check_unload no_brentq extension_state
         (StateParameters (s_strain extension_state) (s_stress extension_state)
            (sp_dstrain unloading_snapshot) (vector_to_matrix [0, 0, 0, 100, 0, 0]) False False)
       = Inr (st1, sp1, True, False)
    \<and> s_alpha st' = [[1 / 10, 0, 0], [0, 1 / 10, 0], [0, 0, - (1 / 5)]]
    \<and> s_alpha extension_state = zeros33
    \<and> s_beta st' = s_beta extension_state"
proof -
  let ?sp = "StateParameters (s_strain extension_state) (s_stress extension_state)
               (sp_dstrain unloading_snapshot) (vector_to_matrix [0, 0, 0, 100, 0, 0]) False False"
  have d: "sp_dstrain unloading_snapshot = unloading_increment"
    by (simp add: unloading_snapshot_def extension_snapshot_fields)
  from extension_cyclic_step[OF d, of no_brentq "183 / 200" 100] obtain st' sp0' where
    s: "cyclic_step no_brentq (183 / 200) extension_state unloading_snapshot 100 = Inr (st', sp0')"
    by blast
  from mapping_centres_step[OF s] obtain st1 sp1 ef1 ef2 where
    c: "check_unload no_brentq extension_state ?sp = Inr (st1, sp1, ef1, ef2)"
    and a: "s_alpha st' = (if ef1 then sp_rij ?sp else s_alpha extension_state)"
    and b: "s_beta st' = (if ef2 then sp_p ?sp else s_beta extension_state)" by blast
  from extension_check_unload_snapshot[of no_brentq zeros33 "vector_to_matrix [0, 0, 0, 100, 0, 0]"]
  obtain spa where
    "check_unload no_brentq extension_state ?sp
       = Inr (extension_state\<lparr>s_H1 := 2 / 5,
                s_alpha := [[1 / 10, 0, 0], [0, 1 / 10, 0], [0, 0, - (1 / 5)]]\<rparr>, spa, True, False)"
    unfolding extension_state_fields d by blast
  with c have f: "ef1" "\<not> ef2" by simp_all
  have r: "sp_rij ?sp = [[1 / 10, 0, 0], [0, 1 / 10, 0], [0, 0, - (1 / 5)]]"
    unfolding extension_state_fields by (simp add: extension_snapshot_fields)
  from a f(1) r have a': "s_alpha st' = [[1 / 10, 0, 0], [0, 1 / 10, 0], [0, 0, - (1 / 5)]]"
    by simp
  from b f(2) have b': "s_beta st' = s_beta extension_state" by simp
  have z: "s_alpha extension_state = zeros33" by (simp add: extension_state_fields)
  from c f have c': "check_unload no_brentq extension_state ?sp = Inr (st1, sp1, True, False)"
    by simp
  show ?thesis
    by (intro exI[of _ st'] exI[of _ sp0'] exI[of _ st1] exI[of _ sp1] conjI)
       (rule s, rule c', rule a', rule z, rule b')
qed

end
